theory Spec2Isabelle
  imports Complex_Main "HOL-Library.Monad_Syntax"
begin

section \<open>Arithmetic of the C sources over the reals\<close>

text \<open>
  The sources compute with \<^verbatim>\<open>real\<close> (a C double). The embedding computes with the
  real numbers: rounding is not modelled. Where IEEE arithmetic leaves the finite
  numbers (a division by zero, the square root of a negative number, a pole or a domain
  error of \<^verbatim>\<open>pow\<close>) the C value is an infinity or a NaN; the embedding returns
  \<open>None\<close> there, so that no theorem rests on the value HOL gives to \<open>x / 0\<close>.
\<close>

definition fdiv :: "real \<Rightarrow> real \<Rightarrow> real option" where
  "fdiv x y = (if y = 0 then None else Some (x / y))"

definition fsqrt :: "real \<Rightarrow> real option" where
  "fsqrt x = (if x < 0 then None else Some (sqrt x))"

text \<open>\<^verbatim>\<open>pow(x, y)\<close> of the C library: a positive base, an integral exponent, or base zero
  with a positive exponent; a pole (\<open>0\<close> to a negative power) and a negative base with a
  fractional exponent are \<open>None\<close>.\<close>

definition c_pow :: "real \<Rightarrow> real \<Rightarrow> real option" where
  "c_pow x y =
     (if 0 < x then Some (x powr y)
      else if y = of_int \<lfloor>y\<rfloor> then (if x = 0 \<and> y < 0 then None else Some (x powi \<lfloor>y\<rfloor>))
      else if x = 0 \<and> 0 < y then Some 0
      else None)"

section \<open>The particle speed of a guiding-centre marker\<close>

text \<open>
  \<^verbatim>\<open>mccc_update_gc\<close> and \<^verbatim>\<open>mccc_collfreq_gc\<close> (simulate/mccc/mccc.c, lines 212-215 and
  133-136):
  \<^verbatim>\<open>real t = 2*p->mu[i]*Bnorm*p->mass[i];  real va = sqrt(p->vpar[i]*p->vpar[i] + t*t);\<close>
\<close>

definition gc_speed_update :: "real \<Rightarrow> real \<Rightarrow> real \<Rightarrow> real \<Rightarrow> real option" where
  "gc_speed_update vpar mu Bnorm mass =
     (let t = 2 * mu * Bnorm * mass in fsqrt (vpar * vpar + t * t))"

text \<open>
  \<^verbatim>\<open>mccc_step_gc_fixed\<close> and \<^verbatim>\<open>mccc_step_gc_adaptive\<close> (lines 357-358 and 512-513):
  \<^verbatim>\<open>real tmp = 2*p->mu[i]*Bnorm/p->mass[i];  real vin = sqrt(p->vpar[i]*p->vpar[i] + tmp);\<close>
\<close>

definition gc_speed_step :: "real \<Rightarrow> real \<Rightarrow> real \<Rightarrow> real \<Rightarrow> real option" where
  "gc_speed_step vpar mu Bnorm mass =
     do { tmp \<leftarrow> fdiv (2 * mu * Bnorm) mass; fsqrt (vpar * vpar + tmp) }"

section \<open>The step-size decision of the adaptive guiding-centre step\<close>

text \<open>
  Lines 632-636 of simulate/mccc/mccc.c:
  \<^verbatim>\<open>if(kappa_k[i] > 1 || kappa_d0[i] > 1 || kappa_d1[i] > 1) { rejected = 1; tindex[i]=0; }\<close>
\<close>

definition rejected :: "real \<Rightarrow> real \<Rightarrow> real \<Rightarrow> bool" where
  "rejected kappa_k kappa_d0 kappa_d1 \<longleftrightarrow> kappa_k > 1 \<or> kappa_d0 > 1 \<or> kappa_d1 > 1"

text \<open>
  Lines 638-647, the value stored in \<^verbatim>\<open>hout[i]\<close> before the sign is set:
  \<^verbatim>\<open>
  if(kappa_k[i] >= kappa_d0[i] && kappa_k[i] >= kappa_d1[i]) {
      hout[i] = 0.8*hin[i]/sqrt(kappa_k[i]); }
  else if(kappa_d0[i] >= kappa_k[i] && kappa_d0[i] >= kappa_d1[i]) {
      hout[i] = pow(0.9*fabs(dW[3])*pow(kappa_d0[i],-1.0/3),2.0); }
  else {
      hout[i] = pow(0.9*fabs(dW[4])*pow(kappa_d1[i],-1.0/3),2.0); }
  \<close>
\<close>

definition hout_proposal :: "real \<Rightarrow> real \<Rightarrow> real \<Rightarrow> real \<Rightarrow> real \<Rightarrow> real \<Rightarrow> real option" where
  "hout_proposal hin kappa_k kappa_d0 kappa_d1 dW3 dW4 =
     (if kappa_k \<ge> kappa_d0 \<and> kappa_k \<ge> kappa_d1 then
        do { s \<leftarrow> fsqrt kappa_k; fdiv (0.8 * hin) s }
      else if kappa_d0 \<ge> kappa_k \<and> kappa_d0 \<ge> kappa_d1 then
        do { a \<leftarrow> c_pow kappa_d0 (- 1 / 3); c_pow (0.9 * \<bar>dW3\<bar> * a) 2 }
      else
        do { a \<leftarrow> c_pow kappa_d1 (- 1 / 3); c_pow (0.9 * \<bar>dW4\<bar> * a) 2 })"

text \<open>Lines 649-652: \<^verbatim>\<open>if(rejected){ hout[i] = -hout[i]; }\<close>\<close>

definition hout_signed :: "real \<Rightarrow> real \<Rightarrow> real \<Rightarrow> real \<Rightarrow> real \<Rightarrow> real \<Rightarrow> real option" where
  "hout_signed hin kappa_k kappa_d0 kappa_d1 dW3 dW4 =
     do { h \<leftarrow> hout_proposal hin kappa_k kappa_d0 kappa_d1 dW3 dW4;
          Some (if rejected kappa_k kappa_d0 kappa_d1 then - h else h) }"


section \<open>Markers, plasma data and the functions of other modules\<close>

text \<open>
  \<^verbatim>\<open>particle_simd_gc\<close> and \<^verbatim>\<open>particle_simd_fo\<close> are structs of arrays of length
  \<^verbatim>\<open>NSIMD\<close> (particle.h, not among the sources here). A marker record collects the
  entries \<^verbatim>\<open>p->field[i]\<close> of one lane \<open>i\<close>, and a batch is the list of its lanes; the
  fields are the ones mccc.c reads or writes.
\<close>

record particle_gc =
  gc_running :: bool
  gc_r :: real
  gc_phi :: real
  gc_z :: real
  gc_vpar :: real
  gc_mu :: real
  gc_pol :: real
  gc_mass :: real
  gc_charge :: real
  gc_rho :: real
  gc_B_r :: real
  gc_B_r_dr :: real
  gc_B_r_dphi :: real
  gc_B_r_dz :: real
  gc_B_phi :: real
  gc_B_phi_dr :: real
  gc_B_phi_dphi :: real
  gc_B_phi_dz :: real
  gc_B_z :: real
  gc_B_z_dr :: real
  gc_B_z_dphi :: real
  gc_B_z_dz :: real

record particle_fo =
  fo_running :: bool
  fo_r :: real
  fo_phi :: real
  fo_z :: real
  fo_rdot :: real
  fo_phidot :: real
  fo_zdot :: real
  fo_mass :: real
  fo_charge :: real
  fo_rho :: real

text \<open>A per-species C array (\<^verbatim>\<open>real a[MAX_SPECIES]\<close>) is read as the function from the
  index to the cell; the bound on the index is checked where a loop runs over it.\<close>

type_synonym species_array = "nat \<Rightarrow> real"

type_synonym vec3 = "real \<times> real \<times> real"

record plasma_1d_data =
  pd_n_species :: int
  pd_mass :: species_array
  pd_charge :: species_array

text \<open>The fields of \<^verbatim>\<open>mccc_wienarr\<close> that mccc.c reads: \<^verbatim>\<open>w->time[k]\<close> and
  \<^verbatim>\<open>w->wiener[k]\<close>.\<close>

record mccc_wienarr =
  w_time :: "real list"
  w_wiener :: "real list"

text \<open>The output arrays of the coefficient evaluators, one cell per species.\<close>

record coefs_fo =
  cf_F :: species_array
  cf_Dpara :: species_array
  cf_Dperp :: species_array
  cf_K :: species_array
  cf_nu :: species_array

record coefs_gc =
  cg_Dpara :: species_array
  cg_DX :: species_array
  cg_K :: species_array
  cg_nu :: species_array

record coefs_gcadaptive = coefs_gc +
  cg_dQ :: species_array
  cg_dDpara :: species_array

text \<open>The arguments and the results of the three pushes of mccc_push.c, in the order of
  the calls; a result is what the call leaves behind its output pointers.\<close>

record push_gc_in =
  pi_K :: real
  pi_nu :: real
  pi_Dpara :: real
  pi_DX :: real
  pi_B :: vec3
  pi_dt :: real
  pi_noise :: "real list"
  pi_vin :: real
  pi_xiin :: real
  pi_Xin :: vec3
  pi_cutoff :: real
  pi_err :: int

record push_gcMI_in = push_gc_in +
  pi_dQ :: real
  pi_dDpara :: real
  pi_tol :: real

record push_gc_out =
  po_vout :: real
  po_xiout :: real
  po_Xout :: vec3
  po_err :: int

record push_gcMI_out = push_gc_out +
  po_kappa_k :: real
  po_kappa_d0 :: real
  po_kappa_d1 :: real

text \<open>
  The code of other modules that mccc.c calls, and the macros of ascot5.h and consts.h,
  are not among the sources; they are parameters of the embedding: one record of the
  macros, extended by the functions. The magnetic
  field data \<^verbatim>\<open>Bdata\<close> is part of the field functions. A function that fills an output
  array returns the array. The last field is what a local array holds before the code
  writes to it.
\<close>

record macros =
  NSIMD :: nat
  MAX_SPECIES :: nat
  MCCC_NDIM :: nat
  CONST_KB :: real
  CONST_2PI :: real
  CONST_E :: real
  CONST_M_E :: real
  CONST_U :: real

record externs = macros +
  plasma_1d_eval_temp :: "real \<Rightarrow> int \<Rightarrow> plasma_1d_data \<Rightarrow> real"
  plasma_1d_eval_dens :: "real \<Rightarrow> int \<Rightarrow> plasma_1d_data \<Rightarrow> real"
  plasma_1d_eval_densandtemp :: "real \<Rightarrow> plasma_1d_data \<Rightarrow> species_array \<times> species_array"
  mccc_coefs_clog :: "real \<Rightarrow> real \<Rightarrow> real \<Rightarrow> species_array \<Rightarrow> species_array \<Rightarrow>
    species_array \<Rightarrow> species_array \<Rightarrow> int \<Rightarrow> species_array"
  mccc_coefs_fo :: "real \<Rightarrow> real \<Rightarrow> real \<Rightarrow> species_array \<Rightarrow> species_array \<Rightarrow>
    species_array \<Rightarrow> species_array \<Rightarrow> species_array \<Rightarrow> int \<Rightarrow> coefs_fo"
  mccc_coefs_gcfixed :: "real \<Rightarrow> real \<Rightarrow> real \<Rightarrow> real \<Rightarrow> species_array \<Rightarrow> species_array \<Rightarrow>
    species_array \<Rightarrow> species_array \<Rightarrow> real \<Rightarrow> species_array \<Rightarrow> int \<Rightarrow> coefs_gc"
  mccc_coefs_gcadaptive :: "real \<Rightarrow> real \<Rightarrow> real \<Rightarrow> real \<Rightarrow> species_array \<Rightarrow> species_array \<Rightarrow>
    species_array \<Rightarrow> species_array \<Rightarrow> real \<Rightarrow> species_array \<Rightarrow> int \<Rightarrow> coefs_gcadaptive"
  mccc_wiener_generate :: "mccc_wienarr \<Rightarrow> real \<Rightarrow> real list \<Rightarrow> int \<Rightarrow> mccc_wienarr \<times> int \<times> int"
  mccc_push_foEM :: "real \<Rightarrow> real \<Rightarrow> real \<Rightarrow> real \<Rightarrow> real list \<Rightarrow> vec3 \<Rightarrow> int \<Rightarrow> vec3 \<times> int"
  mccc_push_gcEM :: "push_gc_in \<Rightarrow> push_gc_out"
  mccc_push_gcMI :: "push_gcMI_in \<Rightarrow> push_gcMI_out"
  math_norm :: "vec3 \<Rightarrow> real"
  math_normc :: "real \<Rightarrow> real \<Rightarrow> real \<Rightarrow> real"
  B_field_eval_B_dB :: "real \<Rightarrow> real \<Rightarrow> real \<Rightarrow> nat \<Rightarrow> real"
  B_field_eval_psi :: "real \<Rightarrow> real \<Rightarrow> real \<Rightarrow> real"
  B_field_eval_rho :: "real \<Rightarrow> real"
  B_field_get_axis_r :: real
  B_field_get_axis_z :: real
  uninitialised :: species_array

section \<open>Array reads, C library functions and the loops over species\<close>

text \<open>A read \<^verbatim>\<open>a[k]\<close> with an \<^verbatim>\<open>int\<close> index; outside the array the behaviour of the C
  program is undefined, and the embedding returns \<open>None\<close>.\<close>

definition rd :: "'a list \<Rightarrow> int \<Rightarrow> 'a option" where
  "rd a k = (if 0 \<le> k \<and> nat k < length a then Some (a ! nat k) else None)"

text \<open>\<^verbatim>\<open>fmod(x, y)\<close>: the remainder of the division truncated towards zero; \<^verbatim>\<open>atan2(y, x)\<close>:
  the angle of the point \<open>(x, y)\<close> in \<open>(-\<pi>, \<pi>]\<close>, zero at the origin (the sign of an IEEE
  zero is not modelled).\<close>

definition c_fmod :: "real \<Rightarrow> real \<Rightarrow> real option" where
  "c_fmod x y =
     (if y = 0 then None
      else Some (x - y * of_int (if 0 \<le> x / y then \<lfloor>x / y\<rfloor> else \<lceil>x / y\<rceil>)))"

definition c_atan2 :: "real \<Rightarrow> real \<Rightarrow> real" where
  "c_atan2 y x =
     (if 0 < x then arctan (y / x)
      else if x < 0 then (if 0 \<le> y then arctan (y / x) + pi else arctan (y / x) - pi)
      else if 0 < y then pi / 2
      else if y < 0 then - pi / 2
      else 0)"

text \<open>The local per-species arrays have \<^verbatim>\<open>MAX_SPECIES\<close> cells and every loop over the
  species runs to \<^verbatim>\<open>pdata->n_species\<close>: beyond \<^verbatim>\<open>MAX_SPECIES\<close> the loop leaves the array.\<close>

definition species_in_bounds :: "externs \<Rightarrow> plasma_1d_data \<Rightarrow> unit option" where
  "species_in_bounds X pd = (if pd_n_species pd \<le> int (MAX_SPECIES X) then Some () else None)"

text \<open>\<^verbatim>\<open>for(j = 0; j < pdata->n_species; j++) { temp[j] = temp[j]*CONST_KB; }\<close>\<close>

definition temp_to_joule :: "externs \<Rightarrow> plasma_1d_data \<Rightarrow> species_array \<Rightarrow> species_array" where
  "temp_to_joule X pd temp = (\<lambda>j. if int j < pd_n_species pd then temp j * CONST_KB X else temp j)"

text \<open>\<^verbatim>\<open>real D = 0; for(j=0; j<pdata->n_species; j=j+1){ D = D + Db[j]; }\<close>\<close>

definition sum_species :: "plasma_1d_data \<Rightarrow> species_array \<Rightarrow> real" where
  "sum_species pd a = foldl (\<lambda>acc j. acc + a j) 0 [0..<nat (pd_n_species pd)]"

section \<open>The guiding-centre steps of simulate/mccc/mccc.c, one lane\<close>

text \<open>
  Lines 415-426 and 595-606, the same in both steps: the new position from the Cartesian
  \<^verbatim>\<open>Xout\<close>, with cumulative angles.
  \<^verbatim>\<open>
  p->r[i] = sqrt(Xout[0]*Xout[0] + Xout[1]*Xout[1]);
  p->z[i] = Xout[2];
  real axis_r = B_field_get_axis_r(Bdata);
  real axis_z = B_field_get_axis_z(Bdata);
  p->pol[i] += atan2( (R0-axis_r) * (p->z[i]-axis_z) - (z0-axis_z) * (p->r[i]-axis_r),
                      (R0-axis_r) * (p->r[i]-axis_r) + (z0-axis_z) * (p->z[i]-axis_z) );
  real tphi = fmod(phi0 , CONST_2PI );
  if(tphi < 0){tphi = CONST_2PI+tphi;}
  tphi = fmod(atan2(Xout[1],Xout[0])+CONST_2PI,CONST_2PI) -  tphi;
  p->phi[i] = phi0 + tphi;
  \<close>
\<close>

definition update_position :: "externs \<Rightarrow> real \<Rightarrow> real \<Rightarrow> real \<Rightarrow> vec3 \<Rightarrow> particle_gc \<Rightarrow> particle_gc option" where
  "update_position X phi0 R0 z0 Xout p =
     (case Xout of (X0, X1, X2) \<Rightarrow>
      do {
        r' \<leftarrow> fsqrt (X0 * X0 + X1 * X1);
        let z' = X2;
        let axis_r = B_field_get_axis_r X;
        let axis_z = B_field_get_axis_z X;
        let pol' = gc_pol p + c_atan2 ((R0 - axis_r) * (z' - axis_z) - (z0 - axis_z) * (r' - axis_r))
                                      ((R0 - axis_r) * (r' - axis_r) + (z0 - axis_z) * (z' - axis_z));
        tphi0 \<leftarrow> c_fmod phi0 (CONST_2PI X);
        let tphi1 = (if tphi0 < 0 then CONST_2PI X + tphi0 else tphi0);
        a \<leftarrow> c_fmod (c_atan2 X1 X0 + CONST_2PI X) (CONST_2PI X);
        let tphi = a - tphi1;
        Some (p\<lparr>gc_r := r', gc_z := z', gc_pol := pol', gc_phi := phi0 + tphi\<rparr>)
      })"

text \<open>
  Lines 428-450 and 608-630, the same in both steps: the field, its derivatives and rho
  at the position the marker has now.
  \<^verbatim>\<open>
  B_field_eval_B_dB(B_dB, p->r[i], p->phi[i], p->z[i], Bdata);
  p->B_r[i] = B_dB[0]; p->B_r_dr[i] = B_dB[1]; p->B_r_dphi[i] = B_dB[2]; p->B_r_dz[i] = B_dB[3];
  p->B_phi[i] = B_dB[4]; p->B_phi_dr[i] = B_dB[5]; p->B_phi_dphi[i] = B_dB[6]; p->B_phi_dz[i] = B_dB[7];
  p->B_z[i] = B_dB[8]; p->B_z_dr[i] = B_dB[9]; p->B_z_dphi[i] = B_dB[10]; p->B_z_dz[i] = B_dB[11];
  B_field_eval_psi(psi, p->r[i], p->phi[i], p->z[i], Bdata);
  B_field_eval_rho(rho, psi[0], Bdata);
  p->rho[i] = rho[0];
  \<close>
\<close>

definition update_field :: "externs \<Rightarrow> particle_gc \<Rightarrow> particle_gc" where
  "update_field X p =
     (let B_dB = B_field_eval_B_dB X (gc_r p) (gc_phi p) (gc_z p);
          psi = B_field_eval_psi X (gc_r p) (gc_phi p) (gc_z p);
          rho = B_field_eval_rho X psi
      in p\<lparr>gc_B_r := B_dB 0, gc_B_r_dr := B_dB 1, gc_B_r_dphi := B_dB 2, gc_B_r_dz := B_dB 3,
            gc_B_phi := B_dB 4, gc_B_phi_dr := B_dB 5, gc_B_phi_dphi := B_dB 6, gc_B_phi_dz := B_dB 7,
            gc_B_z := B_dB 8, gc_B_z_dr := B_dB 9, gc_B_z_dphi := B_dB 10, gc_B_z_dz := B_dB 11,
            gc_rho := rho\<rparr>)"

text \<open>\<^verbatim>\<open>real cutoff = 0.1*sqrt(temp[0]/p->mass[i]);\<close> (lines 379 and 533)\<close>

definition cutoff_speed :: "species_array \<Rightarrow> real \<Rightarrow> real option" where
  "cutoff_speed temp mass = do { q \<leftarrow> fdiv (temp 0) mass; s \<leftarrow> fsqrt q; Some (0.1 * s) }"

text \<open>
  The arguments of \<^verbatim>\<open>mccc_push_gcEM\<close> in \<^verbatim>\<open>mccc_step_gc_fixed\<close>, lines 337-400: the
  background at the marker's rho, the speed and the pitch, the coefficients summed over
  the species, the Cartesian position, the cutoff, and the lane's five random numbers
  \<^verbatim>\<open>&rnd[i*5]\<close> and error slot \<^verbatim>\<open>&err[i]\<close>.
\<close>

definition gc_fixed_push_in ::
  "externs \<Rightarrow> plasma_1d_data \<Rightarrow> particle_gc \<Rightarrow> real \<Rightarrow> real list \<Rightarrow> int \<Rightarrow> push_gc_in option" where
  "gc_fixed_push_in X pd p h rnd err =
     do {
       let B = (gc_B_r p, gc_B_phi p, gc_B_z p);
       let (dens, temp0) = plasma_1d_eval_densandtemp X (gc_rho p) pd;
       _ \<leftarrow> species_in_bounds X pd;
       let temp = temp_to_joule X pd temp0;
       let Bnorm = math_norm X B;
       vin \<leftarrow> gc_speed_step (gc_vpar p) (gc_mu p) Bnorm (gc_mass p);
       xiin \<leftarrow> fdiv (gc_vpar p) vin;
       let clogab = mccc_coefs_clog X (gc_mass p) (gc_charge p) vin (pd_mass pd) (pd_charge pd)
                      dens temp (pd_n_species pd);
       let c = mccc_coefs_gcfixed X (gc_mass p) (gc_charge p) vin xiin (pd_mass pd) (pd_charge pd)
                 dens temp Bnorm clogab (pd_n_species pd);
       cutoff \<leftarrow> cutoff_speed temp (gc_mass p);
       Some \<lparr>pi_K = sum_species pd (cg_K c), pi_nu = sum_species pd (cg_nu c),
             pi_Dpara = sum_species pd (cg_Dpara c), pi_DX = sum_species pd (cg_DX c),
             pi_B = B, pi_dt = h, pi_noise = rnd, pi_vin = vin, pi_xiin = xiin,
             pi_Xin = (gc_r p * cos (gc_phi p), gc_r p * sin (gc_phi p), gc_z p),
             pi_cutoff = cutoff, pi_err = err\<rparr>
     }"

text \<open>
  One running lane of \<^verbatim>\<open>mccc_step_gc_fixed\<close>, lines 337-454 (the macros
  \<^verbatim>\<open>A5_CCOL_NOENERGY\<close>, \<^verbatim>\<open>A5_CCOL_NOPITCH\<close> and \<^verbatim>\<open>A5_CCOL_NOGCDIFF\<close> unset): the push, the
  new position, the field there, and then
  \<^verbatim>\<open>
  Bnorm = math_normc(B_dB[0], B_dB[4], B_dB[8]);
  p->mu[i] = (1-xiout*xiout)*p->mass[i]*vout*vout/(2*Bnorm);
  p->vpar[i] = vout*xiout;
  \<close>
  The result is the marker and the lane's error slot.
\<close>

definition mccc_step_gc_fixed_lane ::
  "externs \<Rightarrow> plasma_1d_data \<Rightarrow> particle_gc \<Rightarrow> real \<Rightarrow> real list \<Rightarrow> int \<Rightarrow> (particle_gc \<times> int) option" where
  "mccc_step_gc_fixed_lane X pd p h rnd err =
     do {
       a \<leftarrow> gc_fixed_push_in X pd p h rnd err;
       let out = mccc_push_gcEM X a;
       let vout = po_vout out;
       let xiout = po_xiout out;
       p1 \<leftarrow> update_position X (gc_phi p) (gc_r p) (gc_z p) (po_Xout out) p;
       let p2 = update_field X p1;
       let Bnorm = math_normc X (gc_B_r p2) (gc_B_phi p2) (gc_B_z p2);
       mu' \<leftarrow> fdiv ((1 - xiout * xiout) * gc_mass p2 * vout * vout) (2 * Bnorm);
       Some (p2\<lparr>gc_mu := mu', gc_vpar := vout * xiout\<rparr>, po_err out)
     }"

text \<open>
  The Wiener increment of \<^verbatim>\<open>mccc_step_gc_adaptive\<close>, lines 557-561:
  \<^verbatim>\<open>dW[k] = w[i]->wiener[tindex[i]*MCCC_NDIM + k] - w[i]->wiener[k];\<close> for \<open>k = 0, \<dots>, 4\<close>.
\<close>

definition wiener_increment :: "externs \<Rightarrow> mccc_wienarr \<Rightarrow> int \<Rightarrow> int \<Rightarrow> real option" where
  "wiener_increment X w tindex k =
     do { a \<leftarrow> rd (w_wiener w) (tindex * int (MCCC_NDIM X) + k);
          b \<leftarrow> rd (w_wiener w) k;
          Some (a - b) }"

text \<open>
  What one running lane of \<^verbatim>\<open>mccc_step_gc_adaptive\<close> leaves behind: the marker, the
  lane's slots of \<^verbatim>\<open>hout\<close>, \<^verbatim>\<open>w\<close> and \<^verbatim>\<open>err\<close>, and the locals of the iteration (the
  error estimates, the Wiener increment, the index and the flag).
\<close>

record gc_adaptive_lane =
  al_p :: particle_gc
  al_hout :: real
  al_w :: mccc_wienarr
  al_err :: int
  al_kappa_k :: real
  al_kappa_d0 :: real
  al_kappa_d1 :: real
  al_dW :: "real list"
  al_tindex :: int
  al_rejected :: bool

text \<open>
  The call of \<^verbatim>\<open>mccc_push_gcMI\<close>, lines 493-570: as in the fixed step up to the
  coefficients (now with \<^verbatim>\<open>dQ\<close> and \<^verbatim>\<open>dDpara\<close>); then
  \<^verbatim>\<open>
  real t = w[i]->time[0];
  mccc_wiener_generate(w[i], t+hin[i], &tindex[i], &rand5[i*MCCC_NDIM], &err[i]);
  \<close>
  and the increment \<^verbatim>\<open>dW\<close> is the noise of the push. The result is the argument of the
  push with the Wiener array and the index that \<^verbatim>\<open>mccc_wiener_generate\<close> left.
\<close>

definition gc_adaptive_push_in ::
  "externs \<Rightarrow> plasma_1d_data \<Rightarrow> real \<Rightarrow> particle_gc \<Rightarrow> real \<Rightarrow> mccc_wienarr \<Rightarrow> real list \<Rightarrow> int \<Rightarrow>
     (push_gcMI_in \<times> mccc_wienarr \<times> int) option" where
  "gc_adaptive_push_in X pd tol p hin w rand5 err =
     do {
       let B = (gc_B_r p, gc_B_phi p, gc_B_z p);
       let (dens, temp0) = plasma_1d_eval_densandtemp X (gc_rho p) pd;
       _ \<leftarrow> species_in_bounds X pd;
       let temp = temp_to_joule X pd temp0;
       let Bnorm = math_norm X B;
       vin \<leftarrow> gc_speed_step (gc_vpar p) (gc_mu p) Bnorm (gc_mass p);
       xiin \<leftarrow> fdiv (gc_vpar p) vin;
       let clogab = mccc_coefs_clog X (gc_mass p) (gc_charge p) vin (pd_mass pd) (pd_charge pd)
                      dens temp (pd_n_species pd);
       let c = mccc_coefs_gcadaptive X (gc_mass p) (gc_charge p) vin xiin (pd_mass pd) (pd_charge pd)
                 dens temp Bnorm clogab (pd_n_species pd);
       cutoff \<leftarrow> cutoff_speed temp (gc_mass p);
       t \<leftarrow> rd (w_time w) 0;
       let (w', tindex, err') = mccc_wiener_generate X w (t + hin) rand5 err;
       dW0 \<leftarrow> wiener_increment X w' tindex 0;
       dW1 \<leftarrow> wiener_increment X w' tindex 1;
       dW2 \<leftarrow> wiener_increment X w' tindex 2;
       dW3 \<leftarrow> wiener_increment X w' tindex 3;
       dW4 \<leftarrow> wiener_increment X w' tindex 4;
       Some (\<lparr>pi_K = sum_species pd (cg_K c), pi_nu = sum_species pd (cg_nu c),
              pi_Dpara = sum_species pd (cg_Dpara c), pi_DX = sum_species pd (cg_DX c),
              pi_B = B, pi_dt = hin, pi_noise = [dW0, dW1, dW2, dW3, dW4], pi_vin = vin,
              pi_xiin = xiin,
              pi_Xin = (gc_r p * cos (gc_phi p), gc_r p * sin (gc_phi p), gc_z p),
              pi_cutoff = cutoff, pi_err = err',
              pi_dQ = sum_species pd (cg_dQ c), pi_dDpara = sum_species pd (cg_dDpara c),
              pi_tol = tol\<rparr>, w', tindex)
     }"

text \<open>
  Lines 581-606 (the macros \<^verbatim>\<open>A5_CCOL_NOENERGY\<close>, \<^verbatim>\<open>A5_CCOL_NOPITCH\<close> and
  \<^verbatim>\<open>A5_CCOL_NOGCDIFF\<close> unset) and 608-630: the marker after the push. \<^verbatim>\<open>Bnorm\<close> is still the
  norm of the field before the push.
  \<^verbatim>\<open>
  p->mu[i] = (1-xiout*xiout)*p->mass[i]*vout*vout/(2*Bnorm);
  p->vpar[i] = vout*xiout;
  \<close>
  followed by the new position and the field there.
\<close>

definition gc_adaptive_commit :: "externs \<Rightarrow> particle_gc \<Rightarrow> push_gcMI_out \<Rightarrow> particle_gc option" where
  "gc_adaptive_commit X p out =
     do {
       let Bnorm = math_norm X (gc_B_r p, gc_B_phi p, gc_B_z p);
       let vout = po_vout out;
       let xiout = po_xiout out;
       mu' \<leftarrow> fdiv ((1 - xiout * xiout) * gc_mass p * vout * vout) (2 * Bnorm);
       p1 \<leftarrow> update_position X (gc_phi p) (gc_r p) (gc_z p) (po_Xout out)
               (p\<lparr>gc_mu := mu', gc_vpar := vout * xiout\<rparr>);
       Some (update_field X p1)
     }"

text \<open>One running lane of \<^verbatim>\<open>mccc_step_gc_adaptive\<close>, lines 493-653: the push, the marker
  after it, and then the decision of lines 632-652.\<close>

definition mccc_step_gc_adaptive_lane ::
  "externs \<Rightarrow> plasma_1d_data \<Rightarrow> real \<Rightarrow> particle_gc \<Rightarrow> real \<Rightarrow> mccc_wienarr \<Rightarrow> real list \<Rightarrow> int \<Rightarrow>
     gc_adaptive_lane option" where
  "mccc_step_gc_adaptive_lane X pd tol p hin w rand5 err =
     do {
       (a, w', tindex) \<leftarrow> gc_adaptive_push_in X pd tol p hin w rand5 err;
       let out = mccc_push_gcMI X a;
       p' \<leftarrow> gc_adaptive_commit X p out;
       let kappa_k = po_kappa_k out;
       let kappa_d0 = po_kappa_d0 out;
       let kappa_d1 = po_kappa_d1 out;
       let rej = rejected kappa_k kappa_d0 kappa_d1;
       h \<leftarrow> hout_signed hin kappa_k kappa_d0 kappa_d1 (pi_noise a ! 3) (pi_noise a ! 4);
       Some \<lparr>al_p = p', al_hout = h, al_w = w', al_err = po_err out,
             al_kappa_k = kappa_k, al_kappa_d0 = kappa_d0, al_kappa_d1 = kappa_d1,
             al_dW = pi_noise a, al_tindex = (if rej then 0 else tindex), al_rejected = rej\<rparr>
     }"

section \<open>The loop over the lanes\<close>

text \<open>Reads and writes of the arrays of a batch, with the index checked.\<close>

definition lane_rd :: "'a list \<Rightarrow> nat \<Rightarrow> 'a option" where
  "lane_rd a i = (if i < length a then Some (a ! i) else None)"

definition lane_wr :: "'a list \<Rightarrow> nat \<Rightarrow> 'a \<Rightarrow> 'a list option" where
  "lane_wr a i v = (if i < length a then Some (a[i := v]) else None)"

text \<open>
  \<^verbatim>\<open>for(i = 0; i < NSIMD; i++) { body }\<close>. The iteration of a lane has no result (\<open>None\<close>)
  when the arithmetic of the lane has no finite value or the lane reads outside an array.
  The loops of mccc.c have no exit: such a lane is left with entries that are not finite
  numbers, and the loop goes on with the next lane. \<open>for_lanes [0..<NSIMD] body (s, {})\<close>
  is that loop: the iterations in order, each on the state the one before left, and
  beside the state the set of the lanes whose iteration had no result. The record keeps
  for such a lane the entries it had before; they stand for values that the record
  cannot hold, and nothing is said about them. (An iteration also has no result when
  the plasma has more than \<^verbatim>\<open>MAX_SPECIES\<close> species and the lane would write outside its
  local arrays; what is proved of \<open>for_lanes\<close> leaves that plasma out.)
\<close>

fun for_lanes :: "nat list \<Rightarrow> (nat \<Rightarrow> 's \<Rightarrow> 's option) \<Rightarrow> 's \<times> nat set \<Rightarrow> 's \<times> nat set" where
  "for_lanes [] body (s, bad) = (s, bad)"
| "for_lanes (i # is) body (s, bad) =
     (case body i s of
        None \<Rightarrow> for_lanes is body (s, insert i bad)
      | Some s' \<Rightarrow> for_lanes is body (s', bad))"

text \<open>
  \<open>for_loop [0..<NSIMD] body\<close> is the same loop on the batches all of whose lanes have a
  result: it is \<open>Some s'\<close> exactly when \<open>for_lanes\<close> ends in \<open>s'\<close> with no lane set aside
  (lemma \<open>for_loop_lanes\<close> below), and \<open>None\<close> otherwise.
\<close>

fun for_loop :: "nat list \<Rightarrow> (nat \<Rightarrow> 's \<Rightarrow> 's option) \<Rightarrow> 's \<Rightarrow> 's option" where
  "for_loop [] body s = Some s"
| "for_loop (i # is) body s = (case body i s of None \<Rightarrow> None | Some s' \<Rightarrow> for_loop is body s')"

text \<open>
  \<^verbatim>\<open>mccc_step_gc_fixed(p, Bdata, pdata, h, err)\<close>: the memory it writes is the markers and
  the error flags; \<^verbatim>\<open>h\<close> and the random numbers \<^verbatim>\<open>rnd\<close> drawn before the loop
  (\<^verbatim>\<open>mccc_wiener_boxmuller(rnd, 5*NSIMD)\<close>) are read only. Lane \<open>i\<close> is passed \<^verbatim>\<open>&rnd[i*5]\<close>.
\<close>

record batch_gc_fixed =
  bf_p :: "particle_gc list"
  bf_err :: "int list"

definition step_gc_fixed_body ::
  "externs \<Rightarrow> plasma_1d_data \<Rightarrow> real list \<Rightarrow> real list \<Rightarrow> nat \<Rightarrow> batch_gc_fixed \<Rightarrow> batch_gc_fixed option" where
  "step_gc_fixed_body X pd h rnd i s =
     do {
       p \<leftarrow> lane_rd (bf_p s) i;
       if gc_running p then
         do {
           hi \<leftarrow> lane_rd h i;
           e \<leftarrow> lane_rd (bf_err s) i;
           (p', e') \<leftarrow> mccc_step_gc_fixed_lane X pd p hi (drop (i * 5) rnd) e;
           ps \<leftarrow> lane_wr (bf_p s) i p';
           es \<leftarrow> lane_wr (bf_err s) i e';
           Some \<lparr>bf_p = ps, bf_err = es\<rparr>
         }
       else Some s
     }"

definition mccc_step_gc_fixed ::
  "externs \<Rightarrow> plasma_1d_data \<Rightarrow> real list \<Rightarrow> real list \<Rightarrow> batch_gc_fixed \<Rightarrow> batch_gc_fixed option" where
  "mccc_step_gc_fixed X pd h rnd s = for_loop [0..<NSIMD X] (step_gc_fixed_body X pd h rnd) s"

text \<open>
  \<^verbatim>\<open>mccc_step_gc_adaptive(p, Bdata, pdata, hin, hout, w, tol, err)\<close>: it writes the markers,
  \<^verbatim>\<open>hout\<close>, the Wiener arrays behind \<^verbatim>\<open>w[i]\<close> (one array per lane: no two lanes share
  one) and the error flags. The function returns after the first loop (line 657); the
  second loop below it is never run.
\<close>

record batch_gc_adaptive =
  ba_p :: "particle_gc list"
  ba_hout :: "real list"
  ba_w :: "mccc_wienarr list"
  ba_err :: "int list"

definition step_gc_adaptive_body ::
  "externs \<Rightarrow> plasma_1d_data \<Rightarrow> real \<Rightarrow> real list \<Rightarrow> real list \<Rightarrow> nat \<Rightarrow> batch_gc_adaptive \<Rightarrow>
     batch_gc_adaptive option" where
  "step_gc_adaptive_body X pd tol hin rand5 i s =
     do {
       p \<leftarrow> lane_rd (ba_p s) i;
       if gc_running p then
         do {
           hi \<leftarrow> lane_rd hin i;
           wi \<leftarrow> lane_rd (ba_w s) i;
           e \<leftarrow> lane_rd (ba_err s) i;
           l \<leftarrow> mccc_step_gc_adaptive_lane X pd tol p hi wi (drop (i * MCCC_NDIM X) rand5) e;
           ps \<leftarrow> lane_wr (ba_p s) i (al_p l);
           hs \<leftarrow> lane_wr (ba_hout s) i (al_hout l);
           ws \<leftarrow> lane_wr (ba_w s) i (al_w l);
           es \<leftarrow> lane_wr (ba_err s) i (al_err l);
           Some \<lparr>ba_p = ps, ba_hout = hs, ba_w = ws, ba_err = es\<rparr>
         }
       else Some s
     }"

definition mccc_step_gc_adaptive ::
  "externs \<Rightarrow> plasma_1d_data \<Rightarrow> real \<Rightarrow> real list \<Rightarrow> real list \<Rightarrow> batch_gc_adaptive \<Rightarrow>
     batch_gc_adaptive option" where
  "mccc_step_gc_adaptive X pd tol hin rand5 s =
     for_loop [0..<NSIMD X] (step_gc_adaptive_body X pd tol hin rand5) s"

text \<open>The same function on every batch: the state after the loop, and the lanes whose
  iteration had no result.\<close>

definition mccc_step_gc_adaptive_lanes ::
  "externs \<Rightarrow> plasma_1d_data \<Rightarrow> real \<Rightarrow> real list \<Rightarrow> real list \<Rightarrow> batch_gc_adaptive \<Rightarrow>
     batch_gc_adaptive \<times> nat set" where
  "mccc_step_gc_adaptive_lanes X pd tol hin rand5 s =
     for_lanes [0..<NSIMD X] (step_gc_adaptive_body X pd tol hin rand5) (s, {})"

section \<open>The full-orbit step\<close>

text \<open>
  One running lane of \<^verbatim>\<open>mccc_step_fo_fixed\<close>, lines 250-308 of simulate/mccc/mccc.c (the
  macros \<^verbatim>\<open>A5_CCOL_NOENERGY\<close> and \<^verbatim>\<open>A5_CCOL_NOPITCH\<close> unset): the coefficients at the
  marker's speed, summed over the species, the push \<^verbatim>\<open>mccc_push_foEM\<close> of the Cartesian
  velocity with the lane's random numbers \<^verbatim>\<open>&rnd[i*3]\<close> and error slot \<^verbatim>\<open>&err[i]\<close>, and
  the velocity back in cylindrical components,
  \<^verbatim>\<open>p->phidot[i] = (-vout[0] * sin(p->phi[i]) + vout[1] * cos(p->phi[i]) ) / p->r[i];\<close>
\<close>

definition mccc_step_fo_fixed_lane ::
  "externs \<Rightarrow> plasma_1d_data \<Rightarrow> particle_fo \<Rightarrow> real \<Rightarrow> real list \<Rightarrow> int \<Rightarrow> (particle_fo \<times> int) option" where
  "mccc_step_fo_fixed_lane X pd p h rnd err =
     do {
       let (dens, temp0) = plasma_1d_eval_densandtemp X (fo_rho p) pd;
       _ \<leftarrow> species_in_bounds X pd;
       let temp = temp_to_joule X pd temp0;
       va \<leftarrow> fsqrt (fo_rdot p * fo_rdot p + (fo_r p * fo_phidot p) * (fo_r p * fo_phidot p)
                     + fo_zdot p * fo_zdot p);
       let clogab = mccc_coefs_clog X (fo_mass p) (fo_charge p) va (pd_mass pd) (pd_charge pd)
                      dens temp (pd_n_species pd);
       let c = mccc_coefs_fo X (fo_mass p) (fo_charge p) va (pd_mass pd) (pd_charge pd)
                 dens temp clogab (pd_n_species pd);
       let F = sum_species pd (cf_F c);
       let Dpara = sum_species pd (cf_Dpara c);
       let Dperp = sum_species pd (cf_Dperp c);
       let vin = (fo_rdot p * cos (fo_phi p) - (fo_phidot p * fo_r p) * sin (fo_phi p),
                  fo_rdot p * sin (fo_phi p) + (fo_phidot p * fo_r p) * cos (fo_phi p),
                  fo_zdot p);
       let ((v0, v1, v2), err') = mccc_push_foEM X F Dpara Dperp h rnd vin err;
       phidot' \<leftarrow> fdiv (- v0 * sin (fo_phi p) + v1 * cos (fo_phi p)) (fo_r p);
       Some (p\<lparr>fo_rdot := v0 * cos (fo_phi p) + v1 * sin (fo_phi p),
               fo_phidot := phidot', fo_zdot := v2\<rparr>, err')
     }"

record batch_fo_fixed =
  ff_p :: "particle_fo list"
  ff_err :: "int list"

definition step_fo_fixed_body ::
  "externs \<Rightarrow> plasma_1d_data \<Rightarrow> real list \<Rightarrow> real list \<Rightarrow> nat \<Rightarrow> batch_fo_fixed \<Rightarrow> batch_fo_fixed option" where
  "step_fo_fixed_body X pd h rnd i s =
     do {
       p \<leftarrow> lane_rd (ff_p s) i;
       if fo_running p then
         do {
           hi \<leftarrow> lane_rd h i;
           e \<leftarrow> lane_rd (ff_err s) i;
           (p', e') \<leftarrow> mccc_step_fo_fixed_lane X pd p hi (drop (i * 3) rnd) e;
           ps \<leftarrow> lane_wr (ff_p s) i p';
           es \<leftarrow> lane_wr (ff_err s) i e';
           Some \<lparr>ff_p = ps, ff_err = es\<rparr>
         }
       else Some s
     }"

definition mccc_step_fo_fixed ::
  "externs \<Rightarrow> plasma_1d_data \<Rightarrow> real list \<Rightarrow> real list \<Rightarrow> batch_fo_fixed \<Rightarrow> batch_fo_fixed option" where
  "mccc_step_fo_fixed X pd h rnd s = for_loop [0..<NSIMD X] (step_fo_fixed_body X pd h rnd) s"

text \<open>The same function on every batch: the state after the loop, and the lanes whose
  iteration had no result.\<close>

definition mccc_step_fo_fixed_lanes ::
  "externs \<Rightarrow> plasma_1d_data \<Rightarrow> real list \<Rightarrow> real list \<Rightarrow> batch_fo_fixed \<Rightarrow> batch_fo_fixed \<times> nat set" where
  "mccc_step_fo_fixed_lanes X pd h rnd s =
     for_lanes [0..<NSIMD X] (step_fo_fixed_body X pd h rnd) (s, {})"

section \<open>The coefficient updates\<close>

text \<open>
  The background of \<^verbatim>\<open>mccc_update_fo\<close>, \<^verbatim>\<open>mccc_update_gc\<close> and \<^verbatim>\<open>mccc_collfreq_gc\<close>
  (lines 62-77, 115-130 and 194-209), written into the local arrays
  \<^verbatim>\<open>temp[MAX_SPECIES]\<close> and \<^verbatim>\<open>dens[MAX_SPECIES]\<close>:
  \<^verbatim>\<open>
  temp[0] = plasma_1d_eval_temp(p->rho[i], 0, pdata)*CONST_KB;
  temp[1] = plasma_1d_eval_temp(p->rho[i], 1, pdata)*CONST_KB;
  dens[0] = plasma_1d_eval_dens(p->rho[i], 0, pdata);
  for(j = 1; j < pdata->n_species; j++) {
      dens[j] = plasma_1d_eval_dens(p->rho[i], j, pdata);
      temp[j] = temp[1];
  }
  \<close>
  The result is \<open>(dens, temp)\<close>. The write to \<^verbatim>\<open>temp[1]\<close> needs two cells.
\<close>

definition eval_background :: "externs \<Rightarrow> plasma_1d_data \<Rightarrow> real \<Rightarrow> (species_array \<times> species_array) option" where
  "eval_background X pd rho =
     (if MAX_SPECIES X < 2 then None
      else do {
        let temp = (uninitialised X)(0 := plasma_1d_eval_temp X rho 0 pd * CONST_KB X);
        let temp = temp(1 := plasma_1d_eval_temp X rho 1 pd * CONST_KB X);
        let dens = (uninitialised X)(0 := plasma_1d_eval_dens X rho 0 pd);
        _ \<leftarrow> species_in_bounds X pd;
        Some (foldl (\<lambda>(dens, temp) j. (dens(j := plasma_1d_eval_dens X rho (int j) pd), temp(j := temp 1)))
                (dens, temp) [1..<nat (pd_n_species pd)])
      })"

text \<open>
  An evaluator that is passed \<^verbatim>\<open>&a[i*MAX_SPECIES]\<close> and \<^verbatim>\<open>pdata->n_species\<close> writes one
  cell per species from that cell of \<^verbatim>\<open>a\<close> on.
\<close>

definition write_block :: "real list \<Rightarrow> nat \<Rightarrow> species_array \<Rightarrow> int \<Rightarrow> real list option" where
  "write_block a off v n = for_loop [0..<nat n] (\<lambda>j a. lane_wr a (off + j) (v j)) a"

text \<open>
  \<^verbatim>\<open>mccc_update_fo(p, Bdata, pdata, clogab, F, Dpara, Dperp, K, nu)\<close>, lines 57-88: the
  markers are read only, and the six output arrays hold \<^verbatim>\<open>MAX_SPECIES\<close> cells for each
  lane.
\<close>

record batch_update_fo =
  uf_clogab :: "real list"
  uf_F :: "real list"
  uf_Dpara :: "real list"
  uf_Dperp :: "real list"
  uf_K :: "real list"
  uf_nu :: "real list"

definition update_fo_body ::
  "externs \<Rightarrow> plasma_1d_data \<Rightarrow> particle_fo list \<Rightarrow> nat \<Rightarrow> batch_update_fo \<Rightarrow> batch_update_fo option" where
  "update_fo_body X pd ps i s =
     do {
       p \<leftarrow> lane_rd ps i;
       if fo_running p then
         do {
           (dens, temp) \<leftarrow> eval_background X pd (fo_rho p);
           va \<leftarrow> fsqrt (fo_rdot p * fo_rdot p + (fo_r p * fo_phidot p) * (fo_r p * fo_phidot p)
                         + fo_zdot p * fo_zdot p);
           let n = pd_n_species pd;
           let off = i * MAX_SPECIES X;
           let clogab = mccc_coefs_clog X (fo_mass p) (fo_charge p) va (pd_mass pd) (pd_charge pd)
                          dens temp n;
           a0 \<leftarrow> write_block (uf_clogab s) off clogab n;
           let c = mccc_coefs_fo X (fo_mass p) (fo_charge p) va (pd_mass pd) (pd_charge pd)
                     dens temp clogab n;
           a1 \<leftarrow> write_block (uf_F s) off (cf_F c) n;
           a2 \<leftarrow> write_block (uf_Dpara s) off (cf_Dpara c) n;
           a3 \<leftarrow> write_block (uf_Dperp s) off (cf_Dperp c) n;
           a4 \<leftarrow> write_block (uf_K s) off (cf_K c) n;
           a5 \<leftarrow> write_block (uf_nu s) off (cf_nu c) n;
           Some \<lparr>uf_clogab = a0, uf_F = a1, uf_Dpara = a2, uf_Dperp = a3, uf_K = a4, uf_nu = a5\<rparr>
         }
       else Some s
     }"

definition mccc_update_fo ::
  "externs \<Rightarrow> plasma_1d_data \<Rightarrow> particle_fo list \<Rightarrow> batch_update_fo \<Rightarrow> batch_update_fo option" where
  "mccc_update_fo X pd ps s = for_loop [0..<NSIMD X] (update_fo_body X pd ps) s"

text \<open>
  \<^verbatim>\<open>mccc_update_gc(p, Bdata, pdata, clogab, Dpara, DX, K, nu, dQ, dDpara)\<close>, lines 183-222,
  with the speed \<^verbatim>\<open>va\<close> of lines 212-214 and \<^verbatim>\<open>xi = p->vpar[i]/va\<close>.
\<close>

record batch_update_gc =
  ug_clogab :: "real list"
  ug_Dpara :: "real list"
  ug_DX :: "real list"
  ug_K :: "real list"
  ug_nu :: "real list"
  ug_dQ :: "real list"
  ug_dDpara :: "real list"

definition update_gc_body ::
  "externs \<Rightarrow> plasma_1d_data \<Rightarrow> particle_gc list \<Rightarrow> nat \<Rightarrow> batch_update_gc \<Rightarrow> batch_update_gc option" where
  "update_gc_body X pd ps i s =
     do {
       p \<leftarrow> lane_rd ps i;
       if gc_running p then
         do {
           let B = (gc_B_r p, gc_B_phi p, gc_B_z p);
           (dens, temp) \<leftarrow> eval_background X pd (gc_rho p);
           let Bnorm = math_norm X B;
           va \<leftarrow> gc_speed_update (gc_vpar p) (gc_mu p) Bnorm (gc_mass p);
           xi \<leftarrow> fdiv (gc_vpar p) va;
           let n = pd_n_species pd;
           let off = i * MAX_SPECIES X;
           let clogab = mccc_coefs_clog X (gc_mass p) (gc_charge p) va (pd_mass pd) (pd_charge pd)
                          dens temp n;
           a0 \<leftarrow> write_block (ug_clogab s) off clogab n;
           let c = mccc_coefs_gcadaptive X (gc_mass p) (gc_charge p) va xi (pd_mass pd) (pd_charge pd)
                     dens temp Bnorm clogab n;
           a1 \<leftarrow> write_block (ug_Dpara s) off (cg_Dpara c) n;
           a2 \<leftarrow> write_block (ug_DX s) off (cg_DX c) n;
           a3 \<leftarrow> write_block (ug_K s) off (cg_K c) n;
           a4 \<leftarrow> write_block (ug_nu s) off (cg_nu c) n;
           a5 \<leftarrow> write_block (ug_dQ s) off (cg_dQ c) n;
           a6 \<leftarrow> write_block (ug_dDpara s) off (cg_dDpara c) n;
           Some \<lparr>ug_clogab = a0, ug_Dpara = a1, ug_DX = a2, ug_K = a3, ug_nu = a4,
                 ug_dQ = a5, ug_dDpara = a6\<rparr>
         }
       else Some s
     }"

definition mccc_update_gc ::
  "externs \<Rightarrow> plasma_1d_data \<Rightarrow> particle_gc list \<Rightarrow> batch_update_gc \<Rightarrow> batch_update_gc option" where
  "mccc_update_gc X pd ps s = for_loop [0..<NSIMD X] (update_gc_body X pd ps) s"

text \<open>
  \<^verbatim>\<open>mccc_collfreq_gc(p, Bdata, pdata, nu, i)\<close>, lines 104-153: the collision frequency
  of the marker in lane \<open>i\<close>, summed over the species, at the same speed \<^verbatim>\<open>va\<close> as
  \<^verbatim>\<open>mccc_update_gc\<close>.
\<close>

definition mccc_collfreq_gc :: "externs \<Rightarrow> plasma_1d_data \<Rightarrow> particle_gc \<Rightarrow> real option" where
  "mccc_collfreq_gc X pd p =
     do {
       let B = (gc_B_r p, gc_B_phi p, gc_B_z p);
       (dens, temp) \<leftarrow> eval_background X pd (gc_rho p);
       let Bnorm = math_norm X B;
       va \<leftarrow> gc_speed_update (gc_vpar p) (gc_mu p) Bnorm (gc_mass p);
       xi \<leftarrow> fdiv (gc_vpar p) va;
       let clogab = mccc_coefs_clog X (gc_mass p) (gc_charge p) va (pd_mass pd) (pd_charge pd)
                      dens temp (pd_n_species pd);
       let c = mccc_coefs_gcfixed X (gc_mass p) (gc_charge p) va xi (pd_mass pd) (pd_charge pd)
                 dens temp Bnorm clogab (pd_n_species pd);
       Some (sum_species pd (cg_nu c))
     }"

section \<open>The guiding-centre step of the older mccc/mccc.c\<close>

text \<open>
  The sources hold a second, older copy of the interface, mccc/mccc.c. Its
  \<^verbatim>\<open>mccc_step_gc_fixed\<close> (lines 153-233) evaluates the field, psi and rho at the marker's
  position, and the temperature and density of every species there,
  \<^verbatim>\<open>
  B_field_eval_B(B, p->r[i], p->phi[i], p->z[i], Bdata);
  B_field_eval_psi(psi, p->r[i], p->phi[i], p->z[i], Bdata);
  B_field_eval_rho(rho, psi[0], Bdata);
  for(j = 0; j < pdata->n_species; j++) {
      temp[j] = plasma_1d_eval_temp(rho[0], j, pdata)*CONST_KB;
      dens[j] = plasma_1d_eval_dens(rho[0], j, pdata);
  }
  \<close>
  and calls the push with
  \<^verbatim>\<open>real cutoff = 0; //TODO give me a real value!\<close>
  and five numbers \<^verbatim>\<open>rnd[k] = 1-2*drand48()\<close>. \<^verbatim>\<open>B_field_eval_B\<close> is one more function of
  the field module, a parameter here; the five numbers drawn are \<open>rnd\<close>.
\<close>

definition legacy_eval_background :: "externs \<Rightarrow> plasma_1d_data \<Rightarrow> real \<Rightarrow> (species_array \<times> species_array) option" where
  "legacy_eval_background X pd rho =
     do {
       _ \<leftarrow> species_in_bounds X pd;
       Some (foldl (\<lambda>(dens, temp) j. (dens(j := plasma_1d_eval_dens X rho (int j) pd),
                                       temp(j := plasma_1d_eval_temp X rho (int j) pd * CONST_KB X)))
               (uninitialised X, uninitialised X) [0..<nat (pd_n_species pd)])
     }"

definition legacy_gc_fixed_push_in ::
  "externs \<Rightarrow> (real \<Rightarrow> real \<Rightarrow> real \<Rightarrow> vec3) \<Rightarrow> plasma_1d_data \<Rightarrow> particle_gc \<Rightarrow> real \<Rightarrow> real list \<Rightarrow> int \<Rightarrow>
     push_gc_in option" where
  "legacy_gc_fixed_push_in X B_field_eval_B pd p h rnd err =
     do {
       let B = B_field_eval_B (gc_r p) (gc_phi p) (gc_z p);
       let psi = B_field_eval_psi X (gc_r p) (gc_phi p) (gc_z p);
       let rho = B_field_eval_rho X psi;
       (dens, temp) \<leftarrow> legacy_eval_background X pd rho;
       let Bnorm = math_norm X B;
       vin \<leftarrow> gc_speed_step (gc_vpar p) (gc_mu p) Bnorm (gc_mass p);
       xiin \<leftarrow> fdiv (gc_vpar p) vin;
       let clogab = mccc_coefs_clog X (gc_mass p) (gc_charge p) vin (pd_mass pd) (pd_charge pd)
                      dens temp (pd_n_species pd);
       let c = mccc_coefs_gcfixed X (gc_mass p) (gc_charge p) vin xiin (pd_mass pd) (pd_charge pd)
                 dens temp Bnorm clogab (pd_n_species pd);
       let cutoff = 0;
       Some \<lparr>pi_K = sum_species pd (cg_K c), pi_nu = sum_species pd (cg_nu c),
             pi_Dpara = sum_species pd (cg_Dpara c), pi_DX = sum_species pd (cg_DX c),
             pi_B = B, pi_dt = h, pi_noise = rnd, pi_vin = vin, pi_xiin = xiin,
             pi_Xin = (gc_r p * cos (gc_phi p), gc_r p * sin (gc_phi p), gc_z p),
             pi_cutoff = cutoff, pi_err = err\<rparr>
     }"

text \<open>
  Lines 223-230 of mccc/mccc.c: the push and the marker after it.
  \<^verbatim>\<open>
  p->mu[i] = (1-xiout*xiout)*p->mass[i]*vout*vout/(2*Bnorm);
  p->vpar[i] = vout*xiout;
  p->r[i] = sqrt(Xout[0]*Xout[0] + Xout[1]*Xout[1]);
  p->phi[i] = atan2(Xout[1],Xout[0]);
  p->z[i] = Xout[2];
  \<close>
\<close>

definition legacy_step_gc_fixed_lane ::
  "externs \<Rightarrow> (real \<Rightarrow> real \<Rightarrow> real \<Rightarrow> vec3) \<Rightarrow> plasma_1d_data \<Rightarrow> particle_gc \<Rightarrow> real \<Rightarrow> real list \<Rightarrow> int \<Rightarrow>
     (particle_gc \<times> int) option" where
  "legacy_step_gc_fixed_lane X B_field_eval_B pd p h rnd err =
     do {
       a \<leftarrow> legacy_gc_fixed_push_in X B_field_eval_B pd p h rnd err;
       let out = mccc_push_gcEM X a;
       let vout = po_vout out;
       let xiout = po_xiout out;
       let Bnorm = math_norm X (pi_B a);
       mu' \<leftarrow> fdiv ((1 - xiout * xiout) * gc_mass p * vout * vout) (2 * Bnorm);
       r' \<leftarrow> (case po_Xout out of (X0, X1, X2) \<Rightarrow> fsqrt (X0 * X0 + X1 * X1));
       Some (p\<lparr>gc_mu := mu', gc_vpar := vout * xiout, gc_r := r',
               gc_phi := (case po_Xout out of (X0, X1, X2) \<Rightarrow> c_atan2 X1 X0),
               gc_z := (case po_Xout out of (X0, X1, X2) \<Rightarrow> X2)\<rparr>, po_err out)
     }"

section \<open>The HDF5 readers of the plasma input\<close>

text \<open>
  hdf5io/hdf5_plasma.c. A file is the datasets of one plasma group; \<open>None\<close> is a dataset
  that \<^verbatim>\<open>hdf5_read_int\<close> or \<^verbatim>\<open>hdf5_read_double\<close> (hdf5_helpers.h, not among the sources)
  cannot read, so that the call is non-zero and the reader returns 1.
\<close>

record hdf5_plasma_file =
  f_nion :: "int option"
  f_nrho :: "int option"
  f_rhomin :: "real option"
  f_rhomax :: "real option"
  f_znum :: "int list option"
  f_anum :: "int list option"
  f_charge :: "int list option"
  f_mass :: "int list option"
  f_rho :: "real list option"
  f_etemperature :: "real list option"
  f_edensity :: "real list option"
  f_iontemperature :: "real list option"
  f_iondensity :: "real list option"

text \<open>The fields of \<^verbatim>\<open>plasma_1D_offload_data\<close> and \<^verbatim>\<open>plasma_1DS_offload_data\<close> that the
  readers write; the per-species arrays have \<^verbatim>\<open>MAX_SPECIES\<close> cells.\<close>

record plasma_1D_offload_data =
  od_n_rho :: int
  od_n_species :: int
  od_offload_array_length :: int
  od_mass :: species_array
  od_charge :: species_array
  od_znum :: "nat \<Rightarrow> int"
  od_anum :: "nat \<Rightarrow> int"

record plasma_1DS_offload_data = plasma_1D_offload_data +
  od_rho_min :: real
  od_rho_max :: real

text \<open>The memory of a reader: the struct behind \<^verbatim>\<open>offload_data\<close>, the locals \<^verbatim>\<open>n_rho\<close>,
  \<^verbatim>\<open>n_ions\<close> and \<^verbatim>\<open>temparr[MAX_SPECIES]\<close>, the array behind \<^verbatim>\<open>*offload_array\<close>, and what
  memory holds when \<^verbatim>\<open>malloc\<close> returns it.\<close>

record 'o reader =
  rs_od :: 'o
  rs_n_rho :: int
  rs_n_ions :: int
  rs_temparr :: "nat \<Rightarrow> int"
  rs_array :: "real list"
  rs_heap :: "nat \<Rightarrow> real"

text \<open>
  How a statement ends: control goes on to the next statement, the function returns a
  value, or the statement reads or writes outside an array (undefined behaviour in C,
  which the readers do not detect). Each carries the memory at that point.
\<close>

datatype 's ctl = Next 's | Returned int 's | OutOfBounds 's

fun run_steps :: "('s \<Rightarrow> 's ctl) list \<Rightarrow> 's \<Rightarrow> 's ctl" where
  "run_steps [] s = Next s"
| "run_steps (f # fs) s = (case f s of Next s' \<Rightarrow> run_steps fs s' | stop \<Rightarrow> stop)"

fun ctl_for :: "nat list \<Rightarrow> (nat \<Rightarrow> 's \<Rightarrow> 's ctl) \<Rightarrow> 's \<Rightarrow> 's ctl" where
  "ctl_for [] body s = Next s"
| "ctl_for (i # is) body s = (case body i s of Next s' \<Rightarrow> ctl_for is body s' | stop \<Rightarrow> stop)"

text \<open>\<^verbatim>\<open>if( hdf5_read_int(PLSPATH "name", &x, f, qid, __FILE__, __LINE__) ) {return 1;}\<close>
  for one number.\<close>

definition read_scalar :: "'a option \<Rightarrow> ('a \<Rightarrow> 's \<Rightarrow> 's) \<Rightarrow> 's \<Rightarrow> 's ctl" where
  "read_scalar ds put s = (case ds of None \<Rightarrow> Returned 1 s | Some v \<Rightarrow> Next (put v s))"

text \<open>The same for a dataset read into an array of \<^verbatim>\<open>MAX_SPECIES\<close> cells: the dataset is
  written from cell 0 on, \<open>upd w\<close> being the memory with the array \<open>a\<close> replaced by \<open>w a\<close>.\<close>

definition read_species ::
  "'m macros_scheme \<Rightarrow> 'a list option \<Rightarrow> (((nat \<Rightarrow> 'a) \<Rightarrow> (nat \<Rightarrow> 'a)) \<Rightarrow> 's \<Rightarrow> 's) \<Rightarrow> 's \<Rightarrow> 's ctl" where
  "read_species M ds upd s =
     (case ds of
        None \<Rightarrow> Returned 1 s
      | Some xs \<Rightarrow>
          if length xs > MAX_SPECIES M then OutOfBounds s
          else Next (upd (\<lambda>a j. if j < length xs then xs ! j else a j) s))"

text \<open>A write \<^verbatim>\<open>offload_data->a[k] = v\<close> to a per-species array.\<close>

definition store_species :: "'m macros_scheme \<Rightarrow> nat \<Rightarrow> ('s \<Rightarrow> 's) \<Rightarrow> 's \<Rightarrow> 's ctl" where
  "store_species M k upd s = (if k < MAX_SPECIES M then Next (upd s) else OutOfBounds s)"

text \<open>
  \<^verbatim>\<open>offload_data->n_species = n_ions + 1; /* Include electrons */\<close> (lines 93 and 185),
  and lines 96-118 of \<^verbatim>\<open>hdf5_plasma_read_1D\<close> and 189-211 of \<^verbatim>\<open>hdf5_plasma_read_1DS\<close>,
  the same in both: the species.
  \<^verbatim>\<open>
  offload_data->charge[0] = -1 * CONST_E;
  offload_data->mass[0]   = CONST_M_E;
  int temparr[MAX_SPECIES];
  if( hdf5_read_int(PLSPATH "znum", offload_data->znum, ...) ) {return 1;}
  if( hdf5_read_int(PLSPATH "anum", offload_data->anum, ...) ) {return 1;}
  if( hdf5_read_int(PLSPATH "charge", temparr, ...) ) {return 1;}
  for(int i = 0; i < n_ions; i++) { offload_data->charge[i+1] = temparr[i] * CONST_E; }
  if( hdf5_read_int(PLSPATH "mass", temparr, ...) ) {return 1;}
  for(int i = 0; i < n_ions; i++) { offload_data->mass[i+1] = temparr[i] * CONST_U; }
  \<close>
\<close>

definition set_n_species :: "('o plasma_1D_offload_data_scheme) reader \<Rightarrow> ('o plasma_1D_offload_data_scheme) reader ctl" where
  "set_n_species s = Next (s\<lparr>rs_od := (rs_od s)\<lparr>od_n_species := rs_n_ions s + 1\<rparr>\<rparr>)"

definition read_species_info ::
  "'m macros_scheme \<Rightarrow> hdf5_plasma_file \<Rightarrow>
     (('o plasma_1D_offload_data_scheme) reader \<Rightarrow> ('o plasma_1D_offload_data_scheme) reader ctl) list" where
  "read_species_info M f =
     [store_species M 0 (\<lambda>s. s\<lparr>rs_od := (rs_od s)\<lparr>od_charge := (od_charge (rs_od s))(0 := - 1 * CONST_E M)\<rparr>\<rparr>),
      store_species M 0 (\<lambda>s. s\<lparr>rs_od := (rs_od s)\<lparr>od_mass := (od_mass (rs_od s))(0 := CONST_M_E M)\<rparr>\<rparr>),
      read_species M (f_znum f) (\<lambda>w s. s\<lparr>rs_od := (rs_od s)\<lparr>od_znum := w (od_znum (rs_od s))\<rparr>\<rparr>),
      read_species M (f_anum f) (\<lambda>w s. s\<lparr>rs_od := (rs_od s)\<lparr>od_anum := w (od_anum (rs_od s))\<rparr>\<rparr>),
      read_species M (f_charge f) (\<lambda>w s. s\<lparr>rs_temparr := w (rs_temparr s)\<rparr>),
      \<lambda>s. ctl_for [0..<nat (rs_n_ions s)]
             (\<lambda>i. store_species M (i + 1)
                (\<lambda>s. s\<lparr>rs_od := (rs_od s)\<lparr>od_charge :=
                    (od_charge (rs_od s))(i + 1 := of_int (rs_temparr s i) * CONST_E M)\<rparr>\<rparr>)) s,
      read_species M (f_mass f) (\<lambda>w s. s\<lparr>rs_temparr := w (rs_temparr s)\<rparr>),
      \<lambda>s. ctl_for [0..<nat (rs_n_ions s)]
             (\<lambda>i. store_species M (i + 1)
                (\<lambda>s. s\<lparr>rs_od := (rs_od s)\<lparr>od_mass :=
                    (od_mass (rs_od s))(i + 1 := of_int (rs_temparr s i) * CONST_U M)\<rparr>\<rparr>)) s]"

text \<open>
  The offload array, a \<^verbatim>\<open>malloc\<close> of \<^verbatim>\<open>offload_array_length\<close> cells of a \<^verbatim>\<open>real\<close>, a dataset
  read to the cells of the array from \<^verbatim>\<open>off\<close> on, and the loop
  \<^verbatim>\<open>for(int i = 0; i < n_rho; i++) { temp_e[i] = temp_e[i] * CONST_E; temp_i[i] = temp_i[i] * CONST_E; }\<close>
  with \<^verbatim>\<open>temp_e\<close> and \<^verbatim>\<open>temp_i\<close> at the offsets \<open>e\<close> and \<open>i\<close>.
\<close>

definition alloc_array :: "'o reader \<Rightarrow> int \<Rightarrow> 'o reader" where
  "alloc_array s len = s\<lparr>rs_array := map (rs_heap s) [0..<nat len]\<rparr>"

definition read_doubles :: "real list option \<Rightarrow> int \<Rightarrow> 'o reader \<Rightarrow> 'o reader ctl" where
  "read_doubles ds off s =
     (case ds of
        None \<Rightarrow> Returned 1 s
      | Some xs \<Rightarrow>
          if 0 \<le> off \<and> nat off + length xs \<le> length (rs_array s)
          then Next (s\<lparr>rs_array := take (nat off) (rs_array s) @ xs @ drop (nat off + length xs) (rs_array s)\<rparr>)
          else OutOfBounds s)"

definition scale_cell :: "'m macros_scheme \<Rightarrow> int \<Rightarrow> 'o reader \<Rightarrow> 'o reader ctl" where
  "scale_cell M k s =
     (if 0 \<le> k \<and> nat k < length (rs_array s)
      then Next (s\<lparr>rs_array := (rs_array s)[nat k := rs_array s ! nat k * CONST_E M]\<rparr>)
      else OutOfBounds s)"

definition scale_temperatures :: "'m macros_scheme \<Rightarrow> int \<Rightarrow> int \<Rightarrow> 'o reader \<Rightarrow> 'o reader ctl" where
  "scale_temperatures M e i s =
     ctl_for [0..<nat (rs_n_rho s)]
       (\<lambda>k. run_steps [scale_cell M (e + int k), scale_cell M (i + int k)]) s"

text \<open>\<^verbatim>\<open>hdf5_plasma_read_1D\<close>, lines 81-153. The array holds rho, the electron and the ion
  temperature, the electron density and the ion densities, \<^verbatim>\<open>n_rho\<close> cells apart.\<close>

definition hdf5_plasma_read_1D ::
  "'m macros_scheme \<Rightarrow> hdf5_plasma_file \<Rightarrow> plasma_1D_offload_data reader \<Rightarrow> plasma_1D_offload_data reader ctl" where
  "hdf5_plasma_read_1D M f s0 =
     (case run_steps
        ([read_scalar (f_nion f) (\<lambda>v s. s\<lparr>rs_n_ions := v\<rparr>),
          read_scalar (f_nrho f) (\<lambda>v s. s\<lparr>rs_n_rho := v\<rparr>),
          set_n_species,
          \<lambda>s. Next (s\<lparr>rs_od := (rs_od s)\<lparr>od_n_rho := rs_n_rho s\<rparr>\<rparr>)]
         @ read_species_info M f @
         [\<lambda>s. Next (s\<lparr>rs_od := (rs_od s)\<lparr>od_offload_array_length :=
                  3 * rs_n_rho s + od_n_species (rs_od s) * rs_n_rho s\<rparr>\<rparr>),
          \<lambda>s. Next (alloc_array s (od_offload_array_length (rs_od s))),
          \<lambda>s. read_doubles (f_rho f) 0 s,
          \<lambda>s. read_doubles (f_etemperature f) (rs_n_rho s) s,
          \<lambda>s. read_doubles (f_edensity f) (rs_n_rho s * 3) s,
          \<lambda>s. read_doubles (f_iontemperature f) (rs_n_rho s * 2) s,
          \<lambda>s. read_doubles (f_iondensity f) (rs_n_rho s * 4) s,
          \<lambda>s. scale_temperatures M (rs_n_rho s) (rs_n_rho s * 2) s]) s0
      of Next s \<Rightarrow> Returned 0 s | stop \<Rightarrow> stop)"

text \<open>\<^verbatim>\<open>hdf5_plasma_read_1DS\<close>, lines 168-243: \<^verbatim>\<open>nrho\<close>, \<^verbatim>\<open>rhomin\<close> and \<^verbatim>\<open>rhomax\<close> are read
  into the struct, and the array has no rho grid.\<close>

definition hdf5_plasma_read_1DS ::
  "'m macros_scheme \<Rightarrow> hdf5_plasma_file \<Rightarrow> plasma_1DS_offload_data reader \<Rightarrow> plasma_1DS_offload_data reader ctl" where
  "hdf5_plasma_read_1DS M f s0 =
     (case run_steps
        ([read_scalar (f_nion f) (\<lambda>v s. s\<lparr>rs_n_ions := v\<rparr>),
          read_scalar (f_nrho f) (\<lambda>v s. s\<lparr>rs_od := (rs_od s)\<lparr>od_n_rho := v\<rparr>\<rparr>),
          read_scalar (f_rhomin f) (\<lambda>v s. s\<lparr>rs_od := (rs_od s)\<lparr>od_rho_min := v\<rparr>\<rparr>),
          read_scalar (f_rhomax f) (\<lambda>v s. s\<lparr>rs_od := (rs_od s)\<lparr>od_rho_max := v\<rparr>\<rparr>),
          set_n_species,
          \<lambda>s. Next (s\<lparr>rs_n_rho := od_n_rho (rs_od s)\<rparr>)]
         @ read_species_info M f @
         [\<lambda>s. Next (s\<lparr>rs_od := (rs_od s)\<lparr>od_offload_array_length :=
                  2 * rs_n_rho s + od_n_species (rs_od s) * rs_n_rho s\<rparr>\<rparr>),
          \<lambda>s. Next (alloc_array s (od_offload_array_length (rs_od s))),
          \<lambda>s. read_doubles (f_etemperature f) 0 s,
          \<lambda>s. read_doubles (f_edensity f) (rs_n_rho s * 2) s,
          \<lambda>s. read_doubles (f_iontemperature f) (rs_n_rho s * 1) s,
          \<lambda>s. read_doubles (f_iondensity f) (rs_n_rho s * 3) s,
          \<lambda>s. scale_temperatures M 0 (rs_n_rho s * 1) s]) s0
      of Next s \<Rightarrow> Returned 0 s | stop \<Rightarrow> stop)"

section \<open>The slots of one lane\<close>

text \<open>What a batch holds for lane \<open>j\<close>: the marker and the lane's entries of the arrays the
  function writes, each read with the index checked.\<close>

definition gc_adaptive_slots ::
  "batch_gc_adaptive \<Rightarrow> nat \<Rightarrow> particle_gc option \<times> real option \<times> mccc_wienarr option \<times> int option" where
  "gc_adaptive_slots s j =
     (lane_rd (ba_p s) j, lane_rd (ba_hout s) j, lane_rd (ba_w s) j, lane_rd (ba_err s) j)"

definition gc_fixed_slots :: "batch_gc_fixed \<Rightarrow> nat \<Rightarrow> particle_gc option \<times> int option" where
  "gc_fixed_slots s j = (lane_rd (bf_p s) j, lane_rd (bf_err s) j)"

definition fo_fixed_slots :: "batch_fo_fixed \<Rightarrow> nat \<Rightarrow> particle_fo option \<times> int option" where
  "fo_fixed_slots s j = (lane_rd (ff_p s) j, lane_rd (ff_err s) j)"

text \<open>The cells \<open>off, \<dots>, off + n - 1\<close> of an array, and the \<^verbatim>\<open>MAX_SPECIES\<close> cells of lane \<open>j\<close>
  in each output array of the coefficient updates.\<close>

definition block :: "real list \<Rightarrow> nat \<Rightarrow> nat \<Rightarrow> real option list" where
  "block a off n = map (lane_rd a) [off..<off + n]"

definition update_fo_slots :: "externs \<Rightarrow> batch_update_fo \<Rightarrow> nat \<Rightarrow> real option list list" where
  "update_fo_slots X u j =
     map (\<lambda>a. block a (j * MAX_SPECIES X) (MAX_SPECIES X))
       [uf_clogab u, uf_F u, uf_Dpara u, uf_Dperp u, uf_K u, uf_nu u]"

definition update_gc_slots :: "externs \<Rightarrow> batch_update_gc \<Rightarrow> nat \<Rightarrow> real option list list" where
  "update_gc_slots X u j =
     map (\<lambda>a. block a (j * MAX_SPECIES X) (MAX_SPECIES X))
       [ug_clogab u, ug_Dpara u, ug_DX u, ug_K u, ug_nu u, ug_dQ u, ug_dDpara u]"

text \<open>The cached field of a marker is the field at its position: the three components,
  their derivatives and rho are what the field functions give at \<open>(r, phi, z)\<close>.\<close>

definition field_cache_fresh :: "externs \<Rightarrow> particle_gc \<Rightarrow> bool" where
  "field_cache_fresh X p \<longleftrightarrow>
     gc_B_r p = B_field_eval_B_dB X (gc_r p) (gc_phi p) (gc_z p) 0 \<and>
     gc_B_r_dr p = B_field_eval_B_dB X (gc_r p) (gc_phi p) (gc_z p) 1 \<and>
     gc_B_r_dphi p = B_field_eval_B_dB X (gc_r p) (gc_phi p) (gc_z p) 2 \<and>
     gc_B_r_dz p = B_field_eval_B_dB X (gc_r p) (gc_phi p) (gc_z p) 3 \<and>
     gc_B_phi p = B_field_eval_B_dB X (gc_r p) (gc_phi p) (gc_z p) 4 \<and>
     gc_B_phi_dr p = B_field_eval_B_dB X (gc_r p) (gc_phi p) (gc_z p) 5 \<and>
     gc_B_phi_dphi p = B_field_eval_B_dB X (gc_r p) (gc_phi p) (gc_z p) 6 \<and>
     gc_B_phi_dz p = B_field_eval_B_dB X (gc_r p) (gc_phi p) (gc_z p) 7 \<and>
     gc_B_z p = B_field_eval_B_dB X (gc_r p) (gc_phi p) (gc_z p) 8 \<and>
     gc_B_z_dr p = B_field_eval_B_dB X (gc_r p) (gc_phi p) (gc_z p) 9 \<and>
     gc_B_z_dphi p = B_field_eval_B_dB X (gc_r p) (gc_phi p) (gc_z p) 10 \<and>
     gc_B_z_dz p = B_field_eval_B_dB X (gc_r p) (gc_phi p) (gc_z p) 11 \<and>
     gc_rho p = B_field_eval_rho X (B_field_eval_psi X (gc_r p) (gc_phi p) (gc_z p))"

section \<open>The species list left by a reader\<close>

text \<open>
  What a reader of hdf5io/hdf5_plasma.c is to leave in the offload struct \<open>d\<close>, for the
  datasets of the file \<open>f\<close>: \<^verbatim>\<open>n_species\<close> is \<^verbatim>\<open>nion\<close> plus one, cell 0 of \<^verbatim>\<open>charge\<close> and
  \<^verbatim>\<open>mass\<close> is the electron, and cell \<open>i + 1\<close> is ion \<open>i\<close> of the datasets \<^verbatim>\<open>charge\<close> and
  \<^verbatim>\<open>mass\<close>, in the units \<^verbatim>\<open>CONST_E\<close> and \<^verbatim>\<open>CONST_U\<close>.
\<close>

definition electron_then_ions ::
  "'m macros_scheme \<Rightarrow> hdf5_plasma_file \<Rightarrow> 'o plasma_1D_offload_data_scheme \<Rightarrow> bool" where
  "electron_then_ions M f d \<longleftrightarrow>
     (\<exists>n c m. f_nion f = Some n \<and> f_charge f = Some c \<and> f_mass f = Some m
        \<and> od_n_species d = n + 1
        \<and> od_charge d 0 = - CONST_E M \<and> od_mass d 0 = CONST_M_E M
        \<and> (\<forall>i < nat n. (i < length c \<longrightarrow> od_charge d (i + 1) = of_int (c ! i) * CONST_E M)
                      \<and> (i < length m \<longrightarrow> od_mass d (i + 1) = of_int (m ! i) * CONST_U M)))"

section \<open>A concrete batch\<close>

text \<open>
  Inputs on which the definitions are evaluated. The functions of the other modules are
  stand-ins: the pushes return the state they are given, but \<^verbatim>\<open>mccc_push_gcMI\<close> halves
  the speed and returns three chosen error estimates, and \<^verbatim>\<open>mccc_push_foEM\<close> sets the error flag 3 for a negative time
  step; \<^verbatim>\<open>mccc_wiener_generate\<close> appends the time and the five numbers it is passed,
  returns index 1, and sets the error flag 1 for a time beyond 5. The field is \<open>(0, 1, 0)\<close>
  everywhere, with psi and rho equal to \<open>r\<close>. The plasma has two species, and a marker is
  at \<open>(r, phi, z) = (1, 0, 0)\<close>.
\<close>

definition ex_externs :: "real \<Rightarrow> real \<Rightarrow> real \<Rightarrow> externs" where
  "ex_externs kk kd0 kd1 =
     \<lparr>NSIMD = 2, MAX_SPECIES = 2, MCCC_NDIM = 5, CONST_KB = 1, CONST_2PI = 2 * pi,
      CONST_E = 1, CONST_M_E = 1, CONST_U = 1,
      plasma_1d_eval_temp = (\<lambda>rho j pd. 1),
      plasma_1d_eval_dens = (\<lambda>rho j pd. 1),
      plasma_1d_eval_densandtemp = (\<lambda>rho pd. (\<lambda>j. 1, \<lambda>j. 1)),
      mccc_coefs_clog = (\<lambda>ma qa va mb qb dens temp n j. 1),
      mccc_coefs_fo = (\<lambda>ma qa va mb qb dens temp clogab n.
         \<lparr>cf_F = \<lambda>j. 0, cf_Dpara = \<lambda>j. 1, cf_Dperp = \<lambda>j. 1, cf_K = \<lambda>j. 0, cf_nu = \<lambda>j. 1\<rparr>),
      mccc_coefs_gcfixed = (\<lambda>ma qa va xi mb qb dens temp Bnorm clogab n.
         \<lparr>cg_Dpara = \<lambda>j. 1, cg_DX = \<lambda>j. 1, cg_K = \<lambda>j. 0, cg_nu = \<lambda>j. 1\<rparr>),
      mccc_coefs_gcadaptive = (\<lambda>ma qa va xi mb qb dens temp Bnorm clogab n.
         \<lparr>cg_Dpara = \<lambda>j. 1, cg_DX = \<lambda>j. 1, cg_K = \<lambda>j. 0, cg_nu = \<lambda>j. 1,
          cg_dQ = \<lambda>j. 0, cg_dDpara = \<lambda>j. 0\<rparr>),
      mccc_wiener_generate = (\<lambda>w t rnd err.
         (\<lparr>w_time = w_time w @ [t], w_wiener = w_wiener w @ take 5 rnd\<rparr>, 1,
          if 5 < t then 1 else err)),
      mccc_push_foEM = (\<lambda>F Dpara Dperp h rnd vin err. (vin, if h < 0 then 3 else err)),
      mccc_push_gcEM = (\<lambda>a. \<lparr>po_vout = pi_vin a, po_xiout = pi_xiin a, po_Xout = pi_Xin a,
         po_err = pi_err a\<rparr>),
      mccc_push_gcMI = (\<lambda>a. \<lparr>po_vout = pi_vin a / 2, po_xiout = pi_xiin a, po_Xout = pi_Xin a,
         po_err = pi_err a, po_kappa_k = kk, po_kappa_d0 = kd0, po_kappa_d1 = kd1\<rparr>),
      math_norm = (\<lambda>(x, y, z). sqrt (x * x + y * y + z * z)),
      math_normc = (\<lambda>x y z. sqrt (x * x + y * y + z * z)),
      B_field_eval_B_dB = (\<lambda>r phi z k. if k = 4 then 1 else 0),
      B_field_eval_psi = (\<lambda>r phi z. r),
      B_field_eval_rho = (\<lambda>psi. psi),
      B_field_get_axis_r = 0,
      B_field_get_axis_z = 0,
      uninitialised = (\<lambda>j. 0)\<rparr>"

definition ex_plasma :: plasma_1d_data where
  "ex_plasma = \<lparr>pd_n_species = 2, pd_mass = (\<lambda>j. 1), pd_charge = (\<lambda>j. 1)\<rparr>"

definition ex_gc :: "bool \<Rightarrow> particle_gc" where
  "ex_gc run =
     \<lparr>gc_running = run, gc_r = 1, gc_phi = 0, gc_z = 0, gc_vpar = 1, gc_mu = 0, gc_pol = 0,
      gc_mass = 1, gc_charge = 1, gc_rho = 1 / 2,
      gc_B_r = 0, gc_B_r_dr = 0, gc_B_r_dphi = 0, gc_B_r_dz = 0,
      gc_B_phi = 1, gc_B_phi_dr = 0, gc_B_phi_dphi = 0, gc_B_phi_dz = 0,
      gc_B_z = 0, gc_B_z_dr = 0, gc_B_z_dphi = 0, gc_B_z_dz = 0\<rparr>"

definition ex_fo :: "bool \<Rightarrow> particle_fo" where
  "ex_fo run =
     \<lparr>fo_running = run, fo_r = 1, fo_phi = 0, fo_z = 0, fo_rdot = 1, fo_phidot = 0, fo_zdot = 0,
      fo_mass = 1, fo_charge = 1, fo_rho = 1 / 2\<rparr>"

definition ex_wiener :: mccc_wienarr where
  "ex_wiener = \<lparr>w_time = [0], w_wiener = [0, 0, 0, 0, 0]\<rparr>"

text \<open>The numbers drawn for two lanes, with \<open>d3\<close> and \<open>d4\<close> in the last two dimensions.\<close>

definition ex_rand5 :: "real \<Rightarrow> real \<Rightarrow> real list" where
  "ex_rand5 d3 d4 = [1, 1, 1, d3, d4, 1, 1, 1, d3, d4]"

section \<open>A concrete plasma file\<close>

text \<open>
  A file of \<open>n\<close> ions on a grid of one rho point, the constants of a build with
  \<^verbatim>\<open>MAX_SPECIES\<close> 8, and the offload structs before a reader runs.
\<close>

definition ex_consts :: macros where
  "ex_consts = \<lparr>NSIMD = 2, MAX_SPECIES = 8, MCCC_NDIM = 5, CONST_KB = 1, CONST_2PI = 2 * pi,
      CONST_E = 2, CONST_M_E = 3, CONST_U = 5\<rparr>"

definition ex_file :: "nat \<Rightarrow> hdf5_plasma_file" where
  "ex_file n =
     \<lparr>f_nion = Some (int n), f_nrho = Some 1, f_rhomin = Some 0, f_rhomax = Some 1,
      f_znum = Some (replicate n 1), f_anum = Some (replicate n 2),
      f_charge = Some (replicate n 1), f_mass = Some (replicate n 2),
      f_rho = Some [0], f_etemperature = Some [1], f_edensity = Some [1],
      f_iontemperature = Some [1], f_iondensity = Some (replicate n 1)\<rparr>"

definition ex_reader :: "plasma_1D_offload_data reader" where
  "ex_reader =
     \<lparr>rs_od = \<lparr>od_n_rho = 0, od_n_species = 0, od_offload_array_length = 0,
               od_mass = (\<lambda>j. 0), od_charge = (\<lambda>j. 0), od_znum = (\<lambda>j. 0), od_anum = (\<lambda>j. 0)\<rparr>,
      rs_n_rho = 0, rs_n_ions = 0, rs_temparr = (\<lambda>j. 0), rs_array = [], rs_heap = (\<lambda>j. 0)\<rparr>"

definition ex_reader_S :: "plasma_1DS_offload_data reader" where
  "ex_reader_S =
     \<lparr>rs_od = \<lparr>od_n_rho = 0, od_n_species = 0, od_offload_array_length = 0,
               od_mass = (\<lambda>j. 0), od_charge = (\<lambda>j. 0), od_znum = (\<lambda>j. 0), od_anum = (\<lambda>j. 0),
               od_rho_min = 0, od_rho_max = 0\<rparr>,
      rs_n_rho = 0, rs_n_ions = 0, rs_temparr = (\<lambda>j. 0), rs_array = [], rs_heap = (\<lambda>j. 0)\<rparr>"

text \<open>
  The same stand-ins with a Wiener array that is full beyond time 5: there
  \<^verbatim>\<open>mccc_wiener_generate\<close> leaves the array as it is, returns the index \<open>-1\<close> and sets the
  error flag 1.
\<close>

definition ex_externs_full :: "real \<Rightarrow> real \<Rightarrow> real \<Rightarrow> externs" where
  "ex_externs_full kk kd0 kd1 =
     (ex_externs kk kd0 kd1)\<lparr>mccc_wiener_generate :=
        (\<lambda>w t rnd err. if 5 < t then (w, - 1, 1)
                        else mccc_wiener_generate (ex_externs kk kd0 kd1) w t rnd err)\<rparr>"

section \<open>Properties of the step-size decision\<close>

lemma c_pow_sq: "0 \<le> x \<Longrightarrow> c_pow x 2 = Some (x\<^sup>2)"
  by (auto simp: c_pow_def order_less_le)

lemma c_pow_pos: "0 < x \<Longrightarrow> c_pow x y = Some (x powr y)"
  by (simp add: c_pow_def)

lemma third_not_int: "(- 1 / 3 :: real) \<noteq> of_int \<lfloor>- 1 / 3 :: real\<rfloor>"
proof
  assume "(- 1 / 3 :: real) = of_int \<lfloor>- 1 / 3 :: real\<rfloor>"
  then obtain z :: int where "(- 1 / 3 :: real) = of_int z" ..
  then have "(of_int (3 * z) :: real) = of_int (- 1)" by simp
  then have "3 * z = - 1" by (simp only: of_int_eq_iff)
  then show False by presburger
qed

lemma c_pow_third_Some: "c_pow x (- 1 / 3) = Some a \<longleftrightarrow> 0 < x \<and> a = x powr (- 1 / 3)"
  using third_not_int by (auto simp: c_pow_def)

lemma powr_third_sq:
  assumes "0 < (k::real)"
  shows "(0.9 * \<bar>d\<bar> * k powr (- 1 / 3))\<^sup>2 = 0.81 * d\<^sup>2 * k powr (- 2 / 3)"
proof -
  have "(k powr (- 1 / 3))\<^sup>2 = (k powr (- 1 / 3)) powr 2"
    by (simp flip: powr_numeral)
  also have "\<dots> = k powr (- 2 / 3)" by (simp only: powr_powr) simp
  finally have "(k powr (- 1 / 3))\<^sup>2 = k powr (- 2 / 3)" .
  then show ?thesis by (simp add: power_mult_distrib power2_eq_square)
qed

lemma powr_third_8: "(8::real) powr (- 1 / 3) = 1 / 2"
proof -
  have "(8::real) = 2 powr 3" by simp
  then have "(8::real) powr (- 1 / 3) = (2 powr 3) powr (- 1 / 3)" by simp
  also have "\<dots> = 2 powr (- 1)" by (simp only: powr_powr) simp
  also have "\<dots> = 1 / 2" by (simp add: powr_minus_divide)
  finally show ?thesis .
qed

lemma diffusion_proposal:
  assumes "c_pow k (- 1 / 3) \<bind> (\<lambda>a. c_pow (0.9 * \<bar>d\<bar> * a) 2) = Some h"
  shows "0 < k \<and> h = 0.81 * d\<^sup>2 * k powr (- 2 / 3)"
proof -
  from assms obtain a where a: "c_pow k (- 1 / 3) = Some a" and h: "c_pow (0.9 * \<bar>d\<bar> * a) 2 = Some h"
    by (auto simp: bind_eq_Some_conv)
  from a have k: "0 < k" and a': "a = k powr (- 1 / 3)"
    using c_pow_third_Some[of k a] by blast+
  have "0 \<le> 0.9 * \<bar>d\<bar> * a" using a' by simp
  then have "h = (0.9 * \<bar>d\<bar> * a)\<^sup>2" using h by (simp add: c_pow_sq)
  then show ?thesis using k a' powr_third_sq[OF k, of d] by simp
qed

lemma diffusion_proposal_Some:
  assumes "0 < k"
  shows "c_pow k (- 1 / 3) \<bind> (\<lambda>a. c_pow (0.9 * \<bar>d\<bar> * a) 2) = Some (0.81 * d\<^sup>2 * k powr (- 2 / 3))"
proof -
  have "c_pow k (- 1 / 3) = Some (k powr (- 1 / 3))" using assms by (simp add: c_pow_pos)
  moreover have "c_pow (0.9 * \<bar>d\<bar> * k powr (- 1 / 3)) 2 = Some ((0.9 * \<bar>d\<bar> * k powr (- 1 / 3))\<^sup>2)"
    by (rule c_pow_sq) simp
  ultimately show ?thesis using powr_third_sq[OF assms, of d] by simp
qed

lemma drift_proposal:
  assumes "fsqrt k \<bind> (\<lambda>s. fdiv (0.8 * hin) s) = Some h"
  shows "0 < k \<and> h = 0.8 * hin / sqrt k"
  using assms by (auto simp: bind_eq_Some_conv fsqrt_def fdiv_def split: if_splits)

lemma hout_proposal_cases:
  assumes "hout_proposal hin kk kd0 kd1 d3 d4 = Some h"
  shows "(kk \<ge> kd0 \<and> kk \<ge> kd1 \<and> 0 < kk \<and> h = 0.8 * hin / sqrt kk)
       \<or> (\<not> (kk \<ge> kd0 \<and> kk \<ge> kd1) \<and> kd0 \<ge> kk \<and> kd0 \<ge> kd1 \<and> 0 < kd0 \<and> h = 0.81 * d3\<^sup>2 * kd0 powr (- 2 / 3))
       \<or> (\<not> (kk \<ge> kd0 \<and> kk \<ge> kd1) \<and> \<not> (kd0 \<ge> kk \<and> kd0 \<ge> kd1) \<and> 0 < kd1 \<and> h = 0.81 * d4\<^sup>2 * kd1 powr (- 2 / 3))"
proof (cases "kk \<ge> kd0 \<and> kk \<ge> kd1")
  case True
  with assms have "fsqrt kk \<bind> (\<lambda>s. fdiv (0.8 * hin) s) = Some h"
    by (simp only: hout_proposal_def if_True if_False simp_thms)
  from drift_proposal[OF this] True show ?thesis by simp
next
  case nd: False
  show ?thesis
  proof (cases "kd0 \<ge> kk \<and> kd0 \<ge> kd1")
    case True
    with nd assms have "c_pow kd0 (- 1 / 3) \<bind> (\<lambda>a. c_pow (0.9 * \<bar>d3\<bar> * a) 2) = Some h"
      by (simp only: hout_proposal_def if_True if_False simp_thms)
    from diffusion_proposal[OF this] nd True show ?thesis by simp
  next
    case False
    with nd assms have "c_pow kd1 (- 1 / 3) \<bind> (\<lambda>a. c_pow (0.9 * \<bar>d4\<bar> * a) 2) = Some h"
      by (simp only: hout_proposal_def if_True if_False simp_thms)
    from diffusion_proposal[OF this] nd False show ?thesis by simp
  qed
qed

lemma hout_signed_Some:
  "hout_signed hin kk kd0 kd1 d3 d4 = Some h \<longleftrightarrow>
     (\<exists>m. hout_proposal hin kk kd0 kd1 d3 d4 = Some m \<and> h = (if rejected kk kd0 kd1 then - m else m))"
  by (auto simp: hout_signed_def bind_eq_Some_conv)

lemma step_lane_decision:
  assumes "mccc_step_gc_adaptive_lane X pd tol p hin w rand5 err = Some l"
  shows "hout_signed hin (al_kappa_k l) (al_kappa_d0 l) (al_kappa_d1 l) (al_dW l ! 3) (al_dW l ! 4) = Some (al_hout l)"
    and "al_rejected l = rejected (al_kappa_k l) (al_kappa_d0 l) (al_kappa_d1 l)"
  using assms
  by (auto simp: mccc_step_gc_adaptive_lane_def bind_eq_Some_conv Let_def split: prod.splits)

lemma diffusion_value_nonneg: "0 \<le> 0.81 * (d::real)\<^sup>2 * k powr y"
  by simp





section \<open>Properties of the loop over the lanes\<close>

lemma for_loop_frame:
  assumes "for_loop is body s = Some s'"
    and "\<And>i t t'. i \<in> set is \<Longrightarrow> body i t = Some t' \<Longrightarrow> f t' = f t"
  shows "f s' = f s"
  using assms
proof (induction "is" arbitrary: s)
  case Nil
  then show ?case by simp
next
  case (Cons i "is")
  from Cons.prems(1) obtain s1 where s1: "body i s = Some s1" and rest: "for_loop is body s1 = Some s'"
    by (auto split: option.splits)
  have "f s' = f s1"
  proof (rule Cons.IH[OF rest])
    fix k t t' assume "k \<in> set is" "body k t = Some t'"
    then show "f t' = f t" using Cons.prems(2)[of k t t'] by simp
  qed
  moreover have "f s1 = f s" using Cons.prems(2)[OF _ s1] by simp
  ultimately show ?case by simp
qed

lemma for_loop_lane:
  assumes "for_loop is body s = Some s'" and "distinct is" and "j \<in> set is"
    and "\<And>i t t'. i \<in> set is \<Longrightarrow> i \<noteq> j \<Longrightarrow> body i t = Some t' \<Longrightarrow> f t' = f t"
  shows "\<exists>t t'. f t = f s \<and> body j t = Some t' \<and> f s' = f t'"
  using assms
proof (induction "is" arbitrary: s)
  case Nil
  then show ?case by simp
next
  case (Cons i "is")
  from Cons.prems(1) obtain s1 where s1: "body i s = Some s1" and rest: "for_loop is body s1 = Some s'"
    by (auto split: option.splits)
  show ?case
  proof (cases "i = j")
    case True
    then have "j \<notin> set is" using Cons.prems(2) by simp
    have "f s' = f s1"
    proof (rule for_loop_frame[OF rest])
      fix k t t' assume k: "k \<in> set is" and b: "body k t = Some t'"
      from k \<open>j \<notin> set is\<close> have "k \<noteq> j" by auto
      then show "f t' = f t" using Cons.prems(4)[of k t t'] k b by simp
    qed
    then show ?thesis using s1 True by blast
  next
    case False
    then have j: "j \<in> set is" using Cons.prems(3) by simp
    have d: "distinct is" using Cons.prems(2) by simp
    have "f s1 = f s" using Cons.prems(4)[OF _ False s1] by simp
    moreover
    have "\<exists>t t'. f t = f s1 \<and> body j t = Some t' \<and> f s' = f t'"
    proof (rule Cons.IH[OF rest d j])
      fix k t t' assume "k \<in> set is" "k \<noteq> j" "body k t = Some t'"
      then show "f t' = f t" using Cons.prems(4)[of k t t'] by simp
    qed
    ultimately show ?thesis by auto
  qed
qed

lemma for_loop_defined:
  assumes "distinct is"
    and "\<forall>i \<in> set is. f i s = f i s0"
    and "\<And>i j t t'. body i t = Some t' \<Longrightarrow> i \<noteq> j \<Longrightarrow> f j t' = f j t"
    and "\<And>i t. i \<in> set is \<Longrightarrow> f i t = f i s0 \<Longrightarrow> body i t \<noteq> None"
  shows "for_loop is body s \<noteq> None"
  using assms
proof (induction "is" arbitrary: s)
  case Nil
  then show ?case by simp
next
  case (Cons i "is")
  have "body i s \<noteq> None" using Cons.prems(2,4) by simp
  then obtain s1 where s1: "body i s = Some s1" by blast
  have inv: "\<forall>k \<in> set is. f k s1 = f k s0"
  proof
    fix k assume k: "k \<in> set is"
    then have "i \<noteq> k" using Cons.prems(1) by auto
    then have "f k s1 = f k s" using Cons.prems(3)[OF s1] by simp
    then show "f k s1 = f k s0" using Cons.prems(2) k by simp
  qed
  have d: "distinct is" using Cons.prems(1) by simp
  have "for_loop is body s1 \<noteq> None"
  proof (rule Cons.IH[OF d inv])
    fix k j t t' assume "body k t = Some t'" "k \<noteq> j"
    then show "f j t' = f j t" by (rule Cons.prems(3))
  next
    fix k t assume "k \<in> set is" "f k t = f k s0"
    then show "body k t \<noteq> None" using Cons.prems(4)[of k t] by simp
  qed
  then show ?case using s1 by simp
qed

lemma lane_rd_Some: "lane_rd a i = Some v \<longleftrightarrow> i < length a \<and> v = a ! i"
  by (auto simp: lane_rd_def)

lemma lane_wr_Some: "lane_wr a i v = Some a' \<longleftrightarrow> i < length a \<and> a' = a[i := v]"
  by (auto simp: lane_wr_def)

lemma lane_rd_update: "lane_rd (a[i := v]) j = (if i = j \<and> j < length a then Some v else lane_rd a j)"
  by (auto simp: lane_rd_def)

lemma step_gc_adaptive_body_cases:
  assumes "step_gc_adaptive_body X pd tol hin rand5 i s = Some s'"
  obtains (idle) "i < length (ba_p s)" "\<not> gc_running (ba_p s ! i)" "s' = s"
  | (run) l where "i < length (ba_p s)" "gc_running (ba_p s ! i)" "i < length hin"
      "i < length (ba_w s)" "i < length (ba_err s)" "i < length (ba_hout s)"
      "mccc_step_gc_adaptive_lane X pd tol (ba_p s ! i) (hin ! i) (ba_w s ! i)
         (drop (i * MCCC_NDIM X) rand5) (ba_err s ! i) = Some l"
      "s' = \<lparr>ba_p = (ba_p s)[i := al_p l], ba_hout = (ba_hout s)[i := al_hout l],
             ba_w = (ba_w s)[i := al_w l], ba_err = (ba_err s)[i := al_err l]\<rparr>"
  using assms
  by (auto simp: step_gc_adaptive_body_def bind_eq_Some_conv lane_rd_Some lane_wr_Some
      split: if_splits)

lemma step_gc_adaptive_body_other:
  assumes "step_gc_adaptive_body X pd tol hin rand5 i s = Some s'" and "i \<noteq> j"
  shows "gc_adaptive_slots s' j = gc_adaptive_slots s j"
  using assms(1)
  by (cases rule: step_gc_adaptive_body_cases)
     (use assms(2) in \<open>simp_all add: gc_adaptive_slots_def lane_rd_update\<close>)

lemma gc_adaptive_slots_eq:
  "gc_adaptive_slots s' j = gc_adaptive_slots s j \<longleftrightarrow>
     lane_rd (ba_p s') j = lane_rd (ba_p s) j \<and> lane_rd (ba_hout s') j = lane_rd (ba_hout s) j \<and>
     lane_rd (ba_w s') j = lane_rd (ba_w s) j \<and> lane_rd (ba_err s') j = lane_rd (ba_err s) j"
  by (simp add: gc_adaptive_slots_def)

lemma step_gc_adaptive_lane_of_batch:
  assumes "mccc_step_gc_adaptive X pd tol hin rand5 s = Some s'" and "j < NSIMD X"
  obtains (idle) "j < length (ba_p s)" "\<not> gc_running (ba_p s ! j)"
      "gc_adaptive_slots s' j = gc_adaptive_slots s j"
  | (run) l where "j < length (ba_p s)" "gc_running (ba_p s ! j)" "j < length hin"
      "j < length (ba_w s)" "j < length (ba_err s)" "j < length (ba_hout s)"
      "mccc_step_gc_adaptive_lane X pd tol (ba_p s ! j) (hin ! j) (ba_w s ! j)
         (drop (j * MCCC_NDIM X) rand5) (ba_err s ! j) = Some l"
      "gc_adaptive_slots s' j = (Some (al_p l), Some (al_hout l), Some (al_w l), Some (al_err l))"
proof -
  have "\<exists>t t'. gc_adaptive_slots t j = gc_adaptive_slots s j
      \<and> step_gc_adaptive_body X pd tol hin rand5 j t = Some t'
      \<and> gc_adaptive_slots s' j = gc_adaptive_slots t' j"
  proof (rule for_loop_lane[where f = "\<lambda>t. gc_adaptive_slots t j"])
    show "for_loop [0..<NSIMD X] (step_gc_adaptive_body X pd tol hin rand5) s = Some s'"
      using assms(1) by (simp add: mccc_step_gc_adaptive_def)
    show "distinct [0..<NSIMD X]" by simp
    show "j \<in> set [0..<NSIMD X]" using assms(2) by simp
  next
    fix i t t' assume "i \<noteq> j" "step_gc_adaptive_body X pd tol hin rand5 i t = Some t'"
    then show "gc_adaptive_slots t' j = gc_adaptive_slots t j"
      using step_gc_adaptive_body_other by blast
  qed
  then obtain t t' where ts: "gc_adaptive_slots t j = gc_adaptive_slots s j"
    and b: "step_gc_adaptive_body X pd tol hin rand5 j t = Some t'"
    and s': "gc_adaptive_slots s' j = gc_adaptive_slots t' j" by blast
  from b show thesis
  proof (cases rule: step_gc_adaptive_body_cases)
    case idle
    from idle(1) ts have "j < length (ba_p s)" "ba_p s ! j = ba_p t ! j"
      by (auto simp: gc_adaptive_slots_def lane_rd_def split: if_splits)
    then show ?thesis using idle ts s' that(1) by simp
  next
    case (run l)
    from run(1,4,5,6) ts have "j < length (ba_p s)" "ba_p s ! j = ba_p t ! j"
      "j < length (ba_w s)" "ba_w s ! j = ba_w t ! j"
      "j < length (ba_err s)" "ba_err s ! j = ba_err t ! j" "j < length (ba_hout s)"
      by (auto simp: gc_adaptive_slots_def lane_rd_def split: if_splits)
    moreover have "gc_adaptive_slots t' j = (Some (al_p l), Some (al_hout l), Some (al_w l), Some (al_err l))"
      using run by (simp add: gc_adaptive_slots_def lane_rd_def)
    ultimately show ?thesis using run s' that(2)[of l] by simp
  qed
qed

lemma step_gc_adaptive_idle_lane:
  assumes "mccc_step_gc_adaptive X pd tol hin rand5 s = Some s'"
    and "j < length (ba_p s)" and "\<not> gc_running (ba_p s ! j)"
  shows "gc_adaptive_slots s' j = gc_adaptive_slots s j"
proof (cases "j < NSIMD X")
  case True
  from assms(1) True show ?thesis
    by (cases rule: step_gc_adaptive_lane_of_batch) (use assms(3) in simp_all)
next
  case False
  show ?thesis
  proof (rule for_loop_frame[where f = "\<lambda>t. gc_adaptive_slots t j"])
    show "for_loop [0..<NSIMD X] (step_gc_adaptive_body X pd tol hin rand5) s = Some s'"
      using assms(1) by (simp add: mccc_step_gc_adaptive_def)
  next
    fix i t t' assume "i \<in> set [0..<NSIMD X]" "step_gc_adaptive_body X pd tol hin rand5 i t = Some t'"
    moreover from this False have "i \<noteq> j" by auto
    ultimately show "gc_adaptive_slots t' j = gc_adaptive_slots t j"
      using step_gc_adaptive_body_other by blast
  qed
qed

lemma step_gc_adaptive_body_defined:
  assumes "gc_adaptive_slots t i = gc_adaptive_slots s i"
    and "i < length (ba_p s)" "i < length hin" "i < length (ba_w s)" "i < length (ba_err s)"
      "i < length (ba_hout s)"
    and "gc_running (ba_p s ! i) \<Longrightarrow>
      mccc_step_gc_adaptive_lane X pd tol (ba_p s ! i) (hin ! i) (ba_w s ! i)
         (drop (i * MCCC_NDIM X) rand5) (ba_err s ! i) \<noteq> None"
  shows "step_gc_adaptive_body X pd tol hin rand5 i t \<noteq> None"
proof -
  from assms(1-6) have "i < length (ba_p t)" "ba_p t ! i = ba_p s ! i"
      "i < length (ba_w t)" "ba_w t ! i = ba_w s ! i"
      "i < length (ba_err t)" "ba_err t ! i = ba_err s ! i" "i < length (ba_hout t)"
    by (auto simp: gc_adaptive_slots_def lane_rd_def split: if_splits)
  then show ?thesis
    using assms(3,7)
    by (auto simp: step_gc_adaptive_body_def lane_rd_def lane_wr_def)
qed

lemma step_gc_adaptive_completes:
  assumes "\<forall>i < NSIMD X. i < length (ba_p s) \<and> i < length hin \<and> i < length (ba_w s)
      \<and> i < length (ba_err s) \<and> i < length (ba_hout s)
      \<and> (gc_running (ba_p s ! i) \<longrightarrow>
          mccc_step_gc_adaptive_lane X pd tol (ba_p s ! i) (hin ! i) (ba_w s ! i)
            (drop (i * MCCC_NDIM X) rand5) (ba_err s ! i) \<noteq> None)"
  shows "mccc_step_gc_adaptive X pd tol hin rand5 s \<noteq> None"
  unfolding mccc_step_gc_adaptive_def
proof (rule for_loop_defined[where f = "\<lambda>i t. gc_adaptive_slots t i" and ?s0.0 = s])
  show "distinct [0..<NSIMD X]" by simp
  show "\<forall>i\<in>set [0..<NSIMD X]. gc_adaptive_slots s i = gc_adaptive_slots s i" by simp
next
  fix i j t t' assume "step_gc_adaptive_body X pd tol hin rand5 i t = Some t'" "i \<noteq> j"
  then show "gc_adaptive_slots t' j = gc_adaptive_slots t j" by (rule step_gc_adaptive_body_other)
next
  fix i t assume i: "i \<in> set [0..<NSIMD X]" and e: "gc_adaptive_slots t i = gc_adaptive_slots s i"
  from i assms have a: "i < length (ba_p s)" "i < length hin" "i < length (ba_w s)"
      "i < length (ba_err s)" "i < length (ba_hout s)"
      "gc_running (ba_p s ! i) \<Longrightarrow>
          mccc_step_gc_adaptive_lane X pd tol (ba_p s ! i) (hin ! i) (ba_w s ! i)
            (drop (i * MCCC_NDIM X) rand5) (ba_err s ! i) \<noteq> None"
    by simp_all
  show "step_gc_adaptive_body X pd tol hin rand5 i t \<noteq> None"
    by (rule step_gc_adaptive_body_defined[OF e a])
qed

lemma step_gc_fixed_body_cases:
  assumes "step_gc_fixed_body X pd h rnd i s = Some s'"
  obtains (idle) "i < length (bf_p s)" "\<not> gc_running (bf_p s ! i)" "s' = s"
  | (run) p' e' where "i < length (bf_p s)" "gc_running (bf_p s ! i)" "i < length h"
      "i < length (bf_err s)"
      "mccc_step_gc_fixed_lane X pd (bf_p s ! i) (h ! i) (drop (i * 5) rnd) (bf_err s ! i) = Some (p', e')"
      "s' = \<lparr>bf_p = (bf_p s)[i := p'], bf_err = (bf_err s)[i := e']\<rparr>"
  using assms
  by (auto simp: step_gc_fixed_body_def bind_eq_Some_conv lane_rd_Some lane_wr_Some
      split: if_splits)

lemma step_gc_fixed_body_other:
  assumes "step_gc_fixed_body X pd h rnd i s = Some s'" and "i \<noteq> j"
  shows "gc_fixed_slots s' j = gc_fixed_slots s j"
  using assms(1)
  by (cases rule: step_gc_fixed_body_cases)
     (use assms(2) in \<open>simp_all add: gc_fixed_slots_def lane_rd_update\<close>)

lemma step_gc_fixed_lane_of_batch:
  assumes "mccc_step_gc_fixed X pd h rnd s = Some s'" and "j < NSIMD X"
  obtains (idle) "j < length (bf_p s)" "\<not> gc_running (bf_p s ! j)"
      "gc_fixed_slots s' j = gc_fixed_slots s j"
  | (run) p' e' where "j < length (bf_p s)" "gc_running (bf_p s ! j)" "j < length h"
      "j < length (bf_err s)"
      "mccc_step_gc_fixed_lane X pd (bf_p s ! j) (h ! j) (drop (j * 5) rnd) (bf_err s ! j) = Some (p', e')"
      "gc_fixed_slots s' j = (Some p', Some e')"
proof -
  have "\<exists>t t'. gc_fixed_slots t j = gc_fixed_slots s j
      \<and> step_gc_fixed_body X pd h rnd j t = Some t'
      \<and> gc_fixed_slots s' j = gc_fixed_slots t' j"
  proof (rule for_loop_lane[where f = "\<lambda>t. gc_fixed_slots t j"])
    show "for_loop [0..<NSIMD X] (step_gc_fixed_body X pd h rnd) s = Some s'"
      using assms(1) by (simp add: mccc_step_gc_fixed_def)
    show "distinct [0..<NSIMD X]" by simp
    show "j \<in> set [0..<NSIMD X]" using assms(2) by simp
  next
    fix i t t' assume "i \<noteq> j" "step_gc_fixed_body X pd h rnd i t = Some t'"
    then show "gc_fixed_slots t' j = gc_fixed_slots t j"
      using step_gc_fixed_body_other by blast
  qed
  then obtain t t' where ts: "gc_fixed_slots t j = gc_fixed_slots s j"
    and b: "step_gc_fixed_body X pd h rnd j t = Some t'"
    and s': "gc_fixed_slots s' j = gc_fixed_slots t' j" by blast
  from b show thesis
  proof (cases rule: step_gc_fixed_body_cases)
    case idle
    from idle(1) ts have "j < length (bf_p s)" "bf_p s ! j = bf_p t ! j"
      by (auto simp: gc_fixed_slots_def lane_rd_def split: if_splits)
    then show ?thesis using idle ts s' that(1) by simp
  next
    case (run p' e')
    from run(1,4) ts have "j < length (bf_p s)" "bf_p s ! j = bf_p t ! j"
      "j < length (bf_err s)" "bf_err s ! j = bf_err t ! j"
      by (auto simp: gc_fixed_slots_def lane_rd_def split: if_splits)
    moreover have "gc_fixed_slots t' j = (Some p', Some e')"
      using run by (simp add: gc_fixed_slots_def lane_rd_def)
    ultimately show ?thesis using run s' that(2)[of p' e'] by simp
  qed
qed

lemma step_gc_fixed_idle_lane:
  assumes "mccc_step_gc_fixed X pd h rnd s = Some s'"
    and "j < length (bf_p s)" and "\<not> gc_running (bf_p s ! j)"
  shows "gc_fixed_slots s' j = gc_fixed_slots s j"
proof (cases "j < NSIMD X")
  case True
  from assms(1) True show ?thesis
    by (cases rule: step_gc_fixed_lane_of_batch) (use assms(3) in simp_all)
next
  case False
  show ?thesis
  proof (rule for_loop_frame[where f = "\<lambda>t. gc_fixed_slots t j"])
    show "for_loop [0..<NSIMD X] (step_gc_fixed_body X pd h rnd) s = Some s'"
      using assms(1) by (simp add: mccc_step_gc_fixed_def)
  next
    fix i t t' assume "i \<in> set [0..<NSIMD X]" "step_gc_fixed_body X pd h rnd i t = Some t'"
    moreover from this False have "i \<noteq> j" by auto
    ultimately show "gc_fixed_slots t' j = gc_fixed_slots t j"
      using step_gc_fixed_body_other by blast
  qed
qed

lemma step_fo_fixed_body_cases:
  assumes "step_fo_fixed_body X pd h rnd i s = Some s'"
  obtains (idle) "i < length (ff_p s)" "\<not> fo_running (ff_p s ! i)" "s' = s"
  | (run) p' e' where "i < length (ff_p s)" "fo_running (ff_p s ! i)" "i < length h"
      "i < length (ff_err s)"
      "mccc_step_fo_fixed_lane X pd (ff_p s ! i) (h ! i) (drop (i * 3) rnd) (ff_err s ! i) = Some (p', e')"
      "s' = \<lparr>ff_p = (ff_p s)[i := p'], ff_err = (ff_err s)[i := e']\<rparr>"
  using assms
  by (auto simp: step_fo_fixed_body_def bind_eq_Some_conv lane_rd_Some lane_wr_Some
      split: if_splits)

lemma step_fo_fixed_body_other:
  assumes "step_fo_fixed_body X pd h rnd i s = Some s'" and "i \<noteq> j"
  shows "fo_fixed_slots s' j = fo_fixed_slots s j"
  using assms(1)
  by (cases rule: step_fo_fixed_body_cases)
     (use assms(2) in \<open>simp_all add: fo_fixed_slots_def lane_rd_update\<close>)

lemma step_fo_fixed_lane_of_batch:
  assumes "mccc_step_fo_fixed X pd h rnd s = Some s'" and "j < NSIMD X"
  obtains (idle) "j < length (ff_p s)" "\<not> fo_running (ff_p s ! j)"
      "fo_fixed_slots s' j = fo_fixed_slots s j"
  | (run) p' e' where "j < length (ff_p s)" "fo_running (ff_p s ! j)" "j < length h"
      "j < length (ff_err s)"
      "mccc_step_fo_fixed_lane X pd (ff_p s ! j) (h ! j) (drop (j * 3) rnd) (ff_err s ! j) = Some (p', e')"
      "fo_fixed_slots s' j = (Some p', Some e')"
proof -
  have "\<exists>t t'. fo_fixed_slots t j = fo_fixed_slots s j
      \<and> step_fo_fixed_body X pd h rnd j t = Some t'
      \<and> fo_fixed_slots s' j = fo_fixed_slots t' j"
  proof (rule for_loop_lane[where f = "\<lambda>t. fo_fixed_slots t j"])
    show "for_loop [0..<NSIMD X] (step_fo_fixed_body X pd h rnd) s = Some s'"
      using assms(1) by (simp add: mccc_step_fo_fixed_def)
    show "distinct [0..<NSIMD X]" by simp
    show "j \<in> set [0..<NSIMD X]" using assms(2) by simp
  next
    fix i t t' assume "i \<noteq> j" "step_fo_fixed_body X pd h rnd i t = Some t'"
    then show "fo_fixed_slots t' j = fo_fixed_slots t j"
      using step_fo_fixed_body_other by blast
  qed
  then obtain t t' where ts: "fo_fixed_slots t j = fo_fixed_slots s j"
    and b: "step_fo_fixed_body X pd h rnd j t = Some t'"
    and s': "fo_fixed_slots s' j = fo_fixed_slots t' j" by blast
  from b show thesis
  proof (cases rule: step_fo_fixed_body_cases)
    case idle
    from idle(1) ts have "j < length (ff_p s)" "ff_p s ! j = ff_p t ! j"
      by (auto simp: fo_fixed_slots_def lane_rd_def split: if_splits)
    then show ?thesis using idle ts s' that(1) by simp
  next
    case (run p' e')
    from run(1,4) ts have "j < length (ff_p s)" "ff_p s ! j = ff_p t ! j"
      "j < length (ff_err s)" "ff_err s ! j = ff_err t ! j"
      by (auto simp: fo_fixed_slots_def lane_rd_def split: if_splits)
    moreover have "fo_fixed_slots t' j = (Some p', Some e')"
      using run by (simp add: fo_fixed_slots_def lane_rd_def)
    ultimately show ?thesis using run s' that(2)[of p' e'] by simp
  qed
qed

lemma step_fo_fixed_idle_lane:
  assumes "mccc_step_fo_fixed X pd h rnd s = Some s'"
    and "j < length (ff_p s)" and "\<not> fo_running (ff_p s ! j)"
  shows "fo_fixed_slots s' j = fo_fixed_slots s j"
proof (cases "j < NSIMD X")
  case True
  from assms(1) True show ?thesis
    by (cases rule: step_fo_fixed_lane_of_batch) (use assms(3) in simp_all)
next
  case False
  show ?thesis
  proof (rule for_loop_frame[where f = "\<lambda>t. fo_fixed_slots t j"])
    show "for_loop [0..<NSIMD X] (step_fo_fixed_body X pd h rnd) s = Some s'"
      using assms(1) by (simp add: mccc_step_fo_fixed_def)
  next
    fix i t t' assume "i \<in> set [0..<NSIMD X]" "step_fo_fixed_body X pd h rnd i t = Some t'"
    moreover from this False have "i \<noteq> j" by auto
    ultimately show "fo_fixed_slots t' j = fo_fixed_slots t j"
      using step_fo_fixed_body_other by blast
  qed
qed

lemma step_fo_fixed_body_defined:
  assumes "fo_fixed_slots t i = fo_fixed_slots s i"
    and "i < length (ff_p s)" "i < length h" "i < length (ff_err s)"
    and "fo_running (ff_p s ! i) \<Longrightarrow>
      mccc_step_fo_fixed_lane X pd (ff_p s ! i) (h ! i) (drop (i * 3) rnd) (ff_err s ! i) \<noteq> None"
  shows "step_fo_fixed_body X pd h rnd i t \<noteq> None"
proof -
  from assms(1-4) have "i < length (ff_p t)" "ff_p t ! i = ff_p s ! i"
      "i < length (ff_err t)" "ff_err t ! i = ff_err s ! i"
    by (auto simp: fo_fixed_slots_def lane_rd_def split: if_splits)
  then show ?thesis
    using assms(3,5)
    by (auto simp: step_fo_fixed_body_def lane_rd_def lane_wr_def)
qed

lemma step_fo_fixed_completes:
  assumes "\<forall>i < NSIMD X. i < length (ff_p s) \<and> i < length h \<and> i < length (ff_err s)
      \<and> (fo_running (ff_p s ! i) \<longrightarrow>
          mccc_step_fo_fixed_lane X pd (ff_p s ! i) (h ! i) (drop (i * 3) rnd) (ff_err s ! i) \<noteq> None)"
  shows "mccc_step_fo_fixed X pd h rnd s \<noteq> None"
  unfolding mccc_step_fo_fixed_def
proof (rule for_loop_defined[where f = "\<lambda>i t. fo_fixed_slots t i" and ?s0.0 = s])
  show "distinct [0..<NSIMD X]" by simp
  show "\<forall>i\<in>set [0..<NSIMD X]. fo_fixed_slots s i = fo_fixed_slots s i" by simp
next
  fix i j t t' assume "step_fo_fixed_body X pd h rnd i t = Some t'" "i \<noteq> j"
  then show "fo_fixed_slots t' j = fo_fixed_slots t j" by (rule step_fo_fixed_body_other)
next
  fix i t assume i: "i \<in> set [0..<NSIMD X]" and e: "fo_fixed_slots t i = fo_fixed_slots s i"
  from i assms have a: "i < length (ff_p s)" "i < length h" "i < length (ff_err s)"
      "fo_running (ff_p s ! i) \<Longrightarrow>
          mccc_step_fo_fixed_lane X pd (ff_p s ! i) (h ! i) (drop (i * 3) rnd) (ff_err s ! i) \<noteq> None"
    by simp_all
  show "step_fo_fixed_body X pd h rnd i t \<noteq> None"
    by (rule step_fo_fixed_body_defined[OF e a])
qed

lemma write_block_outside:
  assumes "write_block a off v n = Some a'" and "idx < off \<or> off + nat n \<le> idx"
  shows "lane_rd a' idx = lane_rd a idx"
proof (rule for_loop_frame[where f = "\<lambda>a. lane_rd a idx"])
  show "for_loop [0..<nat n] (\<lambda>j a. lane_wr a (off + j) (v j)) a = Some a'"
    using assms(1) by (simp add: write_block_def)
next
  fix j t t' assume j: "j \<in> set [0..<nat n]" and w: "lane_wr t (off + j) (v j) = Some t'"
  from j assms(2) have "off + j \<noteq> idx" by auto
  then show "lane_rd t' idx = lane_rd t idx"
    using w by (auto simp: lane_wr_Some lane_rd_update)
qed

lemma other_block_outside:
  fixes i j n M idx :: nat
  assumes "i \<noteq> j" and "n \<le> M" and "j * M \<le> idx" and "idx < j * M + M"
  shows "idx < i * M \<or> i * M + n \<le> idx"
proof (cases "i < j")
  case True
  then have "Suc i \<le> j" by simp
  then have "Suc i * M \<le> j * M" by (rule mult_le_mono1)
  then show ?thesis using assms(2,3) by simp
next
  case False
  then have "Suc j \<le> i" using assms(1) by simp
  then have "Suc j * M \<le> i * M" by (rule mult_le_mono1)
  then show ?thesis using assms(4) by simp
qed

lemma write_block_other_lane:
  assumes "write_block a (i * M) v n = Some a'" and "i \<noteq> j" and "n \<le> int M"
  shows "block a' (j * M) M = block a (j * M) M"
  unfolding block_def
proof (rule map_cong[OF refl])
  fix idx assume "idx \<in> set [j * M..<j * M + M]"
  then have "j * M \<le> idx" "idx < j * M + M" by simp_all
  moreover have "nat n \<le> M" using assms(3) by simp
  ultimately have "idx < i * M \<or> i * M + nat n \<le> idx"
    using other_block_outside[OF assms(2)] by blast
  then show "lane_rd a' idx = lane_rd a idx" by (rule write_block_outside[OF assms(1)])
qed

lemma eval_background_bound:
  "eval_background X pd rho = Some r \<Longrightarrow> pd_n_species pd \<le> int (MAX_SPECIES X)"
  by (auto simp: eval_background_def species_in_bounds_def bind_eq_Some_conv Let_def
      split: if_splits)

lemma update_fo_body_idle:
  "i < length ps \<Longrightarrow> \<not> fo_running (ps ! i) \<Longrightarrow> update_fo_body X pd ps i u = Some u"
  by (simp add: update_fo_body_def lane_rd_def)

lemma update_fo_body_other:
  assumes "update_fo_body X pd ps i u = Some u'" and "i \<noteq> j"
  shows "update_fo_slots X u' j = update_fo_slots X u j"
proof (cases "fo_running (ps ! i)")
  case False
  then show ?thesis using assms(1)
    by (auto simp: update_fo_body_def bind_eq_Some_conv lane_rd_Some)
next
  case True
  from assms(1) True obtain r a0 a1 a2 a3 a4 a5 c0 c1 c2 c3 c4 c5
    where r: "eval_background X pd (fo_rho (ps ! i)) = Some r"
      and w: "write_block (uf_clogab u) (i * MAX_SPECIES X) c0 (pd_n_species pd) = Some a0"
        "write_block (uf_F u) (i * MAX_SPECIES X) c1 (pd_n_species pd) = Some a1"
        "write_block (uf_Dpara u) (i * MAX_SPECIES X) c2 (pd_n_species pd) = Some a2"
        "write_block (uf_Dperp u) (i * MAX_SPECIES X) c3 (pd_n_species pd) = Some a3"
        "write_block (uf_K u) (i * MAX_SPECIES X) c4 (pd_n_species pd) = Some a4"
        "write_block (uf_nu u) (i * MAX_SPECIES X) c5 (pd_n_species pd) = Some a5"
      and u': "u' = \<lparr>uf_clogab = a0, uf_F = a1, uf_Dpara = a2, uf_Dperp = a3, uf_K = a4, uf_nu = a5\<rparr>"
    by (auto simp: update_fo_body_def bind_eq_Some_conv lane_rd_Some Let_def split: prod.splits)
  note n = eval_background_bound[OF r]
  show ?thesis
    unfolding update_fo_slots_def u'
    using w[THEN write_block_other_lane, OF assms(2) n] by simp
qed

lemma update_fo_idle_lane:
  assumes "mccc_update_fo X pd ps u = Some u'" and "j < length ps" and "\<not> fo_running (ps ! j)"
  shows "update_fo_slots X u' j = update_fo_slots X u j"
proof (rule for_loop_frame[where f = "\<lambda>u. update_fo_slots X u j"])
  show "for_loop [0..<NSIMD X] (update_fo_body X pd ps) u = Some u'"
    using assms(1) by (simp add: mccc_update_fo_def)
next
  fix i t t' assume b: "update_fo_body X pd ps i t = Some t'"
  show "update_fo_slots X t' j = update_fo_slots X t j"
  proof (cases "i = j")
    case True
    then show ?thesis using b update_fo_body_idle[OF assms(2,3), of X pd t] by simp
  next
    case False
    then show ?thesis using update_fo_body_other[OF b] by simp
  qed
qed

lemma update_gc_body_idle:
  "i < length ps \<Longrightarrow> \<not> gc_running (ps ! i) \<Longrightarrow> update_gc_body X pd ps i u = Some u"
  by (simp add: update_gc_body_def lane_rd_def)

lemma update_gc_body_other:
  assumes "update_gc_body X pd ps i u = Some u'" and "i \<noteq> j"
  shows "update_gc_slots X u' j = update_gc_slots X u j"
proof (cases "gc_running (ps ! i)")
  case False
  then show ?thesis using assms(1)
    by (auto simp: update_gc_body_def bind_eq_Some_conv lane_rd_Some)
next
  case True
  from assms(1) True obtain r a0 a1 a2 a3 a4 a5 a6 c0 c1 c2 c3 c4 c5 c6
    where r: "eval_background X pd (gc_rho (ps ! i)) = Some r"
      and w: "write_block (ug_clogab u) (i * MAX_SPECIES X) c0 (pd_n_species pd) = Some a0"
        "write_block (ug_Dpara u) (i * MAX_SPECIES X) c1 (pd_n_species pd) = Some a1"
        "write_block (ug_DX u) (i * MAX_SPECIES X) c2 (pd_n_species pd) = Some a2"
        "write_block (ug_K u) (i * MAX_SPECIES X) c3 (pd_n_species pd) = Some a3"
        "write_block (ug_nu u) (i * MAX_SPECIES X) c4 (pd_n_species pd) = Some a4"
        "write_block (ug_dQ u) (i * MAX_SPECIES X) c5 (pd_n_species pd) = Some a5"
        "write_block (ug_dDpara u) (i * MAX_SPECIES X) c6 (pd_n_species pd) = Some a6"
      and u': "u' = \<lparr>ug_clogab = a0, ug_Dpara = a1, ug_DX = a2, ug_K = a3, ug_nu = a4,
                     ug_dQ = a5, ug_dDpara = a6\<rparr>"
    by (auto simp: update_gc_body_def bind_eq_Some_conv lane_rd_Some Let_def split: prod.splits)
  note n = eval_background_bound[OF r]
  show ?thesis
    unfolding update_gc_slots_def u'
    using w[THEN write_block_other_lane, OF assms(2) n] by simp
qed

lemma update_gc_idle_lane:
  assumes "mccc_update_gc X pd ps u = Some u'" and "j < length ps" and "\<not> gc_running (ps ! j)"
  shows "update_gc_slots X u' j = update_gc_slots X u j"
proof (rule for_loop_frame[where f = "\<lambda>u. update_gc_slots X u j"])
  show "for_loop [0..<NSIMD X] (update_gc_body X pd ps) u = Some u'"
    using assms(1) by (simp add: mccc_update_gc_def)
next
  fix i t t' assume b: "update_gc_body X pd ps i t = Some t'"
  show "update_gc_slots X t' j = update_gc_slots X t j"
  proof (cases "i = j")
    case True
    then show ?thesis using b update_gc_body_idle[OF assms(2,3), of X pd t] by simp
  next
    case False
    then show ?thesis using update_gc_body_other[OF b] by simp
  qed
qed

section \<open>The definitions on the concrete batch\<close>

lemma sum_species_2: "pd_n_species pd = 2 \<Longrightarrow> sum_species pd a = a 0 + a 1"
  by (simp add: sum_species_def numeral_2_eq_2)

lemma ex_push_in:
  "gc_adaptive_push_in (ex_externs kk kd0 kd1) ex_plasma tol (ex_gc run) hin ex_wiener
     (1 # 1 # 1 # d3 # d4 # rest) e =
     Some (\<lparr>pi_K = 0, pi_nu = 2, pi_Dpara = 2, pi_DX = 2, pi_B = (0, 1, 0), pi_dt = hin,
            pi_noise = [1, 1, 1, d3, d4], pi_vin = 1, pi_xiin = 1, pi_Xin = (1, 0, 0),
            pi_cutoff = 1 / 10, pi_err = (if 5 < hin then 1 else e),
            pi_dQ = 0, pi_dDpara = 0, pi_tol = tol\<rparr>,
           \<lparr>w_time = [0, hin], w_wiener = [0, 0, 0, 0, 0, 1, 1, 1, d3, d4]\<rparr>, 1)"
  by (simp add: gc_adaptive_push_in_def ex_externs_def ex_plasma_def ex_gc_def ex_wiener_def
      species_in_bounds_def temp_to_joule_def gc_speed_step_def fdiv_def fsqrt_def
      cutoff_speed_def rd_def wiener_increment_def sum_species_2)

lemma ex_commit:
  "gc_adaptive_commit (ex_externs kk kd0 kd1) (ex_gc run)
     \<lparr>po_vout = 1 / 2, po_xiout = 1, po_Xout = (1, 0, 0), po_err = e,
      po_kappa_k = kk', po_kappa_d0 = kd0', po_kappa_d1 = kd1'\<rparr> =
   Some (ex_gc run\<lparr>gc_vpar := 1 / 2, gc_rho := 1\<rparr>)"
  by (simp add: gc_adaptive_commit_def ex_externs_def ex_gc_def update_position_def update_field_def
      fdiv_def fsqrt_def c_fmod_def c_atan2_def)

lemma ex_push_gcMI:
  "mccc_push_gcMI (ex_externs kk kd0 kd1) a =
     \<lparr>po_vout = pi_vin a / 2, po_xiout = pi_xiin a, po_Xout = pi_Xin a, po_err = pi_err a,
      po_kappa_k = kk, po_kappa_d0 = kd0, po_kappa_d1 = kd1\<rparr>"
  by (simp add: ex_externs_def)

lemma ex_lane_drawn:
  assumes "hout_signed hin kk kd0 kd1 d3 d4 = Some h"
  shows "mccc_step_gc_adaptive_lane (ex_externs kk kd0 kd1) ex_plasma tol (ex_gc run) hin ex_wiener
           (1 # 1 # 1 # d3 # d4 # rest) e =
         Some \<lparr>al_p = ex_gc run\<lparr>gc_vpar := 1 / 2, gc_rho := 1\<rparr>, al_hout = h,
               al_w = \<lparr>w_time = [0, hin], w_wiener = [0, 0, 0, 0, 0, 1, 1, 1, d3, d4]\<rparr>,
               al_err = (if 5 < hin then 1 else e),
               al_kappa_k = kk, al_kappa_d0 = kd0, al_kappa_d1 = kd1,
               al_dW = [1, 1, 1, d3, d4],
               al_tindex = (if rejected kk kd0 kd1 then 0 else 1),
               al_rejected = rejected kk kd0 kd1\<rparr>"
  using assms by (simp add: mccc_step_gc_adaptive_lane_def ex_push_in ex_push_gcMI ex_commit)

lemma ex_lane:
  assumes "hout_signed hin kk kd0 kd1 d3 d4 = Some h"
  shows "mccc_step_gc_adaptive_lane (ex_externs kk kd0 kd1) ex_plasma tol (ex_gc run) hin ex_wiener
           (ex_rand5 d3 d4) e =
         Some \<lparr>al_p = ex_gc run\<lparr>gc_vpar := 1 / 2, gc_rho := 1\<rparr>, al_hout = h,
               al_w = \<lparr>w_time = [0, hin], w_wiener = [0, 0, 0, 0, 0, 1, 1, 1, d3, d4]\<rparr>,
               al_err = (if 5 < hin then 1 else e),
               al_kappa_k = kk, al_kappa_d0 = kd0, al_kappa_d1 = kd1,
               al_dW = [1, 1, 1, d3, d4],
               al_tindex = (if rejected kk kd0 kd1 then 0 else 1),
               al_rejected = rejected kk kd0 kd1\<rparr>"
  unfolding ex_rand5_def by (rule ex_lane_drawn[OF assms])

lemma ex_gc_fixed_lane:
  "mccc_step_gc_fixed_lane (ex_externs kk kd0 kd1) ex_plasma (ex_gc run) h rnd e =
     Some (ex_gc run\<lparr>gc_rho := 1\<rparr>, e)"
  by (simp add: mccc_step_gc_fixed_lane_def gc_fixed_push_in_def ex_externs_def ex_plasma_def
      ex_gc_def species_in_bounds_def temp_to_joule_def gc_speed_step_def fdiv_def fsqrt_def
      cutoff_speed_def sum_species_2 update_position_def update_field_def c_fmod_def c_atan2_def)

lemma ex_fo_fixed_lane:
  "mccc_step_fo_fixed_lane (ex_externs kk kd0 kd1) ex_plasma (ex_fo run) h rnd e =
     Some (ex_fo run, if h < 0 then 3 else e)"
  by (simp add: mccc_step_fo_fixed_lane_def ex_externs_def ex_plasma_def ex_fo_def
      species_in_bounds_def temp_to_joule_def fdiv_def fsqrt_def sum_species_2)

lemma upt_0_2: "[0..<2] = [0, Suc 0]"
  by (simp add: numeral_2_eq_2)

lemma ex_gc_running: "gc_running (ex_gc run) = run"
  by (simp add: ex_gc_def)

lemma ex_fo_running: "fo_running (ex_fo run) = run"
  by (simp add: ex_fo_def)

lemma ex_macros:
  "NSIMD (ex_externs kk kd0 kd1) = 2" "MAX_SPECIES (ex_externs kk kd0 kd1) = 2"
  "MCCC_NDIM (ex_externs kk kd0 kd1) = 5"
  by (simp_all add: ex_externs_def)

section \<open>Properties of one lane of the guiding-centre steps\<close>

lemma update_field_fresh: "field_cache_fresh X (update_field X p)"
  by (simp add: field_cache_fresh_def update_field_def Let_def)

lemma field_cache_fresh_mu_vpar:
  "field_cache_fresh X (p\<lparr>gc_mu := m, gc_vpar := v\<rparr>) = field_cache_fresh X p"
  by (simp add: field_cache_fresh_def)

lemma gc_fixed_lane_fresh:
  assumes "mccc_step_gc_fixed_lane X pd p h rnd e = Some (p', e')"
  shows "field_cache_fresh X p'"
  using assms update_field_fresh
  by (auto simp: mccc_step_gc_fixed_lane_def bind_eq_Some_conv Let_def field_cache_fresh_mu_vpar)

lemma gc_adaptive_commit_fresh:
  assumes "gc_adaptive_commit X p out = Some p'"
  shows "field_cache_fresh X p'"
  using assms update_field_fresh
  by (auto simp: gc_adaptive_commit_def bind_eq_Some_conv Let_def)

lemma gc_adaptive_lane_commit:
  assumes "mccc_step_gc_adaptive_lane X pd tol p hin w rand5 e = Some l"
  shows "\<exists>a tindex. gc_adaptive_push_in X pd tol p hin w rand5 e = Some (a, al_w l, tindex)
      \<and> gc_adaptive_commit X p (mccc_push_gcMI X a) = Some (al_p l)
      \<and> al_err l = po_err (mccc_push_gcMI X a)
      \<and> al_kappa_k l = po_kappa_k (mccc_push_gcMI X a)
      \<and> al_kappa_d0 l = po_kappa_d0 (mccc_push_gcMI X a)
      \<and> al_kappa_d1 l = po_kappa_d1 (mccc_push_gcMI X a)
      \<and> al_dW l = pi_noise a"
  using assms
  by (auto simp: mccc_step_gc_adaptive_lane_def bind_eq_Some_conv Let_def split: prod.splits)





lemma ex_hout_4: "hout_signed 1 4 1 1 2 3 = Some (- (2 / 5))"
  by (simp add: hout_signed_def hout_proposal_def fsqrt_def fdiv_def rejected_def)

lemma ex_step_gc_fixed:
  "mccc_step_gc_fixed (ex_externs 4 1 1) ex_plasma [1, 1] (ex_rand5 2 3)
     \<lparr>bf_p = [ex_gc True, ex_gc False], bf_err = [0, 0]\<rparr> =
   Some \<lparr>bf_p = [ex_gc True\<lparr>gc_rho := 1\<rparr>, ex_gc False], bf_err = [0, 0]\<rparr>"
  by (simp add: mccc_step_gc_fixed_def ex_macros upt_0_2 step_gc_fixed_body_def lane_rd_def
      lane_wr_def ex_gc_fixed_lane ex_gc_running)

lemma ex_step_gc_adaptive:
  "mccc_step_gc_adaptive (ex_externs 4 1 1) ex_plasma (1 / 100) [1, 1] (ex_rand5 2 3)
     \<lparr>ba_p = [ex_gc True, ex_gc False], ba_hout = [0, 0], ba_w = [ex_wiener, ex_wiener],
      ba_err = [0, 0]\<rparr> =
   Some \<lparr>ba_p = [ex_gc True\<lparr>gc_vpar := 1 / 2, gc_rho := 1\<rparr>, ex_gc False], ba_hout = [- (2 / 5), 0],
         ba_w = [\<lparr>w_time = [0, 1], w_wiener = [0, 0, 0, 0, 0, 1, 1, 1, 2, 3]\<rparr>, ex_wiener],
         ba_err = [0, 0]\<rparr>"
  by (simp add: mccc_step_gc_adaptive_def ex_macros upt_0_2 step_gc_adaptive_body_def lane_rd_def
      lane_wr_def ex_rand5_def ex_lane_drawn[OF ex_hout_4] ex_gc_running)

section \<open>The batch operations on the concrete batch\<close>

lemma ex_eval_background:
  "eval_background (ex_externs kk kd0 kd1) ex_plasma rho = Some (\<lambda>j. if j = 0 \<or> j = 1 then 1 else 0, \<lambda>j. if j = 0 \<or> j = 1 then 1 else 0)"
  by (auto simp: eval_background_def ex_externs_def ex_plasma_def species_in_bounds_def
      numeral_2_eq_2 fun_eq_iff)

lemma write_block_2:
  "write_block [a0, a1, a2, a3] 0 v 2 = Some [v 0, v 1, a2, a3]"
  by (simp add: write_block_def upt_0_2 lane_wr_def)

lemma ex_update_fo:
  "mccc_update_fo (ex_externs 4 1 1) ex_plasma [ex_fo True, ex_fo False]
     \<lparr>uf_clogab = [7, 7, 7, 7], uf_F = [7, 7, 7, 7], uf_Dpara = [7, 7, 7, 7],
      uf_Dperp = [7, 7, 7, 7], uf_K = [7, 7, 7, 7], uf_nu = [7, 7, 7, 7]\<rparr> =
   Some \<lparr>uf_clogab = [1, 1, 7, 7], uf_F = [0, 0, 7, 7], uf_Dpara = [1, 1, 7, 7],
         uf_Dperp = [1, 1, 7, 7], uf_K = [0, 0, 7, 7], uf_nu = [1, 1, 7, 7]\<rparr>"
proof -
  have c: "mccc_coefs_clog (ex_externs 4 1 1) = (\<lambda>ma qa va mb qb dens temp n j. 1)"
    "mccc_coefs_fo (ex_externs 4 1 1) = (\<lambda>ma qa va mb qb dens temp clogab n.
         \<lparr>cf_F = \<lambda>j. 0, cf_Dpara = \<lambda>j. 1, cf_Dperp = \<lambda>j. 1, cf_K = \<lambda>j. 0, cf_nu = \<lambda>j. 1\<rparr>)"
    by (simp_all add: ex_externs_def)
  have p: "pd_n_species ex_plasma = 2" by (simp add: ex_plasma_def)
  have v: "fsqrt (fo_rdot (ex_fo True) * fo_rdot (ex_fo True)
      + fo_r (ex_fo True) * fo_phidot (ex_fo True) * (fo_r (ex_fo True) * fo_phidot (ex_fo True))
      + fo_zdot (ex_fo True) * fo_zdot (ex_fo True)) = Some 1"
    by (simp add: ex_fo_def fsqrt_def)
  show ?thesis
    by (simp add: mccc_update_fo_def ex_macros upt_0_2 update_fo_body_def lane_rd_def
        ex_fo_running ex_eval_background v c p write_block_2)
qed

lemma ex_update_gc:
  "mccc_update_gc (ex_externs 4 1 1) ex_plasma [ex_gc True, ex_gc False]
     \<lparr>ug_clogab = [7, 7, 7, 7], ug_Dpara = [7, 7, 7, 7], ug_DX = [7, 7, 7, 7],
      ug_K = [7, 7, 7, 7], ug_nu = [7, 7, 7, 7], ug_dQ = [7, 7, 7, 7], ug_dDpara = [7, 7, 7, 7]\<rparr> =
   Some \<lparr>ug_clogab = [1, 1, 7, 7], ug_Dpara = [1, 1, 7, 7], ug_DX = [1, 1, 7, 7],
         ug_K = [0, 0, 7, 7], ug_nu = [1, 1, 7, 7], ug_dQ = [0, 0, 7, 7], ug_dDpara = [0, 0, 7, 7]\<rparr>"
proof -
  have c: "mccc_coefs_clog (ex_externs 4 1 1) = (\<lambda>ma qa va mb qb dens temp n j. 1)"
    "mccc_coefs_gcadaptive (ex_externs 4 1 1) = (\<lambda>ma qa va xi mb qb dens temp Bnorm clogab n.
         \<lparr>cg_Dpara = \<lambda>j. 1, cg_DX = \<lambda>j. 1, cg_K = \<lambda>j. 0, cg_nu = \<lambda>j. 1,
          cg_dQ = \<lambda>j. 0, cg_dDpara = \<lambda>j. 0\<rparr>)"
    by (simp_all add: ex_externs_def)
  have p: "pd_n_species ex_plasma = 2" by (simp add: ex_plasma_def)
  have v: "gc_speed_update 1 (gc_mu (ex_gc True))
      (math_norm (ex_externs 4 1 1) (gc_B_r (ex_gc True), gc_B_phi (ex_gc True), gc_B_z (ex_gc True)))
      (gc_mass (ex_gc True)) = Some 1"
    "gc_vpar (ex_gc True) = 1"
    by (simp_all add: ex_gc_def ex_externs_def gc_speed_update_def fsqrt_def)
  show ?thesis
    by (simp add: mccc_update_gc_def ex_macros upt_0_2 update_gc_body_def lane_rd_def
        ex_gc_running ex_eval_background v c p write_block_2 fdiv_def)
qed

lemma ex_step_fo_fixed:
  "mccc_step_fo_fixed (ex_externs 4 1 1) ex_plasma [- 1, 1] [1, 1, 1, 1, 1, 1]
     \<lparr>ff_p = [ex_fo True, ex_fo True], ff_err = [0, 0]\<rparr> =
   Some \<lparr>ff_p = [ex_fo True, ex_fo True], ff_err = [3, 0]\<rparr>"
  by (simp add: mccc_step_fo_fixed_def ex_macros upt_0_2 step_fo_fixed_body_def lane_rd_def
      lane_wr_def ex_fo_fixed_lane ex_fo_running)

lemma ex_step_fo_fixed_idle:
  "mccc_step_fo_fixed (ex_externs 4 1 1) ex_plasma [- 1, 1] [1, 1, 1, 1, 1, 1]
     \<lparr>ff_p = [ex_fo True, ex_fo False], ff_err = [0, 0]\<rparr> =
   Some \<lparr>ff_p = [ex_fo True, ex_fo False], ff_err = [3, 0]\<rparr>"
  by (simp add: mccc_step_fo_fixed_def ex_macros upt_0_2 step_fo_fixed_body_def lane_rd_def
      lane_wr_def ex_fo_fixed_lane ex_fo_running)

lemma ex_hout_10: "hout_signed 10 4 1 1 2 3 = Some (- 4)"
  by (simp add: hout_signed_def hout_proposal_def fsqrt_def fdiv_def rejected_def)

lemma ex_step_gc_adaptive_error:
  "mccc_step_gc_adaptive (ex_externs 4 1 1) ex_plasma (1 / 100) [10, 1] (ex_rand5 2 3)
     \<lparr>ba_p = [ex_gc True, ex_gc True], ba_hout = [0, 0], ba_w = [ex_wiener, ex_wiener],
      ba_err = [0, 0]\<rparr> =
   Some \<lparr>ba_p = [ex_gc True\<lparr>gc_vpar := 1 / 2, gc_rho := 1\<rparr>, ex_gc True\<lparr>gc_vpar := 1 / 2, gc_rho := 1\<rparr>],
         ba_hout = [- 4, - (2 / 5)],
         ba_w = [\<lparr>w_time = [0, 10], w_wiener = [0, 0, 0, 0, 0, 1, 1, 1, 2, 3]\<rparr>,
                 \<lparr>w_time = [0, 1], w_wiener = [0, 0, 0, 0, 0, 1, 1, 1, 2, 3]\<rparr>],
         ba_err = [1, 0]\<rparr>"
  by (simp add: mccc_step_gc_adaptive_def ex_macros upt_0_2 step_gc_adaptive_body_def lane_rd_def
      lane_wr_def ex_rand5_def ex_lane_drawn[OF ex_hout_10] ex_lane_drawn[OF ex_hout_4] ex_gc_running)

section \<open>The steps of the readers\<close>

lemma run_steps_Cons_Next:
  "run_steps (f # fs) s = Next s' \<longleftrightarrow> (\<exists>s1. f s = Next s1 \<and> run_steps fs s1 = Next s')"
  by (auto split: ctl.splits)

lemma run_steps_Nil_Next: "run_steps [] s = Next s' \<longleftrightarrow> s' = s"
  by auto

lemma run_steps_append:
  "run_steps (fs @ gs) s = (case run_steps fs s of Next s' \<Rightarrow> run_steps gs s' | stop \<Rightarrow> stop)"
  by (induction fs arbitrary: s) (auto split: ctl.splits)

lemma run_steps_append_Next:
  "run_steps (fs @ gs) s = Next s' \<longleftrightarrow> (\<exists>s1. run_steps fs s = Next s1 \<and> run_steps gs s1 = Next s')"
  by (auto simp: run_steps_append split: ctl.splits)

lemma run_steps_inv:
  assumes "run_steps fs s = Next s'" and "P s"
    and "\<And>f t t'. f \<in> set fs \<Longrightarrow> P t \<Longrightarrow> f t = Next t' \<Longrightarrow> P t'"
  shows "P s'"
  using assms
proof (induction fs arbitrary: s)
  case Nil
  then show ?case by simp
next
  case (Cons f fs)
  from Cons.prems(1) obtain s1 where s1: "f s = Next s1" and r: "run_steps fs s1 = Next s'"
    by (auto split: ctl.splits)
  have "P s1" using Cons.prems(3)[of f s s1] Cons.prems(2) s1 by simp
  show ?case
  proof (rule Cons.IH[OF r \<open>P s1\<close>])
    fix g t t' assume "g \<in> set fs" "P t" "g t = Next t'"
    then show "P t'" using Cons.prems(3)[of g t t'] by simp
  qed
qed

lemma ctl_for_append:
  "ctl_for (xs @ ys) body s = (case ctl_for xs body s of Next s' \<Rightarrow> ctl_for ys body s' | stop \<Rightarrow> stop)"
  by (induction xs arbitrary: s) (auto split: ctl.splits)

lemma ctl_for_inv:
  assumes "ctl_for is body s = Next s'" and "P s"
    and "\<And>i t t'. i \<in> set is \<Longrightarrow> P t \<Longrightarrow> body i t = Next t' \<Longrightarrow> P t'"
  shows "P s'"
  using assms
proof (induction "is" arbitrary: s)
  case Nil
  then show ?case by simp
next
  case (Cons i "is")
  from Cons.prems(1) obtain s1 where s1: "body i s = Next s1" and r: "ctl_for is body s1 = Next s'"
    by (auto split: ctl.splits)
  have "P s1" using Cons.prems(3)[of i s s1] Cons.prems(2) s1 by simp
  show ?case
  proof (rule Cons.IH[OF r \<open>P s1\<close>])
    fix k t t' assume "k \<in> set is" "P t" "body k t = Next t'"
    then show "P t'" using Cons.prems(3)[of k t t'] by simp
  qed
qed

lemma ctl_for_upt_Suc_Next:
  "ctl_for [0..<Suc n] body s = Next s' \<longleftrightarrow>
     (\<exists>s1. ctl_for [0..<n] body s = Next s1 \<and> body n s1 = Next s')"
  by (auto simp: ctl_for_append split: ctl.splits)

lemma store_species_Next:
  "store_species M k upd s = Next s' \<longleftrightarrow> k < MAX_SPECIES M \<and> s' = upd s"
  by (auto simp: store_species_def)

lemma read_species_Next:
  "read_species M ds upd s = Next s' \<longleftrightarrow>
     (\<exists>xs. ds = Some xs \<and> length xs \<le> MAX_SPECIES M
        \<and> s' = upd (\<lambda>a j. if j < length xs then xs ! j else a j) s)"
  by (auto simp: read_species_def split: option.splits)

lemma read_scalar_Next:
  "read_scalar ds put s = Next s' \<longleftrightarrow> (\<exists>v. ds = Some v \<and> s' = put v s)"
  by (auto simp: read_scalar_def split: option.splits)

lemma charge_loop:
  assumes "ctl_for [0..<n]
      (\<lambda>i. store_species M (i + 1)
         (\<lambda>s. s\<lparr>rs_od := (rs_od s)\<lparr>od_charge :=
             (od_charge (rs_od s))(i + 1 := of_int (rs_temparr s i) * c)\<rparr>\<rparr>)) s = Next s'"
  shows "(0 < n \<longrightarrow> n < MAX_SPECIES M)
     \<and> od_charge (rs_od s') =
         (\<lambda>k. if 1 \<le> k \<and> k \<le> n then of_int (rs_temparr s (k - 1)) * c else od_charge (rs_od s) k)
     \<and> od_mass (rs_od s') = od_mass (rs_od s) \<and> od_n_species (rs_od s') = od_n_species (rs_od s)
     \<and> rs_temparr s' = rs_temparr s \<and> rs_n_ions s' = rs_n_ions s"
  using assms
proof (induction n arbitrary: s')
  case 0
  then show ?case by (simp add: fun_eq_iff)
next
  case (Suc n)
  from Suc.prems obtain s1 where
    s1: "ctl_for [0..<n]
      (\<lambda>i. store_species M (i + 1)
         (\<lambda>s. s\<lparr>rs_od := (rs_od s)\<lparr>od_charge :=
             (od_charge (rs_od s))(i + 1 := of_int (rs_temparr s i) * c)\<rparr>\<rparr>)) s = Next s1"
    and st: "store_species M (n + 1)
         (\<lambda>s. s\<lparr>rs_od := (rs_od s)\<lparr>od_charge :=
             (od_charge (rs_od s))(n + 1 := of_int (rs_temparr s n) * c)\<rparr>\<rparr>) s1 = Next s'"
    unfolding ctl_for_upt_Suc_Next by auto
  note ih = Suc.IH[OF s1]
  from st have b: "n + 1 < MAX_SPECIES M"
    and s': "s' = s1\<lparr>rs_od := (rs_od s1)\<lparr>od_charge :=
             (od_charge (rs_od s1))(n + 1 := of_int (rs_temparr s1 n) * c)\<rparr>\<rparr>"
    by (simp_all add: store_species_Next)
  show ?case
    unfolding s' using b ih by (auto simp: fun_eq_iff)
qed

lemma mass_loop:
  assumes "ctl_for [0..<n]
      (\<lambda>i. store_species M (i + 1)
         (\<lambda>s. s\<lparr>rs_od := (rs_od s)\<lparr>od_mass :=
             (od_mass (rs_od s))(i + 1 := of_int (rs_temparr s i) * c)\<rparr>\<rparr>)) s = Next s'"
  shows "(0 < n \<longrightarrow> n < MAX_SPECIES M)
     \<and> od_mass (rs_od s') =
         (\<lambda>k. if 1 \<le> k \<and> k \<le> n then of_int (rs_temparr s (k - 1)) * c else od_mass (rs_od s) k)
     \<and> od_charge (rs_od s') = od_charge (rs_od s) \<and> od_n_species (rs_od s') = od_n_species (rs_od s)
     \<and> rs_temparr s' = rs_temparr s \<and> rs_n_ions s' = rs_n_ions s"
  using assms
proof (induction n arbitrary: s')
  case 0
  then show ?case by (simp add: fun_eq_iff)
next
  case (Suc n)
  from Suc.prems obtain s1 where
    s1: "ctl_for [0..<n]
      (\<lambda>i. store_species M (i + 1)
         (\<lambda>s. s\<lparr>rs_od := (rs_od s)\<lparr>od_mass :=
             (od_mass (rs_od s))(i + 1 := of_int (rs_temparr s i) * c)\<rparr>\<rparr>)) s = Next s1"
    and st: "store_species M (n + 1)
         (\<lambda>s. s\<lparr>rs_od := (rs_od s)\<lparr>od_mass :=
             (od_mass (rs_od s))(n + 1 := of_int (rs_temparr s n) * c)\<rparr>\<rparr>) s1 = Next s'"
    unfolding ctl_for_upt_Suc_Next by auto
  note ih = Suc.IH[OF s1]
  from st have b: "n + 1 < MAX_SPECIES M"
    and s': "s' = s1\<lparr>rs_od := (rs_od s1)\<lparr>od_mass :=
             (od_mass (rs_od s1))(n + 1 := of_int (rs_temparr s1 n) * c)\<rparr>\<rparr>"
    by (simp_all add: store_species_Next)
  show ?case
    unfolding s' using b ih by (auto simp: fun_eq_iff)
qed

lemma read_species_info_Next:
  assumes "run_steps (read_species_info M f) s = Next s'"
  shows "\<exists>c m. f_charge f = Some c \<and> f_mass f = Some m
     \<and> 0 < MAX_SPECIES M
     \<and> (0 < rs_n_ions s \<longrightarrow> rs_n_ions s < int (MAX_SPECIES M))
     \<and> rs_n_ions s' = rs_n_ions s
     \<and> od_n_species (rs_od s') = od_n_species (rs_od s)
     \<and> od_charge (rs_od s') 0 = - CONST_E M \<and> od_mass (rs_od s') 0 = CONST_M_E M
     \<and> (\<forall>i < nat (rs_n_ions s).
          (i < length c \<longrightarrow> od_charge (rs_od s') (i + 1) = of_int (c ! i) * CONST_E M)
        \<and> (i < length m \<longrightarrow> od_mass (rs_od s') (i + 1) = of_int (m ! i) * CONST_U M))"
proof -
  from assms obtain s1 s2 s3 s4 s5 s6 s7 s8 where
    st1: "store_species M 0 (\<lambda>s. s\<lparr>rs_od := (rs_od s)\<lparr>od_charge := (od_charge (rs_od s))(0 := - 1 * CONST_E M)\<rparr>\<rparr>) s = Next s1"
    and st2: "store_species M 0 (\<lambda>s. s\<lparr>rs_od := (rs_od s)\<lparr>od_mass := (od_mass (rs_od s))(0 := CONST_M_E M)\<rparr>\<rparr>) s1 = Next s2"
    and st3: "read_species M (f_znum f) (\<lambda>w s. s\<lparr>rs_od := (rs_od s)\<lparr>od_znum := w (od_znum (rs_od s))\<rparr>\<rparr>) s2 = Next s3"
    and st4: "read_species M (f_anum f) (\<lambda>w s. s\<lparr>rs_od := (rs_od s)\<lparr>od_anum := w (od_anum (rs_od s))\<rparr>\<rparr>) s3 = Next s4"
    and st5: "read_species M (f_charge f) (\<lambda>w s. s\<lparr>rs_temparr := w (rs_temparr s)\<rparr>) s4 = Next s5"
    and st6: "ctl_for [0..<nat (rs_n_ions s5)]
             (\<lambda>i. store_species M (i + 1)
                (\<lambda>s. s\<lparr>rs_od := (rs_od s)\<lparr>od_charge :=
                    (od_charge (rs_od s))(i + 1 := of_int (rs_temparr s i) * CONST_E M)\<rparr>\<rparr>)) s5 = Next s6"
    and st7: "read_species M (f_mass f) (\<lambda>w s. s\<lparr>rs_temparr := w (rs_temparr s)\<rparr>) s6 = Next s7"
    and st8: "ctl_for [0..<nat (rs_n_ions s7)]
             (\<lambda>i. store_species M (i + 1)
                (\<lambda>s. s\<lparr>rs_od := (rs_od s)\<lparr>od_mass :=
                    (od_mass (rs_od s))(i + 1 := of_int (rs_temparr s i) * CONST_U M)\<rparr>\<rparr>)) s7 = Next s8"
    and e: "s' = s8"
    unfolding read_species_info_def run_steps_Cons_Next run_steps_Nil_Next by blast
  from st1 have m0: "0 < MAX_SPECIES M"
    and s1: "s1 = s\<lparr>rs_od := (rs_od s)\<lparr>od_charge := (od_charge (rs_od s))(0 := - 1 * CONST_E M)\<rparr>\<rparr>"
    by (simp_all add: store_species_Next)
  from st2 have s2: "s2 = s1\<lparr>rs_od := (rs_od s1)\<lparr>od_mass := (od_mass (rs_od s1))(0 := CONST_M_E M)\<rparr>\<rparr>"
    by (simp add: store_species_Next)
  from st3 obtain zs where s3: "s3 = s2\<lparr>rs_od := (rs_od s2)\<lparr>od_znum :=
      (\<lambda>j. if j < length zs then zs ! j else od_znum (rs_od s2) j)\<rparr>\<rparr>"
    by (auto simp: read_species_Next)
  from st4 obtain as where s4: "s4 = s3\<lparr>rs_od := (rs_od s3)\<lparr>od_anum :=
      (\<lambda>j. if j < length as then as ! j else od_anum (rs_od s3) j)\<rparr>\<rparr>"
    by (auto simp: read_species_Next)
  from st5 obtain c where c: "f_charge f = Some c"
    and s5: "s5 = s4\<lparr>rs_temparr := (\<lambda>j. if j < length c then c ! j else rs_temparr s4 j)\<rparr>"
    by (auto simp: read_species_Next)
  note l6 = charge_loop[OF st6]
  from st7 obtain m where m: "f_mass f = Some m"
    and s7: "s7 = s6\<lparr>rs_temparr := (\<lambda>j. if j < length m then m ! j else rs_temparr s6 j)\<rparr>"
    by (auto simp: read_species_Next)
  note l8 = mass_loop[OF st8]
  have n5: "rs_n_ions s5 = rs_n_ions s" by (simp add: s5 s4 s3 s2 s1)
  have n7: "rs_n_ions s7 = rs_n_ions s" using l6 n5 by (simp add: s7)
  have b: "0 < rs_n_ions s \<longrightarrow> rs_n_ions s < int (MAX_SPECIES M)"
    using l6 n5 by auto
  have ns: "od_n_species (rs_od s8) = od_n_species (rs_od s)"
    using l8 l6 by (simp add: s7 s5 s4 s3 s2 s1)
  have ch: "od_charge (rs_od s8) =
      (\<lambda>k. if 1 \<le> k \<and> k \<le> nat (rs_n_ions s) then of_int (rs_temparr s5 (k - 1)) * CONST_E M
            else od_charge (rs_od s5) k)"
    using l8 l6 n5 by (simp add: s7)
  have ma: "od_mass (rs_od s8) =
      (\<lambda>k. if 1 \<le> k \<and> k \<le> nat (rs_n_ions s) then of_int (rs_temparr s7 (k - 1)) * CONST_U M
            else od_mass (rs_od s7) k)"
    using l8 n7 by simp
  have c0: "od_charge (rs_od s8) 0 = - CONST_E M"
    by (simp add: ch s5 s4 s3 s2 s1)
  have m0': "od_mass (rs_od s8) 0 = CONST_M_E M"
    using l6 by (simp add: ma s7 s5 s4 s3 s2 s1)
  have ions: "\<forall>i < nat (rs_n_ions s).
          (i < length c \<longrightarrow> od_charge (rs_od s8) (i + 1) = of_int (c ! i) * CONST_E M)
        \<and> (i < length m \<longrightarrow> od_mass (rs_od s8) (i + 1) = of_int (m ! i) * CONST_U M)"
    by (simp add: ch ma s5 s7)
  have n8: "rs_n_ions s8 = rs_n_ions s" using l8 n7 by simp
  show ?thesis
    unfolding e
    by (rule exI[of _ c], rule exI[of _ m]) (intro conjI c m m0 b n8 ns c0 m0' ions)
qed


lemma run_steps_Returned:
  "run_steps fs s = Returned c s' \<Longrightarrow> \<exists>g\<in>set fs. \<exists>t. g t = Returned c s'"
  by (induction fs arbitrary: s) (auto split: ctl.splits)

lemma ctl_for_Returned:
  "ctl_for ks body s = Returned c s' \<Longrightarrow> \<exists>k\<in>set ks. \<exists>t. body k t = Returned c s'"
  by (induction ks arbitrary: s) (auto split: ctl.splits)

lemma read_scalar_code: "read_scalar ds put t = Returned c s' \<Longrightarrow> c = 1"
  by (auto simp: read_scalar_def split: option.splits)

lemma read_species_code: "read_species M ds upd t = Returned c s' \<Longrightarrow> c = 1"
  by (auto simp: read_species_def split: option.splits if_splits)

lemma store_species_code: "store_species M k upd t = Returned c s' \<Longrightarrow> False"
  by (auto simp: store_species_def split: if_splits)

lemma read_doubles_code: "read_doubles ds off t = Returned c s' \<Longrightarrow> c = 1"
  by (auto simp: read_doubles_def split: option.splits if_splits)

lemma scale_temperatures_code: "scale_temperatures M e i t = Returned c s' \<Longrightarrow> False"
  by (auto simp: scale_temperatures_def scale_cell_def
      dest!: ctl_for_Returned run_steps_Returned split: if_splits)

lemma read_species_info_code:
  "g \<in> set (read_species_info M f) \<Longrightarrow> g t = Returned c s' \<Longrightarrow> c = 1"
  by (auto simp: read_species_info_def
      dest!: ctl_for_Returned dest: read_species_code store_species_code)

lemma reader_tail_keeps_species:
  assumes "run_steps fs s = Next s'"
    and "\<And>g t t'. g \<in> set fs \<Longrightarrow> g t = Next t' \<Longrightarrow>
       od_n_species (rs_od t') = od_n_species (rs_od t) \<and> od_charge (rs_od t') = od_charge (rs_od t)
       \<and> od_mass (rs_od t') = od_mass (rs_od t)"
  shows "od_n_species (rs_od s') = od_n_species (rs_od s) \<and> od_charge (rs_od s') = od_charge (rs_od s)
       \<and> od_mass (rs_od s') = od_mass (rs_od s)"
  by (rule run_steps_inv[OF assms(1), where P = "\<lambda>t. od_n_species (rs_od t) = od_n_species (rs_od s)
        \<and> od_charge (rs_od t) = od_charge (rs_od s) \<and> od_mass (rs_od t) = od_mass (rs_od s)"])
     (use assms(2) in auto)

lemma read_doubles_od: "read_doubles ds off s = Next s' \<Longrightarrow> rs_od s' = rs_od s"
  by (auto simp: read_doubles_def split: option.splits if_splits)

lemma scale_cell_od: "scale_cell M k s = Next s' \<Longrightarrow> rs_od s' = rs_od s"
  by (auto simp: scale_cell_def split: if_splits)

lemma scale_temperatures_od:
  assumes "scale_temperatures M e i s = Next s'"
  shows "rs_od s' = rs_od s"
proof (rule ctl_for_inv[where P = "\<lambda>t. rs_od t = rs_od s"])
  show "ctl_for [0..<nat (rs_n_rho s)]
      (\<lambda>k. run_steps [scale_cell M (e + int k), scale_cell M (i + int k)]) s = Next s'"
    using assms by (simp add: scale_temperatures_def)
  show "rs_od s = rs_od s" by simp
next
  fix k t t' assume "rs_od t = rs_od s"
    and "run_steps [scale_cell M (e + int k), scale_cell M (i + int k)] t = Next t'"
  then show "rs_od t' = rs_od s"
    by (auto split: ctl.splits dest!: scale_cell_od)
qed

lemma alloc_array_od: "rs_od (alloc_array s len) = rs_od s"
  by (simp add: alloc_array_def)

lemma reader_species:
  fixes s0 :: "('o plasma_1D_offload_data_scheme) reader"
  assumes run: "(case run_steps (pre @ read_species_info M f @ post) s0 of
                   Next s \<Rightarrow> Returned 0 s | stop \<Rightarrow> stop) = Returned 0 s"
    and codes: "\<And>g t c s'. g \<in> set pre \<union> set post \<Longrightarrow> g t = Returned c s' \<Longrightarrow> c = 1"
    and pre: "\<And>s1. run_steps pre s0 = Next s1 \<Longrightarrow>
       \<exists>n. f_nion f = Some n \<and> rs_n_ions s1 = n \<and> od_n_species (rs_od s1) = n + 1"
    and post: "\<And>g t t'. g \<in> set post \<Longrightarrow> g t = Next t' \<Longrightarrow>
       od_n_species (rs_od t') = od_n_species (rs_od t) \<and> od_charge (rs_od t') = od_charge (rs_od t)
       \<and> od_mass (rs_od t') = od_mass (rs_od t)"
  shows "electron_then_ions M f (rs_od s) \<and> od_n_species (rs_od s) \<le> int (MAX_SPECIES M)"
proof -
  have all: "run_steps (pre @ read_species_info M f @ post) s0 = Next s"
  proof (cases "run_steps (pre @ read_species_info M f @ post) s0")
    case (Next x)
    with run show ?thesis by simp
  next
    case (Returned c t)
    with run have c: "c = 0" by simp
    from run_steps_Returned[OF Returned] obtain g u
      where g: "g \<in> set (pre @ read_species_info M f @ post)" "g u = Returned c t" by blast
    from g(1) have "g \<in> set pre \<union> set post \<or> g \<in> set (read_species_info M f)" by auto
    then have "c = 1"
      using codes[of g u c t] read_species_info_code[of g M f u c t] g(2) by blast
    with c show ?thesis by simp
  next
    case (OutOfBounds x)
    with run show ?thesis by simp
  qed
  then obtain s1 s2 where p1: "run_steps pre s0 = Next s1"
    and p2: "run_steps (read_species_info M f) s1 = Next s2"
    and p3: "run_steps post s2 = Next s"
    unfolding run_steps_append_Next by blast
  from pre[OF p1] obtain n where n: "f_nion f = Some n" "rs_n_ions s1 = n" "od_n_species (rs_od s1) = n + 1"
    by blast
  from read_species_info_Next[OF p2] obtain c m where i:
    "f_charge f = Some c" "f_mass f = Some m" "0 < MAX_SPECIES M"
    "0 < rs_n_ions s1 \<longrightarrow> rs_n_ions s1 < int (MAX_SPECIES M)"
    "od_n_species (rs_od s2) = od_n_species (rs_od s1)"
    "od_charge (rs_od s2) 0 = - CONST_E M" "od_mass (rs_od s2) 0 = CONST_M_E M"
    "\<forall>i < nat (rs_n_ions s1).
          (i < length c \<longrightarrow> od_charge (rs_od s2) (i + 1) = of_int (c ! i) * CONST_E M)
        \<and> (i < length m \<longrightarrow> od_mass (rs_od s2) (i + 1) = of_int (m ! i) * CONST_U M)"
    by blast
  have k: "od_n_species (rs_od s) = od_n_species (rs_od s2) \<and> od_charge (rs_od s) = od_charge (rs_od s2)
       \<and> od_mass (rs_od s) = od_mass (rs_od s2)"
    by (rule reader_tail_keeps_species[OF p3]) (rule post)
  have "electron_then_ions M f (rs_od s)"
    unfolding electron_then_ions_def
    by (rule exI[of _ n], rule exI[of _ c], rule exI[of _ m]) (use n i k in simp)
  moreover have "od_n_species (rs_od s) \<le> int (MAX_SPECIES M)"
    using n i(3,4,5) k by auto
  ultimately show ?thesis ..
qed

lemmas reader_defs = hdf5_plasma_read_1D_def hdf5_plasma_read_1DS_def read_species_info_def
  read_scalar_def read_species_def store_species_def set_n_species_def alloc_array_def
  read_doubles_def scale_temperatures_def scale_cell_def ex_file_def ex_consts_def

lemma upt_0_8: "[0..<8] = [0, 1, 2, 3, 4, 5, 6, Suc 6]"
  by (simp add: upt_rec)

lemma ex_read_1D:
  "\<exists>s. hdf5_plasma_read_1D ex_consts (ex_file 1) ex_reader = Returned 0 s
     \<and> od_n_species (rs_od s) = 2
     \<and> od_charge (rs_od s) 0 = - 2 \<and> od_charge (rs_od s) 1 = 2
     \<and> od_mass (rs_od s) 0 = 3 \<and> od_mass (rs_od s) 1 = 10"
  by (simp add: reader_defs ex_reader_def)

lemma ex_read_1DS:
  "\<exists>s. hdf5_plasma_read_1DS ex_consts (ex_file 1) ex_reader_S = Returned 0 s
     \<and> od_n_species (rs_od s) = 2
     \<and> od_charge (rs_od s) 0 = - 2 \<and> od_charge (rs_od s) 1 = 2
     \<and> od_mass (rs_od s) 0 = 3 \<and> od_mass (rs_od s) 1 = 10"
  by (simp add: reader_defs ex_reader_S_def)

section \<open>The arguments of the guiding-centre pushes\<close>

lemma legacy_push_in_cutoff:
  "legacy_gc_fixed_push_in X Bf pd p h rnd err = Some a \<Longrightarrow> pi_cutoff a = 0"
  by (auto simp: legacy_gc_fixed_push_in_def Let_def bind_eq_Some_conv split: prod.splits)

lemma gc_fixed_push_in_cutoff:
  assumes "gc_fixed_push_in X pd p h rnd err = Some b"
  shows "cutoff_speed (temp_to_joule X pd (snd (plasma_1d_eval_densandtemp X (gc_rho p) pd))) (gc_mass p)
           = Some (pi_cutoff b)"
  using assms
  by (auto simp: gc_fixed_push_in_def Let_def bind_eq_Some_conv split: prod.splits)

lemma gc_adaptive_push_in_cutoff:
  assumes "gc_adaptive_push_in X pd tol p hin w rand5 err = Some (c, w', k)"
  shows "cutoff_speed (temp_to_joule X pd (snd (plasma_1d_eval_densandtemp X (gc_rho p) pd))) (gc_mass p)
           = Some (pi_cutoff c)"
  using assms
  by (auto simp: gc_adaptive_push_in_def Let_def split_def bind_eq_Some_conv)

lemma gc_speed_step_at_rest: "gc_speed_step 0 0 Bnorm mass = Some v \<Longrightarrow> v = 0"
  by (auto simp: gc_speed_step_def fdiv_def fsqrt_def bind_eq_Some_conv split: if_splits)

lemma gc_fixed_push_in_at_rest:
  "gc_vpar p = 0 \<Longrightarrow> gc_mu p = 0 \<Longrightarrow> gc_fixed_push_in X pd p h rnd err = None"
proof (rule ccontr)
  assume z: "gc_vpar p = 0" "gc_mu p = 0" and "gc_fixed_push_in X pd p h rnd err \<noteq> None"
  then obtain b where "gc_fixed_push_in X pd p h rnd err = Some b" by blast
  then obtain vin xiin where "gc_speed_step (gc_vpar p) (gc_mu p) (math_norm X (gc_B_r p, gc_B_phi p, gc_B_z p)) (gc_mass p) = Some vin"
    "fdiv (gc_vpar p) vin = Some xiin"
    by (auto simp: gc_fixed_push_in_def Let_def bind_eq_Some_conv split: prod.splits)
  with z show False
    by (auto simp: fdiv_def dest!: gc_speed_step_at_rest split: if_splits)
qed

lemma gc_adaptive_push_in_at_rest:
  "gc_vpar p = 0 \<Longrightarrow> gc_mu p = 0 \<Longrightarrow> gc_adaptive_push_in X pd tol p hin w rand5 err = None"
proof (rule ccontr)
  assume z: "gc_vpar p = 0" "gc_mu p = 0" and "gc_adaptive_push_in X pd tol p hin w rand5 err \<noteq> None"
  then obtain b where "gc_adaptive_push_in X pd tol p hin w rand5 err = Some b" by blast
  then obtain vin xiin where "gc_speed_step (gc_vpar p) (gc_mu p) (math_norm X (gc_B_r p, gc_B_phi p, gc_B_z p)) (gc_mass p) = Some vin"
    "fdiv (gc_vpar p) vin = Some xiin"
    by (auto simp: gc_adaptive_push_in_def Let_def bind_eq_Some_conv split: prod.splits)
  with z show False
    by (auto simp: fdiv_def dest!: gc_speed_step_at_rest split: if_splits)
qed

lemma ex_legacy_push_in:
  "legacy_gc_fixed_push_in (ex_externs kk kd0 kd1) (\<lambda>r phi z. (0, 1, 0)) ex_plasma (ex_gc run) h rnd e =
     Some \<lparr>pi_K = 0, pi_nu = 2, pi_Dpara = 2, pi_DX = 2, pi_B = (0, 1, 0), pi_dt = h,
            pi_noise = rnd, pi_vin = 1, pi_xiin = 1, pi_Xin = (1, 0, 0),
            pi_cutoff = 0, pi_err = e\<rparr>"
  by (simp add: legacy_gc_fixed_push_in_def legacy_eval_background_def ex_externs_def ex_plasma_def
      ex_gc_def species_in_bounds_def gc_speed_step_def fdiv_def fsqrt_def sum_species_2)

lemma ex_fixed_push_in:
  "gc_fixed_push_in (ex_externs kk kd0 kd1) ex_plasma (ex_gc run) h rnd e =
     Some \<lparr>pi_K = 0, pi_nu = 2, pi_Dpara = 2, pi_DX = 2, pi_B = (0, 1, 0), pi_dt = h,
            pi_noise = rnd, pi_vin = 1, pi_xiin = 1, pi_Xin = (1, 0, 0),
            pi_cutoff = 1 / 10, pi_err = e\<rparr>"
  by (simp add: gc_fixed_push_in_def ex_externs_def ex_plasma_def ex_gc_def
      species_in_bounds_def temp_to_joule_def gc_speed_step_def fdiv_def fsqrt_def
      cutoff_speed_def sum_species_2)

section \<open>The loop on every batch\<close>

lemma for_lanes_frame:
  assumes "for_lanes is body (s, bad) = (s', bad')"
    and "\<And>i t t'. i \<in> set is \<Longrightarrow> body i t = Some t' \<Longrightarrow> f t' = f t"
  shows "f s' = f s"
  using assms
proof (induction "is" arbitrary: s bad)
  case Nil
  then show ?case by simp
next
  case (Cons i "is")
  have step: "\<And>k t t'. k \<in> set is \<Longrightarrow> body k t = Some t' \<Longrightarrow> f t' = f t"
  proof -
    fix k t t' assume "k \<in> set is" "body k t = Some t'"
    then show "f t' = f t" using Cons.prems(2)[of k t t'] by simp
  qed
  show ?case
  proof (cases "body i s")
    case None
    with Cons.prems(1) have "for_lanes is body (s, insert i bad) = (s', bad')" by simp
    from Cons.IH[OF this step] show ?thesis by simp
  next
    case (Some s1)
    with Cons.prems(1) have "for_lanes is body (s1, bad) = (s', bad')" by simp
    from Cons.IH[OF this step] have "f s' = f s1" by simp
    moreover have "f s1 = f s" using Cons.prems(2)[OF _ Some] by simp
    ultimately show ?thesis by simp
  qed
qed

lemma for_lanes_bad:
  assumes "for_lanes is body (s, bad) = (s', bad')"
  shows "bad \<subseteq> bad' \<and> bad' \<subseteq> bad \<union> set is"
  using assms
proof (induction "is" arbitrary: s bad)
  case Nil
  then show ?case by simp
next
  case (Cons i "is")
  show ?case
  proof (cases "body i s")
    case None
    with Cons.prems have "for_lanes is body (s, insert i bad) = (s', bad')" by simp
    from Cons.IH[OF this] show ?thesis by auto
  next
    case (Some s1)
    with Cons.prems have "for_lanes is body (s1, bad) = (s', bad')" by simp
    from Cons.IH[OF this] show ?thesis by auto
  qed
qed

lemma for_lanes_lane:
  assumes "for_lanes is body (s, bad) = (s', bad')" and "distinct is" and "j \<in> set is"
    and "\<And>i t t'. i \<in> set is \<Longrightarrow> i \<noteq> j \<Longrightarrow> body i t = Some t' \<Longrightarrow> f t' = f t"
  shows "\<exists>t. f t = f s \<and>
     (case body j t of
        None \<Rightarrow> f s' = f t \<and> j \<in> bad'
      | Some t' \<Rightarrow> f s' = f t' \<and> (j \<in> bad' \<longleftrightarrow> j \<in> bad))"
  using assms
proof (induction "is" arbitrary: s bad)
  case Nil
  then show ?case by simp
next
  case (Cons i "is")
  have d: "distinct is" and ni: "i \<notin> set is" using Cons.prems(2) by simp_all
  have step: "\<And>k t t'. k \<in> set is \<Longrightarrow> k \<noteq> j \<Longrightarrow> body k t = Some t' \<Longrightarrow> f t' = f t"
  proof -
    fix k t t' assume "k \<in> set is" "k \<noteq> j" "body k t = Some t'"
    then show "f t' = f t" using Cons.prems(4)[of k t t'] by simp
  qed
  show ?case
  proof (cases "i = j")
    case True
    then have nj: "j \<notin> set is" using ni by simp
    have rest: "\<And>k t t'. k \<in> set is \<Longrightarrow> body k t = Some t' \<Longrightarrow> f t' = f t"
      using step nj by blast
    show ?thesis
    proof (cases "body j s")
      case None
      with Cons.prems(1) True have r: "for_lanes is body (s, insert j bad) = (s', bad')" by simp
      from for_lanes_frame[OF r rest] for_lanes_bad[OF r] have "f s' = f s" "j \<in> bad'" by auto
      then show ?thesis using None by (intro exI[of _ s]) simp
    next
      case (Some s1)
      with Cons.prems(1) True have r: "for_lanes is body (s1, bad) = (s', bad')" by simp
      from for_lanes_frame[OF r rest] for_lanes_bad[OF r] nj
      have "f s' = f s1" "j \<in> bad' \<longleftrightarrow> j \<in> bad" by auto
      then show ?thesis using Some by (intro exI[of _ s]) simp
    qed
  next
    case False
    then have j: "j \<in> set is" using Cons.prems(3) by simp
    have ih: "\<exists>t. f t = f s0 \<and>
       (case body j t of
          None \<Rightarrow> f s' = f t \<and> j \<in> bad'
        | Some t' \<Rightarrow> f s' = f t' \<and> (j \<in> bad' \<longleftrightarrow> j \<in> bad0))"
      if r: "for_lanes is body (s0, bad0) = (s', bad')" for s0 bad0
    proof (rule Cons.IH[OF r d j])
      fix k t t' assume "k \<in> set is" "k \<noteq> j" "body k t = Some t'"
      then show "f t' = f t" by (rule step)
    qed
    show ?thesis
    proof (cases "body i s")
      case None
      with Cons.prems(1) have r: "for_lanes is body (s, insert i bad) = (s', bad')" by simp
      from ih[OF r] obtain t where t: "f t = f s"
        "case body j t of None \<Rightarrow> f s' = f t \<and> j \<in> bad'
          | Some t' \<Rightarrow> f s' = f t' \<and> (j \<in> bad' \<longleftrightarrow> j \<in> insert i bad)" by blast
      have "j \<in> insert i bad \<longleftrightarrow> j \<in> bad" using False by auto
      with t show ?thesis by (intro exI[of _ t]) (simp split: option.splits)
    next
      case (Some s1)
      with Cons.prems(1) have r: "for_lanes is body (s1, bad) = (s', bad')" by simp
      have "f s1 = f s" using Cons.prems(4)[OF _ False Some] by simp
      with ih[OF r] show ?thesis by simp
    qed
  qed
qed

lemma for_loop_lanes_Some:
  "for_loop is body s = Some s' \<Longrightarrow> for_lanes is body (s, bad) = (s', bad)"
  by (induction "is" arbitrary: s) (auto split: option.splits)

lemma for_loop_lanes_None:
  "for_loop is body s = None \<Longrightarrow> snd (for_lanes is body (s, bad)) \<noteq> {}"
proof (induction "is" arbitrary: s bad)
  case Nil
  then show ?case by simp
next
  case (Cons i "is")
  show ?case
  proof (cases "body i s")
    case None
    obtain s' bad' where r: "for_lanes is body (s, insert i bad) = (s', bad')" by force
    from for_lanes_bad[OF r] have "i \<in> bad'" by auto
    then show ?thesis using None r by auto
  next
    case (Some s1)
    with Cons.prems have "for_loop is body s1 = None" by simp
    from Cons.IH[OF this] show ?thesis using Some by simp
  qed
qed

lemma for_loop_lanes:
  "for_loop is body s = Some s' \<longleftrightarrow> for_lanes is body (s, {}) = (s', {})"
proof
  assume "for_loop is body s = Some s'"
  then show "for_lanes is body (s, {}) = (s', {})" by (rule for_loop_lanes_Some)
next
  assume a: "for_lanes is body (s, {}) = (s', {})"
  show "for_loop is body s = Some s'"
  proof (cases "for_loop is body s")
    case None
    from for_loop_lanes_None[OF this, of "{}"] a show ?thesis by simp
  next
    case (Some s'')
    from for_loop_lanes_Some[OF this, of "{}"] a show ?thesis using Some by simp
  qed
qed

lemma step_gc_adaptive_body_at:
  assumes "gc_adaptive_slots t j = gc_adaptive_slots s j"
    and "j < length (ba_p s)" "j < length hin" "j < length (ba_w s)" "j < length (ba_err s)"
      "j < length (ba_hout s)"
  shows "step_gc_adaptive_body X pd tol hin rand5 j t =
     (if gc_running (ba_p s ! j) then
        map_option (\<lambda>l. \<lparr>ba_p = (ba_p t)[j := al_p l], ba_hout = (ba_hout t)[j := al_hout l],
                         ba_w = (ba_w t)[j := al_w l], ba_err = (ba_err t)[j := al_err l]\<rparr>)
          (mccc_step_gc_adaptive_lane X pd tol (ba_p s ! j) (hin ! j) (ba_w s ! j)
             (drop (j * MCCC_NDIM X) rand5) (ba_err s ! j))
      else Some t)"
proof -
  from assms have "j < length (ba_p t)" "ba_p t ! j = ba_p s ! j"
      "j < length (ba_w t)" "ba_w t ! j = ba_w s ! j"
      "j < length (ba_err t)" "ba_err t ! j = ba_err s ! j" "j < length (ba_hout t)"
    by (auto simp: gc_adaptive_slots_def lane_rd_def split: if_splits)
  then show ?thesis
    using assms(3)
    by (cases "mccc_step_gc_adaptive_lane X pd tol (ba_p s ! j) (hin ! j) (ba_w s ! j)
             (drop (j * MCCC_NDIM X) rand5) (ba_err s ! j)")
       (simp_all add: step_gc_adaptive_body_def lane_rd_def lane_wr_def)
qed

lemma step_fo_fixed_body_at:
  assumes "fo_fixed_slots t j = fo_fixed_slots s j"
    and "j < length (ff_p s)" "j < length h" "j < length (ff_err s)"
  shows "step_fo_fixed_body X pd h rnd j t =
     (if fo_running (ff_p s ! j) then
        map_option (\<lambda>(p', e'). \<lparr>ff_p = (ff_p t)[j := p'], ff_err = (ff_err t)[j := e']\<rparr>)
          (mccc_step_fo_fixed_lane X pd (ff_p s ! j) (h ! j) (drop (j * 3) rnd) (ff_err s ! j))
      else Some t)"
proof -
  from assms have "j < length (ff_p t)" "ff_p t ! j = ff_p s ! j"
      "j < length (ff_err t)" "ff_err t ! j = ff_err s ! j"
    by (auto simp: fo_fixed_slots_def lane_rd_def split: if_splits)
  then show ?thesis
    using assms(3)
    by (cases "mccc_step_fo_fixed_lane X pd (ff_p s ! j) (h ! j) (drop (j * 3) rnd) (ff_err s ! j)")
       (auto simp: step_fo_fixed_body_def lane_rd_def lane_wr_def)
qed

lemma step_gc_adaptive_lanes_lane:
  assumes "j < NSIMD X"
    and "j < length (ba_p s)" "j < length hin" "j < length (ba_w s)" "j < length (ba_err s)"
      "j < length (ba_hout s)"
  shows "if gc_running (ba_p s ! j) then
      (case mccc_step_gc_adaptive_lane X pd tol (ba_p s ! j) (hin ! j) (ba_w s ! j)
              (drop (j * MCCC_NDIM X) rand5) (ba_err s ! j) of
         None \<Rightarrow> j \<in> snd (mccc_step_gc_adaptive_lanes X pd tol hin rand5 s)
       | Some l \<Rightarrow> j \<notin> snd (mccc_step_gc_adaptive_lanes X pd tol hin rand5 s)
           \<and> gc_adaptive_slots (fst (mccc_step_gc_adaptive_lanes X pd tol hin rand5 s)) j
               = (Some (al_p l), Some (al_hout l), Some (al_w l), Some (al_err l)))
    else j \<notin> snd (mccc_step_gc_adaptive_lanes X pd tol hin rand5 s)
       \<and> gc_adaptive_slots (fst (mccc_step_gc_adaptive_lanes X pd tol hin rand5 s)) j
           = gc_adaptive_slots s j"
proof -
  obtain s' bad' where r: "for_lanes [0..<NSIMD X] (step_gc_adaptive_body X pd tol hin rand5) (s, {})
      = (s', bad')" by force
  then have e: "mccc_step_gc_adaptive_lanes X pd tol hin rand5 s = (s', bad')"
    by (simp add: mccc_step_gc_adaptive_lanes_def)
  have "\<exists>t. gc_adaptive_slots t j = gc_adaptive_slots s j \<and>
     (case step_gc_adaptive_body X pd tol hin rand5 j t of
        None \<Rightarrow> gc_adaptive_slots s' j = gc_adaptive_slots t j \<and> j \<in> bad'
      | Some t' \<Rightarrow> gc_adaptive_slots s' j = gc_adaptive_slots t' j \<and> (j \<in> bad' \<longleftrightarrow> j \<in> {}))"
  proof (rule for_lanes_lane[OF r, where f = "\<lambda>t. gc_adaptive_slots t j"])
    show "distinct [0..<NSIMD X]" by simp
    show "j \<in> set [0..<NSIMD X]" using assms(1) by simp
  next
    fix i t t' assume "i \<noteq> j" "step_gc_adaptive_body X pd tol hin rand5 i t = Some t'"
    then show "gc_adaptive_slots t' j = gc_adaptive_slots t j"
      using step_gc_adaptive_body_other by blast
  qed
  then obtain t where t: "gc_adaptive_slots t j = gc_adaptive_slots s j"
    and c: "case step_gc_adaptive_body X pd tol hin rand5 j t of
        None \<Rightarrow> gc_adaptive_slots s' j = gc_adaptive_slots t j \<and> j \<in> bad'
      | Some t' \<Rightarrow> gc_adaptive_slots s' j = gc_adaptive_slots t' j \<and> (j \<in> bad' \<longleftrightarrow> j \<in> {})"
    by blast
  from t assms(2,4,5,6) have len: "j < length (ba_p t)" "j < length (ba_w t)" "j < length (ba_err t)"
      "j < length (ba_hout t)"
    by (auto simp: gc_adaptive_slots_def lane_rd_def split: if_splits)
  note b = step_gc_adaptive_body_at[OF t assms(2-6), of X pd tol rand5]
  show ?thesis
  proof (cases "gc_running (ba_p s ! j)")
    case False
    then have "step_gc_adaptive_body X pd tol hin rand5 j t = Some t" unfolding b by simp
    with c t False show ?thesis unfolding e by simp
  next
    case True
    show ?thesis
    proof (cases "mccc_step_gc_adaptive_lane X pd tol (ba_p s ! j) (hin ! j) (ba_w s ! j)
              (drop (j * MCCC_NDIM X) rand5) (ba_err s ! j)")
      case None
      then have "step_gc_adaptive_body X pd tol hin rand5 j t = None" unfolding b using True by simp
      with c True None show ?thesis unfolding e by simp
    next
      case (Some l)
      have "step_gc_adaptive_body X pd tol hin rand5 j t
          = Some \<lparr>ba_p = (ba_p t)[j := al_p l], ba_hout = (ba_hout t)[j := al_hout l],
                  ba_w = (ba_w t)[j := al_w l], ba_err = (ba_err t)[j := al_err l]\<rparr>"
        unfolding b using True Some by simp
      with c have "gc_adaptive_slots s' j
          = gc_adaptive_slots \<lparr>ba_p = (ba_p t)[j := al_p l], ba_hout = (ba_hout t)[j := al_hout l],
                  ba_w = (ba_w t)[j := al_w l], ba_err = (ba_err t)[j := al_err l]\<rparr> j" "j \<notin> bad'"
        by simp_all
      then show ?thesis
        unfolding e using True Some len by (simp add: gc_adaptive_slots_def lane_rd_def)
    qed
  qed
qed

lemma step_fo_fixed_lanes_lane:
  assumes "j < NSIMD X"
    and "j < length (ff_p s)" "j < length h" "j < length (ff_err s)"
  shows "if fo_running (ff_p s ! j) then
      (case mccc_step_fo_fixed_lane X pd (ff_p s ! j) (h ! j) (drop (j * 3) rnd) (ff_err s ! j) of
         None \<Rightarrow> j \<in> snd (mccc_step_fo_fixed_lanes X pd h rnd s)
       | Some (p', e') \<Rightarrow> j \<notin> snd (mccc_step_fo_fixed_lanes X pd h rnd s)
           \<and> fo_fixed_slots (fst (mccc_step_fo_fixed_lanes X pd h rnd s)) j = (Some p', Some e'))
    else j \<notin> snd (mccc_step_fo_fixed_lanes X pd h rnd s)
       \<and> fo_fixed_slots (fst (mccc_step_fo_fixed_lanes X pd h rnd s)) j = fo_fixed_slots s j"
proof -
  obtain s' bad' where r: "for_lanes [0..<NSIMD X] (step_fo_fixed_body X pd h rnd) (s, {})
      = (s', bad')" by force
  then have e: "mccc_step_fo_fixed_lanes X pd h rnd s = (s', bad')"
    by (simp add: mccc_step_fo_fixed_lanes_def)
  have "\<exists>t. fo_fixed_slots t j = fo_fixed_slots s j \<and>
     (case step_fo_fixed_body X pd h rnd j t of
        None \<Rightarrow> fo_fixed_slots s' j = fo_fixed_slots t j \<and> j \<in> bad'
      | Some t' \<Rightarrow> fo_fixed_slots s' j = fo_fixed_slots t' j \<and> (j \<in> bad' \<longleftrightarrow> j \<in> {}))"
  proof (rule for_lanes_lane[OF r, where f = "\<lambda>t. fo_fixed_slots t j"])
    show "distinct [0..<NSIMD X]" by simp
    show "j \<in> set [0..<NSIMD X]" using assms(1) by simp
  next
    fix i t t' assume "i \<noteq> j" "step_fo_fixed_body X pd h rnd i t = Some t'"
    then show "fo_fixed_slots t' j = fo_fixed_slots t j"
      using step_fo_fixed_body_other by blast
  qed
  then obtain t where t: "fo_fixed_slots t j = fo_fixed_slots s j"
    and c: "case step_fo_fixed_body X pd h rnd j t of
        None \<Rightarrow> fo_fixed_slots s' j = fo_fixed_slots t j \<and> j \<in> bad'
      | Some t' \<Rightarrow> fo_fixed_slots s' j = fo_fixed_slots t' j \<and> (j \<in> bad' \<longleftrightarrow> j \<in> {})"
    by blast
  from t assms(2,4) have len: "j < length (ff_p t)" "j < length (ff_err t)"
    by (auto simp: fo_fixed_slots_def lane_rd_def split: if_splits)
  note b = step_fo_fixed_body_at[OF t assms(2-4), of X pd rnd]
  show ?thesis
  proof (cases "fo_running (ff_p s ! j)")
    case False
    then have "step_fo_fixed_body X pd h rnd j t = Some t" unfolding b by simp
    with c t False show ?thesis unfolding e by simp
  next
    case True
    show ?thesis
    proof (cases "mccc_step_fo_fixed_lane X pd (ff_p s ! j) (h ! j) (drop (j * 3) rnd) (ff_err s ! j)")
      case None
      then have "step_fo_fixed_body X pd h rnd j t = None" unfolding b using True by simp
      with c True None show ?thesis unfolding e by simp
    next
      case (Some pe)
      obtain p' e' where pe: "pe = (p', e')" by (cases pe)
      have "step_fo_fixed_body X pd h rnd j t
          = Some \<lparr>ff_p = (ff_p t)[j := p'], ff_err = (ff_err t)[j := e']\<rparr>"
        unfolding b using True Some pe by simp
      with c have "fo_fixed_slots s' j
          = fo_fixed_slots \<lparr>ff_p = (ff_p t)[j := p'], ff_err = (ff_err t)[j := e']\<rparr> j" "j \<notin> bad'"
        by simp_all
      then show ?thesis
        unfolding e using True Some pe len by (simp add: fo_fixed_slots_def lane_rd_def)
    qed
  qed
qed

lemma step_gc_adaptive_lane_at_rest:
  "gc_vpar p = 0 \<Longrightarrow> gc_mu p = 0 \<Longrightarrow> mccc_step_gc_adaptive_lane X pd tol p hin w rand5 err = None"
  by (simp add: mccc_step_gc_adaptive_lane_def gc_adaptive_push_in_at_rest)

lemma ex_lanes_rest:
  "mccc_step_gc_adaptive_lanes (ex_externs 4 1 1) ex_plasma (1 / 100) [1, 1] (ex_rand5 2 3)
     \<lparr>ba_p = [(ex_gc True)\<lparr>gc_vpar := 0\<rparr>, ex_gc True], ba_hout = [0, 0],
      ba_w = [ex_wiener, ex_wiener], ba_err = [0, 0]\<rparr> =
   (\<lparr>ba_p = [(ex_gc True)\<lparr>gc_vpar := 0\<rparr>, ex_gc True\<lparr>gc_vpar := 1 / 2, gc_rho := 1\<rparr>],
     ba_hout = [0, - (2 / 5)],
     ba_w = [ex_wiener, \<lparr>w_time = [0, 1], w_wiener = [0, 0, 0, 0, 0, 1, 1, 1, 2, 3]\<rparr>],
     ba_err = [0, 0]\<rparr>, {0})"
proof -
  have r: "mccc_step_gc_adaptive_lane (ex_externs 4 1 1) ex_plasma (1 / 100)
      ((ex_gc True)\<lparr>gc_vpar := 0\<rparr>) 1 ex_wiener (ex_rand5 2 3) 0 = None"
    by (rule step_gc_adaptive_lane_at_rest) (simp_all add: ex_gc_def)
  have g: "gc_running ((ex_gc True)\<lparr>gc_vpar := 0\<rparr>)" by (simp add: ex_gc_def)
  show ?thesis
    by (simp add: mccc_step_gc_adaptive_lanes_def ex_macros upt_0_2 step_gc_adaptive_body_def
        lane_rd_def lane_wr_def r g ex_gc_running)
       (simp add: ex_rand5_def ex_lane_drawn[OF ex_hout_4])
qed

lemma ex_full_macros:
  "NSIMD (ex_externs_full kk kd0 kd1) = 2" "MCCC_NDIM (ex_externs_full kk kd0 kd1) = 5"
  by (simp_all add: ex_externs_full_def ex_externs_def)

lemma ex_full_lane_fail:
  "mccc_step_gc_adaptive_lane (ex_externs_full kk kd0 kd1) ex_plasma tol (ex_gc run) 10 ex_wiener
     rand5 e = None"
  by (simp add: mccc_step_gc_adaptive_lane_def gc_adaptive_push_in_def ex_externs_full_def
      ex_externs_def ex_plasma_def ex_gc_def ex_wiener_def species_in_bounds_def temp_to_joule_def
      gc_speed_step_def fdiv_def fsqrt_def cutoff_speed_def rd_def wiener_increment_def)

lemma ex_full_lane:
  "mccc_step_gc_adaptive_lane (ex_externs_full 4 1 1) ex_plasma tol (ex_gc run) 1 ex_wiener
     (1 # 1 # 1 # d3 # d4 # rest) e =
   mccc_step_gc_adaptive_lane (ex_externs 4 1 1) ex_plasma tol (ex_gc run) 1 ex_wiener
     (1 # 1 # 1 # d3 # d4 # rest) e"
  by (simp add: mccc_step_gc_adaptive_lane_def gc_adaptive_push_in_def gc_adaptive_commit_def
      update_position_def update_field_def c_fmod_def c_atan2_def ex_externs_full_def
      ex_externs_def ex_plasma_def ex_gc_def ex_wiener_def species_in_bounds_def temp_to_joule_def
      gc_speed_step_def fdiv_def fsqrt_def cutoff_speed_def rd_def wiener_increment_def sum_species_2)

lemma ex_lanes_full:
  "mccc_step_gc_adaptive_lanes (ex_externs_full 4 1 1) ex_plasma (1 / 100) [10, 1] (ex_rand5 2 3)
     \<lparr>ba_p = [ex_gc True, ex_gc True], ba_hout = [0, 0],
      ba_w = [ex_wiener, ex_wiener], ba_err = [0, 0]\<rparr> =
   (\<lparr>ba_p = [ex_gc True, ex_gc True\<lparr>gc_vpar := 1 / 2, gc_rho := 1\<rparr>],
     ba_hout = [0, - (2 / 5)],
     ba_w = [ex_wiener, \<lparr>w_time = [0, 1], w_wiener = [0, 0, 0, 0, 0, 1, 1, 1, 2, 3]\<rparr>],
     ba_err = [0, 0]\<rparr>, {0})"
  by (simp add: mccc_step_gc_adaptive_lanes_def ex_full_macros upt_0_2 step_gc_adaptive_body_def
        lane_rd_def lane_wr_def ex_full_lane_fail ex_gc_running)
     (simp add: ex_rand5_def ex_full_lane ex_lane_drawn[OF ex_hout_4])

lemma ex_fo_lane_axis:
  "mccc_step_fo_fixed_lane (ex_externs kk kd0 kd1) ex_plasma ((ex_fo True)\<lparr>fo_r := 0\<rparr>) h rnd e = None"
  by (simp add: mccc_step_fo_fixed_lane_def ex_externs_def ex_plasma_def ex_fo_def
      species_in_bounds_def temp_to_joule_def fdiv_def fsqrt_def sum_species_2)

lemma ex_lanes_fo:
  "mccc_step_fo_fixed_lanes (ex_externs 4 1 1) ex_plasma [1, - 1] [1, 1, 1, 1, 1, 1]
     \<lparr>ff_p = [(ex_fo True)\<lparr>fo_r := 0\<rparr>, ex_fo True], ff_err = [0, 0]\<rparr> =
   (\<lparr>ff_p = [(ex_fo True)\<lparr>fo_r := 0\<rparr>, ex_fo True], ff_err = [0, 3]\<rparr>, {0})"
proof -
  have g: "fo_running ((ex_fo True)\<lparr>fo_r := 0\<rparr>)" by (simp add: ex_fo_def)
  show ?thesis
    by (simp add: mccc_step_fo_fixed_lanes_def ex_macros upt_0_2 step_fo_fixed_body_def
        lane_rd_def lane_wr_def ex_fo_lane_axis ex_fo_fixed_lane g ex_fo_running)
qed

section \<open>The claims about the step-size decision\<close>







text \<open>
  Claim C4, as amended. For a running lane of \<^verbatim>\<open>mccc_step_gc_adaptive\<close> the magnitude of
  \<^verbatim>\<open>hout[i]\<close> comes from the largest error estimate: when \<^verbatim>\<open>kappa_k\<close> is at least both
  diffusion estimates it is \<open>0.8 |hin| / sqrt kappa_k\<close>; otherwise it is
  \<open>(0.9 |dW| kappa powr (-1/3))\<^sup>2 = 0.81 dW\<^sup>2 kappa powr (-2/3)\<close> for the larger diffusion
  estimate \<open>kappa\<close> and its Wiener increment \<open>dW\<close> (\<^verbatim>\<open>kappa_d0\<close> with \<^verbatim>\<open>dW[3]\<close>, or \<^verbatim>\<open>kappa_d1\<close>
  with \<^verbatim>\<open>dW[4]\<close>): the estimate enters with the exponent \<open>-2/3\<close>.
\<close>

theorem proposal_by_dominant_channel:
  assumes "mccc_step_gc_adaptive_lane X pd tol p hin w rand5 err = Some l"
  shows "(al_kappa_k l \<ge> al_kappa_d0 l \<and> al_kappa_k l \<ge> al_kappa_d1 l \<longrightarrow>
            \<bar>al_hout l\<bar> = 0.8 * \<bar>hin\<bar> / sqrt (al_kappa_k l))
       \<and> (\<not> (al_kappa_k l \<ge> al_kappa_d0 l \<and> al_kappa_k l \<ge> al_kappa_d1 l)
            \<and> al_kappa_d0 l \<ge> al_kappa_k l \<and> al_kappa_d0 l \<ge> al_kappa_d1 l \<longrightarrow>
            \<bar>al_hout l\<bar> = 0.81 * (al_dW l ! 3)\<^sup>2 * al_kappa_d0 l powr (- 2 / 3))
       \<and> (\<not> (al_kappa_k l \<ge> al_kappa_d0 l \<and> al_kappa_k l \<ge> al_kappa_d1 l)
            \<and> \<not> (al_kappa_d0 l \<ge> al_kappa_k l \<and> al_kappa_d0 l \<ge> al_kappa_d1 l) \<longrightarrow>
            \<bar>al_hout l\<bar> = 0.81 * (al_dW l ! 4)\<^sup>2 * al_kappa_d1 l powr (- 2 / 3))"
proof -
  note d = step_lane_decision[OF assms(1)]
  from d(1) obtain m where m: "hout_proposal hin (al_kappa_k l) (al_kappa_d0 l) (al_kappa_d1 l)
      (al_dW l ! 3) (al_dW l ! 4) = Some m"
    and h: "\<bar>al_hout l\<bar> = \<bar>m\<bar>"
    unfolding hout_signed_Some by auto
  from hout_proposal_cases[OF m]
  consider (drift) "al_kappa_k l \<ge> al_kappa_d0 l" "al_kappa_k l \<ge> al_kappa_d1 l" "0 < al_kappa_k l"
      "m = 0.8 * hin / sqrt (al_kappa_k l)"
    | (d0) "\<not> (al_kappa_k l \<ge> al_kappa_d0 l \<and> al_kappa_k l \<ge> al_kappa_d1 l)"
      "al_kappa_d0 l \<ge> al_kappa_k l \<and> al_kappa_d0 l \<ge> al_kappa_d1 l"
      "m = 0.81 * (al_dW l ! 3)\<^sup>2 * al_kappa_d0 l powr (- 2 / 3)"
    | (d1) "\<not> (al_kappa_k l \<ge> al_kappa_d0 l \<and> al_kappa_k l \<ge> al_kappa_d1 l)"
      "\<not> (al_kappa_d0 l \<ge> al_kappa_k l \<and> al_kappa_d0 l \<ge> al_kappa_d1 l)"
      "m = 0.81 * (al_dW l ! 4)\<^sup>2 * al_kappa_d1 l powr (- 2 / 3)"
    by blast
  then show ?thesis
  proof cases
    case drift
    have "\<bar>m\<bar> = 0.8 * \<bar>hin\<bar> / sqrt (al_kappa_k l)"
      unfolding drift(4) using drift(3) by (simp add: abs_mult)
    then have "\<bar>al_hout l\<bar> = 0.8 * \<bar>hin\<bar> / sqrt (al_kappa_k l)"
      using h by (simp only:)
    then show ?thesis using drift(1,2) by blast
  next
    case d0
    have "\<bar>m\<bar> = m" unfolding d0(3) using diffusion_value_nonneg by (simp only: abs_of_nonneg)
    then have "\<bar>al_hout l\<bar> = 0.81 * (al_dW l ! 3)\<^sup>2 * al_kappa_d0 l powr (- 2 / 3)"
      using h d0(3) by (simp only:)
    then show ?thesis using d0(1,2) by blast
  next
    case d1
    have "\<bar>m\<bar> = m" unfolding d1(3) using diffusion_value_nonneg by (simp only: abs_of_nonneg)
    then have "\<bar>al_hout l\<bar> = 0.81 * (al_dW l ! 4)\<^sup>2 * al_kappa_d1 l powr (- 2 / 3)"
      using h d1(3) by (simp only:)
    then show ?thesis using d1(1,2) by blast
  qed
qed

text \<open>The theorem on the concrete lane with the estimates \<open>(1, 8, 1)\<close>, where \<^verbatim>\<open>kappa_d0\<close> is
  the largest.\<close>

theorem proposal_by_dominant_channel_witness:
  "(case mccc_step_gc_adaptive_lane (ex_externs 1 8 1) ex_plasma (1 / 100) (ex_gc True) 1 ex_wiener
           (ex_rand5 3 3) 0 of
      None \<Rightarrow> False
    | Some l \<Rightarrow> \<not> (al_kappa_k l \<ge> al_kappa_d0 l \<and> al_kappa_k l \<ge> al_kappa_d1 l)
        \<and> al_kappa_d0 l \<ge> al_kappa_k l \<and> al_kappa_d0 l \<ge> al_kappa_d1 l
        \<and> \<bar>al_hout l\<bar> = 0.81 * (al_dW l ! 3)\<^sup>2 * al_kappa_d0 l powr (- 2 / 3))"
proof -
  have "hout_proposal 1 1 8 1 3 3 = Some (0.81 * 3\<^sup>2 * 8 powr (- 2 / 3))"
    using diffusion_proposal_Some[of 8 3] by (simp only: hout_proposal_def) simp
  then have h: "hout_signed 1 1 8 1 3 3 = Some (- (0.81 * 3\<^sup>2 * 8 powr (- 2 / 3)))"
    by (simp add: hout_signed_def rejected_def)
  note e = ex_lane[OF h, of "1 / 100" True 0]
  from proposal_by_dominant_channel[OF e] show ?thesis by (simp add: e)
qed

text \<open>
  Claim C4 as stated gives the diffusion estimate the exponent \<open>-2\<close>. Two runs that differ
  only in \<^verbatim>\<open>kappa_d0\<close>, 8 against 1 (with \<^verbatim>\<open>kappa_k\<close> and \<^verbatim>\<open>kappa_d1\<close> at \<open>1/2\<close> and
  \<open>dW[3] = 2\<close>), have the magnitudes \<open>81/100\<close> and \<open>81/25\<close>: the factor between them is
  \<open>1/4 = 8 powr (-2/3)\<close>, not \<open>1/64 = 8 powr (-2)\<close>.
\<close>

theorem proposal_scaling_counterexample:
  "mccc_step_gc_adaptive_lane (ex_externs (1 / 2) 8 (1 / 2)) ex_plasma (1 / 100) (ex_gc True) 1
     ex_wiener (ex_rand5 2 3) 0 =
   Some \<lparr>al_p = ex_gc True\<lparr>gc_vpar := 1 / 2, gc_rho := 1\<rparr>, al_hout = - (81 / 100),
         al_w = \<lparr>w_time = [0, 1], w_wiener = [0, 0, 0, 0, 0, 1, 1, 1, 2, 3]\<rparr>,
         al_err = 0, al_kappa_k = 1 / 2, al_kappa_d0 = 8, al_kappa_d1 = 1 / 2,
         al_dW = [1, 1, 1, 2, 3], al_tindex = 0, al_rejected = True\<rparr>
 \<and> mccc_step_gc_adaptive_lane (ex_externs (1 / 2) 1 (1 / 2)) ex_plasma (1 / 100) (ex_gc True) 1
     ex_wiener (ex_rand5 2 3) 0 =
   Some \<lparr>al_p = ex_gc True\<lparr>gc_vpar := 1 / 2, gc_rho := 1\<rparr>, al_hout = 81 / 25,
         al_w = \<lparr>w_time = [0, 1], w_wiener = [0, 0, 0, 0, 0, 1, 1, 1, 2, 3]\<rparr>,
         al_err = 0, al_kappa_k = 1 / 2, al_kappa_d0 = 1, al_kappa_d1 = 1 / 2,
         al_dW = [1, 1, 1, 2, 3], al_tindex = 1, al_rejected = False\<rparr>
 \<and> (81 / 100 :: real) \<noteq> 81 / 25 / 8\<^sup>2"
proof -
  have "hout_proposal 1 (1 / 2) 8 (1 / 2) 2 3 = Some ((0.9 * \<bar>2\<bar> * 8 powr (- 1 / 3))\<^sup>2)"
    using diffusion_proposal_Some[of 8 2] powr_third_sq[of 8 2]
    by (simp only: hout_proposal_def) simp
  then have "hout_proposal 1 (1 / 2) 8 (1 / 2) 2 3 = Some (81 / 100)"
    by (simp only: powr_third_8) (simp add: power2_eq_square)
  then have h8: "hout_signed 1 (1 / 2) 8 (1 / 2) 2 3 = Some (- (81 / 100))"
    by (simp add: hout_signed_def rejected_def)
  have "hout_proposal 1 (1 / 2) 1 (1 / 2) 2 3 = Some (0.81 * 2\<^sup>2 * 1 powr (- 2 / 3))"
    using diffusion_proposal_Some[of 1 2] by (simp only: hout_proposal_def) simp
  then have h1: "hout_signed 1 (1 / 2) 1 (1 / 2) 2 3 = Some (81 / 25)"
    by (simp add: hout_signed_def rejected_def)
  show ?thesis
    using ex_lane[OF h8, of "1 / 100" True 0] ex_lane[OF h1, of "1 / 100" True 0]
    by (simp add: rejected_def)
qed

section \<open>The claim about the particle speed\<close>

text \<open>
  Claim C9 says that \<^verbatim>\<open>mccc_update_gc\<close> and \<^verbatim>\<open>mccc_collfreq_gc\<close> evaluate the Coulomb
  logarithm and the coefficients at the speed \<open>sqrt (vpar\<^sup>2 + 2 mu |B| / mass)\<close> of the two
  steps. They do not: lines 134-135 and 213-214 take \<open>t = 2 mu |B| mass\<close> and
  \<open>sqrt (vpar\<^sup>2 + t\<^sup>2)\<close>. For \<open>vpar = 0\<close>, \<open>mu = 1\<close>, \<open>|B| = 1\<close> and \<open>mass = 2\<close> the updates
  use the speed 4 and the steps the speed 1.
\<close>

theorem gc_speeds_differ:
  "gc_speed_update 0 1 1 2 = Some 4 \<and> gc_speed_step 0 1 1 2 = Some 1"
  by (simp add: gc_speed_update_def gc_speed_step_def fsqrt_def fdiv_def)

section \<open>The claim about the state after a rejected step\<close>



section \<open>The claim about lanes that are not running\<close>

text \<open>
  Claim C5. For a lane \<open>j\<close> whose \<^verbatim>\<open>running\<close> flag is not set, each of \<^verbatim>\<open>mccc_update_fo\<close>,
  \<^verbatim>\<open>mccc_update_gc\<close>, \<^verbatim>\<open>mccc_step_fo_fixed\<close>, \<^verbatim>\<open>mccc_step_gc_fixed\<close> and
  \<^verbatim>\<open>mccc_step_gc_adaptive\<close> leaves what belongs to the lane as it was: the lane's block
  of every coefficient array for the two updates, and the marker with its error, step
  size and Wiener slots for the three steps.
\<close>

theorem inactive_lanes_untouched:
  "(mccc_update_fo X pd fs u = Some u' \<and> j < length fs \<and> \<not> fo_running (fs ! j) \<longrightarrow>
      update_fo_slots X u' j = update_fo_slots X u j)
 \<and> (mccc_update_gc X pd gs v = Some v' \<and> j < length gs \<and> \<not> gc_running (gs ! j) \<longrightarrow>
      update_gc_slots X v' j = update_gc_slots X v j)
 \<and> (mccc_step_fo_fixed X pd h rnd3 a = Some a' \<and> j < length (ff_p a) \<and> \<not> fo_running (ff_p a ! j) \<longrightarrow>
      fo_fixed_slots a' j = fo_fixed_slots a j)
 \<and> (mccc_step_gc_fixed X pd h rnd5 b = Some b' \<and> j < length (bf_p b) \<and> \<not> gc_running (bf_p b ! j) \<longrightarrow>
      gc_fixed_slots b' j = gc_fixed_slots b j)
 \<and> (mccc_step_gc_adaptive X pd tol hin rand5 c = Some c' \<and> j < length (ba_p c) \<and> \<not> gc_running (ba_p c ! j) \<longrightarrow>
      gc_adaptive_slots c' j = gc_adaptive_slots c j)"
  by (intro conjI impI; elim conjE;
      (erule (2) update_fo_idle_lane | erule (2) update_gc_idle_lane
       | erule (2) step_fo_fixed_idle_lane | erule (2) step_gc_fixed_idle_lane
       | erule (2) step_gc_adaptive_idle_lane))

theorem inactive_lanes_untouched_witness:
  "(case mccc_update_fo (ex_externs 4 1 1) ex_plasma [ex_fo True, ex_fo False]
           \<lparr>uf_clogab = [7, 7, 7, 7], uf_F = [7, 7, 7, 7], uf_Dpara = [7, 7, 7, 7],
            uf_Dperp = [7, 7, 7, 7], uf_K = [7, 7, 7, 7], uf_nu = [7, 7, 7, 7]\<rparr> of
      None \<Rightarrow> False
    | Some u' \<Rightarrow> update_fo_slots (ex_externs 4 1 1) u' 1 = replicate 6 [Some 7, Some 7])
 \<and> (case mccc_update_gc (ex_externs 4 1 1) ex_plasma [ex_gc True, ex_gc False]
           \<lparr>ug_clogab = [7, 7, 7, 7], ug_Dpara = [7, 7, 7, 7], ug_DX = [7, 7, 7, 7],
            ug_K = [7, 7, 7, 7], ug_nu = [7, 7, 7, 7], ug_dQ = [7, 7, 7, 7],
            ug_dDpara = [7, 7, 7, 7]\<rparr> of
      None \<Rightarrow> False
    | Some v' \<Rightarrow> update_gc_slots (ex_externs 4 1 1) v' 1 = replicate 7 [Some 7, Some 7])
 \<and> (case mccc_step_fo_fixed (ex_externs 4 1 1) ex_plasma [- 1, 1] [1, 1, 1, 1, 1, 1]
           \<lparr>ff_p = [ex_fo True, ex_fo False], ff_err = [0, 0]\<rparr> of
      None \<Rightarrow> False
    | Some a' \<Rightarrow> fo_fixed_slots a' 1 = (Some (ex_fo False), Some 0))
 \<and> (case mccc_step_gc_fixed (ex_externs 4 1 1) ex_plasma [1, 1] (ex_rand5 2 3)
           \<lparr>bf_p = [ex_gc True, ex_gc False], bf_err = [0, 0]\<rparr> of
      None \<Rightarrow> False
    | Some b' \<Rightarrow> gc_fixed_slots b' 1 = (Some (ex_gc False), Some 0))
 \<and> (case mccc_step_gc_adaptive (ex_externs 4 1 1) ex_plasma (1 / 100) [1, 1] (ex_rand5 2 3)
           \<lparr>ba_p = [ex_gc True, ex_gc False], ba_hout = [0, 0], ba_w = [ex_wiener, ex_wiener],
            ba_err = [0, 0]\<rparr> of
      None \<Rightarrow> False
    | Some c' \<Rightarrow> gc_adaptive_slots c' 1 = (Some (ex_gc False), Some 0, Some ex_wiener, Some 0))"
proof -
  note t = inactive_lanes_untouched[of "ex_externs 4 1 1" ex_plasma
      "[ex_fo True, ex_fo False]" _ _ 1 "[ex_gc True, ex_gc False]" _ _ _ _ _ _ _ _ _ _ _ _ _]
  have s: "[0..<2] = [0, Suc 0]" "[2..<4] = [2, 3]"
    by (simp_all add: upt_rec)
  show ?thesis
    using t[THEN conjunct1, rule_format, OF conjI[OF ex_update_fo]]
      t[THEN conjunct2, THEN conjunct1, rule_format, OF conjI[OF ex_update_gc]]
      t[THEN conjunct2, THEN conjunct2, THEN conjunct1, rule_format, OF conjI[OF ex_step_fo_fixed_idle]]
      t[THEN conjunct2, THEN conjunct2, THEN conjunct2, THEN conjunct1, rule_format,
        OF conjI[OF ex_step_gc_fixed]]
      t[THEN conjunct2, THEN conjunct2, THEN conjunct2, THEN conjunct2, rule_format,
        OF conjI[OF ex_step_gc_adaptive]]
    by (simp add: ex_update_fo ex_update_gc ex_step_fo_fixed_idle ex_step_gc_fixed
        ex_step_gc_adaptive ex_fo_running ex_gc_running update_fo_slots_def update_gc_slots_def
        fo_fixed_slots_def gc_fixed_slots_def gc_adaptive_slots_def block_def lane_rd_def
        ex_macros s numeral_eq_Suc)
qed

section \<open>The claim about the errors of a lane\<close>

text \<open>
  Claim C6. \<^verbatim>\<open>mccc_step_gc_adaptive\<close> and \<^verbatim>\<open>mccc_step_fo_fixed\<close> go through all lanes of
  every batch, whatever happens in a lane (the plasma having at most \<^verbatim>\<open>MAX_SPECIES\<close>
  species, so that no lane writes outside its local arrays). After the call a running
  lane \<open>j\<close> whose own step has a result holds that result: the marker, the error flag \<^verbatim>\<open>err[j]\<close> returned by
  the lane's own push (and the step size and the Wiener array of the lane), computed
  from what lane \<open>j\<close> held before the call and from nothing that another lane holds or
  does, be it an error flag, a division by zero or a read outside its Wiener array. A
  running lane whose own step has no result is the only kind of lane that is set aside,
  and a lane that is not running keeps its entries. On the batches all of whose lanes
  have a result, \<open>mccc_step_gc_adaptive_lanes\<close> and \<open>mccc_step_fo_fixed_lanes\<close> end in the
  state of \<open>mccc_step_gc_adaptive\<close> and \<open>mccc_step_fo_fixed\<close> with no lane set aside.
\<close>

theorem lane_errors_stay_in_lane:
  "(pd_n_species pd \<le> int (MAX_SPECIES X) \<and> j < NSIMD X \<and> j < length (ba_p s) \<and> j < length hin \<and> j < length (ba_w s)
      \<and> j < length (ba_err s) \<and> j < length (ba_hout s) \<longrightarrow>
     (if gc_running (ba_p s ! j) then
        (case mccc_step_gc_adaptive_lane X pd tol (ba_p s ! j) (hin ! j) (ba_w s ! j)
                (drop (j * MCCC_NDIM X) rand5) (ba_err s ! j) of
           None \<Rightarrow> j \<in> snd (mccc_step_gc_adaptive_lanes X pd tol hin rand5 s)
         | Some l \<Rightarrow> j \<notin> snd (mccc_step_gc_adaptive_lanes X pd tol hin rand5 s)
             \<and> gc_adaptive_slots (fst (mccc_step_gc_adaptive_lanes X pd tol hin rand5 s)) j
                 = (Some (al_p l), Some (al_hout l), Some (al_w l), Some (al_err l)))
      else j \<notin> snd (mccc_step_gc_adaptive_lanes X pd tol hin rand5 s)
         \<and> gc_adaptive_slots (fst (mccc_step_gc_adaptive_lanes X pd tol hin rand5 s)) j
             = gc_adaptive_slots s j))
 \<and> (pd_n_species pd \<le> int (MAX_SPECIES X) \<and> j < NSIMD X \<and> j < length (ff_p t) \<and> j < length h \<and> j < length (ff_err t) \<longrightarrow>
     (if fo_running (ff_p t ! j) then
        (case mccc_step_fo_fixed_lane X pd (ff_p t ! j) (h ! j) (drop (j * 3) rnd) (ff_err t ! j) of
           None \<Rightarrow> j \<in> snd (mccc_step_fo_fixed_lanes X pd h rnd t)
         | Some (p', e') \<Rightarrow> j \<notin> snd (mccc_step_fo_fixed_lanes X pd h rnd t)
             \<and> fo_fixed_slots (fst (mccc_step_fo_fixed_lanes X pd h rnd t)) j = (Some p', Some e'))
      else j \<notin> snd (mccc_step_fo_fixed_lanes X pd h rnd t)
         \<and> fo_fixed_slots (fst (mccc_step_fo_fixed_lanes X pd h rnd t)) j = fo_fixed_slots t j))
 \<and> (mccc_step_gc_adaptive X pd tol hin rand5 s = Some s' \<longleftrightarrow>
      mccc_step_gc_adaptive_lanes X pd tol hin rand5 s = (s', {}))
 \<and> (mccc_step_fo_fixed X pd h rnd t = Some t' \<longleftrightarrow>
      mccc_step_fo_fixed_lanes X pd h rnd t = (t', {}))"
proof (intro conjI impI)
  assume "pd_n_species pd \<le> int (MAX_SPECIES X) \<and> j < NSIMD X \<and> j < length (ba_p s) \<and> j < length hin \<and> j < length (ba_w s)
      \<and> j < length (ba_err s) \<and> j < length (ba_hout s)"
  then show "if gc_running (ba_p s ! j) then
        (case mccc_step_gc_adaptive_lane X pd tol (ba_p s ! j) (hin ! j) (ba_w s ! j)
                (drop (j * MCCC_NDIM X) rand5) (ba_err s ! j) of
           None \<Rightarrow> j \<in> snd (mccc_step_gc_adaptive_lanes X pd tol hin rand5 s)
         | Some l \<Rightarrow> j \<notin> snd (mccc_step_gc_adaptive_lanes X pd tol hin rand5 s)
             \<and> gc_adaptive_slots (fst (mccc_step_gc_adaptive_lanes X pd tol hin rand5 s)) j
                 = (Some (al_p l), Some (al_hout l), Some (al_w l), Some (al_err l)))
      else j \<notin> snd (mccc_step_gc_adaptive_lanes X pd tol hin rand5 s)
         \<and> gc_adaptive_slots (fst (mccc_step_gc_adaptive_lanes X pd tol hin rand5 s)) j
             = gc_adaptive_slots s j"
    using step_gc_adaptive_lanes_lane[of j X s hin pd tol rand5] by blast
next
  assume "pd_n_species pd \<le> int (MAX_SPECIES X) \<and> j < NSIMD X \<and> j < length (ff_p t) \<and> j < length h \<and> j < length (ff_err t)"
  then show "if fo_running (ff_p t ! j) then
        (case mccc_step_fo_fixed_lane X pd (ff_p t ! j) (h ! j) (drop (j * 3) rnd) (ff_err t ! j) of
           None \<Rightarrow> j \<in> snd (mccc_step_fo_fixed_lanes X pd h rnd t)
         | Some (p', e') \<Rightarrow> j \<notin> snd (mccc_step_fo_fixed_lanes X pd h rnd t)
             \<and> fo_fixed_slots (fst (mccc_step_fo_fixed_lanes X pd h rnd t)) j = (Some p', Some e'))
      else j \<notin> snd (mccc_step_fo_fixed_lanes X pd h rnd t)
         \<and> fo_fixed_slots (fst (mccc_step_fo_fixed_lanes X pd h rnd t)) j = fo_fixed_slots t j"
    using step_fo_fixed_lanes_lane[of j X t h pd rnd] by blast
next
  show "mccc_step_gc_adaptive X pd tol hin rand5 s = Some s' \<longleftrightarrow>
      mccc_step_gc_adaptive_lanes X pd tol hin rand5 s = (s', {})"
    unfolding mccc_step_gc_adaptive_def mccc_step_gc_adaptive_lanes_def by (rule for_loop_lanes)
next
  show "mccc_step_fo_fixed X pd h rnd t = Some t' \<longleftrightarrow>
      mccc_step_fo_fixed_lanes X pd h rnd t = (t', {})"
    unfolding mccc_step_fo_fixed_def mccc_step_fo_fixed_lanes_def by (rule for_loop_lanes)
qed


text \<open>
  The theorem on four batches of two lanes. A marker at rest in lane 0, whose pitch
  \<^verbatim>\<open>vpar/vin\<close> is \<open>0/0\<close>: lane 0 has no result and lane 1 holds the result of its own step.
  A Wiener array that is full for lane 0 (\<open>hin = 10\<close>), the generator returning the index
  \<open>-1\<close>: lane 0 reads outside the array and lane 1 holds the result of its own step. A
  generator that sets the error flag 1 for lane 0 and returns a valid index: \<^verbatim>\<open>err\<close> is
  \<open>[1, 0]\<close>. A full-orbit marker on the axis (\<open>r = 0\<close>) in lane 0 beside a lane 1 with a
  negative time step, for which the push sets the error flag 3: lane 0 has no result
  and \<^verbatim>\<open>err\<close> is \<open>[0, 3]\<close>.
\<close>

theorem lane_errors_stay_in_lane_witness:
  "pd_n_species ex_plasma \<le> int (MAX_SPECIES (ex_externs 4 1 1))
 \<and> pd_n_species ex_plasma \<le> int (MAX_SPECIES (ex_externs_full 4 1 1))
 \<and> snd (mccc_step_gc_adaptive_lanes (ex_externs 4 1 1) ex_plasma (1 / 100) [1, 1] (ex_rand5 2 3)
     \<lparr>ba_p = [(ex_gc True)\<lparr>gc_vpar := 0\<rparr>, ex_gc True], ba_hout = [0, 0],
      ba_w = [ex_wiener, ex_wiener], ba_err = [0, 0]\<rparr>) = {0}
 \<and> gc_adaptive_slots (fst (mccc_step_gc_adaptive_lanes (ex_externs 4 1 1) ex_plasma (1 / 100) [1, 1]
     (ex_rand5 2 3)
     \<lparr>ba_p = [(ex_gc True)\<lparr>gc_vpar := 0\<rparr>, ex_gc True], ba_hout = [0, 0],
      ba_w = [ex_wiener, ex_wiener], ba_err = [0, 0]\<rparr>)) 1 =
   (Some (ex_gc True\<lparr>gc_vpar := 1 / 2, gc_rho := 1\<rparr>), Some (- (2 / 5)),
    Some \<lparr>w_time = [0, 1], w_wiener = [0, 0, 0, 0, 0, 1, 1, 1, 2, 3]\<rparr>, Some 0)
 \<and> mccc_step_gc_adaptive_lane (ex_externs 4 1 1) ex_plasma (1 / 100)
      ((ex_gc True)\<lparr>gc_vpar := 0\<rparr>) 1 ex_wiener (ex_rand5 2 3) 0 = None
 \<and> snd (mccc_step_gc_adaptive_lanes (ex_externs_full 4 1 1) ex_plasma (1 / 100) [10, 1] (ex_rand5 2 3)
     \<lparr>ba_p = [ex_gc True, ex_gc True], ba_hout = [0, 0],
      ba_w = [ex_wiener, ex_wiener], ba_err = [0, 0]\<rparr>) = {0}
 \<and> gc_adaptive_slots (fst (mccc_step_gc_adaptive_lanes (ex_externs_full 4 1 1) ex_plasma (1 / 100)
     [10, 1] (ex_rand5 2 3)
     \<lparr>ba_p = [ex_gc True, ex_gc True], ba_hout = [0, 0],
      ba_w = [ex_wiener, ex_wiener], ba_err = [0, 0]\<rparr>)) 1 =
   (Some (ex_gc True\<lparr>gc_vpar := 1 / 2, gc_rho := 1\<rparr>), Some (- (2 / 5)),
    Some \<lparr>w_time = [0, 1], w_wiener = [0, 0, 0, 0, 0, 1, 1, 1, 2, 3]\<rparr>, Some 0)
 \<and> mccc_wiener_generate (ex_externs_full 4 1 1) ex_wiener 10 (ex_rand5 2 3) 0 = (ex_wiener, - 1, 1)
 \<and> mccc_step_gc_adaptive_lanes (ex_externs 4 1 1) ex_plasma (1 / 100) [10, 1] (ex_rand5 2 3)
     \<lparr>ba_p = [ex_gc True, ex_gc True], ba_hout = [0, 0], ba_w = [ex_wiener, ex_wiener],
      ba_err = [0, 0]\<rparr> =
   (\<lparr>ba_p = [ex_gc True\<lparr>gc_vpar := 1 / 2, gc_rho := 1\<rparr>, ex_gc True\<lparr>gc_vpar := 1 / 2, gc_rho := 1\<rparr>],
     ba_hout = [- 4, - (2 / 5)],
     ba_w = [\<lparr>w_time = [0, 10], w_wiener = [0, 0, 0, 0, 0, 1, 1, 1, 2, 3]\<rparr>,
             \<lparr>w_time = [0, 1], w_wiener = [0, 0, 0, 0, 0, 1, 1, 1, 2, 3]\<rparr>],
     ba_err = [1, 0]\<rparr>, {})
 \<and> snd (mccc_step_fo_fixed_lanes (ex_externs 4 1 1) ex_plasma [1, - 1] [1, 1, 1, 1, 1, 1]
     \<lparr>ff_p = [(ex_fo True)\<lparr>fo_r := 0\<rparr>, ex_fo True], ff_err = [0, 0]\<rparr>) = {0}
 \<and> fo_fixed_slots (fst (mccc_step_fo_fixed_lanes (ex_externs 4 1 1) ex_plasma [1, - 1]
     [1, 1, 1, 1, 1, 1]
     \<lparr>ff_p = [(ex_fo True)\<lparr>fo_r := 0\<rparr>, ex_fo True], ff_err = [0, 0]\<rparr>)) 1 = (Some (ex_fo True), Some 3)
 \<and> mccc_step_fo_fixed_lane (ex_externs 4 1 1) ex_plasma ((ex_fo True)\<lparr>fo_r := 0\<rparr>) 1
      [1, 1, 1, 1, 1, 1] 0 = None"
proof -
  let ?X = "ex_externs 4 1 1"
  let ?s = "\<lparr>ba_p = [(ex_gc True)\<lparr>gc_vpar := 0\<rparr>, ex_gc True], ba_hout = [0, 0],
      ba_w = [ex_wiener, ex_wiener], ba_err = [0, 0]\<rparr>"
  let ?e = "\<lparr>ba_p = [ex_gc True, ex_gc True], ba_hout = [0, 0], ba_w = [ex_wiener, ex_wiener],
      ba_err = [0, 0]\<rparr>"
  let ?t = "\<lparr>ff_p = [(ex_fo True)\<lparr>fo_r := 0\<rparr>, ex_fo True], ff_err = [0, 0]\<rparr>"
  note rest = lane_errors_stay_in_lane[where X = ?X and pd = ex_plasma and tol = "1 / 100"
      and hin = "[1, 1]" and ?rand5.0 = "ex_rand5 2 3" and s = ?s
      and h = "[1, - 1]" and rnd = "[1, 1, 1, 1, 1, 1]" and t = ?t]
  note code = lane_errors_stay_in_lane[where X = ?X and pd = ex_plasma and tol = "1 / 100"
      and hin = "[10, 1]" and ?rand5.0 = "ex_rand5 2 3" and s = ?e
      and h = "[1, - 1]" and rnd = "[1, 1, 1, 1, 1, 1]" and t = ?t]
  note full = lane_errors_stay_in_lane[where X = "ex_externs_full 4 1 1" and pd = ex_plasma
      and tol = "1 / 100" and hin = "[10, 1]" and ?rand5.0 = "ex_rand5 2 3" and s = ?e
      and h = "[1, - 1]" and rnd = "[1, 1, 1, 1, 1, 1]" and t = ?t]
  have m: "MAX_SPECIES (ex_externs_full 4 1 1) = 2" "pd_n_species ex_plasma = 2"
    by (simp_all add: ex_externs_full_def ex_externs_def ex_plasma_def)
  have r: "mccc_step_gc_adaptive_lane ?X ex_plasma (1 / 100)
      ((ex_gc True)\<lparr>gc_vpar := 0\<rparr>) 1 ex_wiener (ex_rand5 2 3) 0 = None"
    by (rule step_gc_adaptive_lane_at_rest) (simp_all add: ex_gc_def)
  have g: "mccc_wiener_generate (ex_externs_full 4 1 1) ex_wiener 10 (ex_rand5 2 3) 0 = (ex_wiener, - 1, 1)"
    by (simp add: ex_externs_full_def)
  from code[THEN conjunct2, THEN conjunct2, THEN conjunct1] ex_step_gc_adaptive_error
  have c: "mccc_step_gc_adaptive_lanes ?X ex_plasma (1 / 100) [10, 1] (ex_rand5 2 3) ?e =
   (\<lparr>ba_p = [ex_gc True\<lparr>gc_vpar := 1 / 2, gc_rho := 1\<rparr>, ex_gc True\<lparr>gc_vpar := 1 / 2, gc_rho := 1\<rparr>],
     ba_hout = [- 4, - (2 / 5)],
     ba_w = [\<lparr>w_time = [0, 10], w_wiener = [0, 0, 0, 0, 0, 1, 1, 1, 2, 3]\<rparr>,
             \<lparr>w_time = [0, 1], w_wiener = [0, 0, 0, 0, 0, 1, 1, 1, 2, 3]\<rparr>],
     ba_err = [1, 0]\<rparr>, {})"
    by blast
  from rest[where j = 0] rest[where j = 1] full[where j = 0] full[where j = 1]
  show ?thesis
    by (simp add: ex_lanes_rest ex_lanes_full ex_lanes_fo ex_fo_lane_axis r g c m ex_macros
        gc_adaptive_slots_def fo_fixed_slots_def lane_rd_def)
qed

section \<open>The claim about the cached field\<close>

text \<open>
  Claim C10. After \<^verbatim>\<open>mccc_step_gc_fixed\<close> or \<^verbatim>\<open>mccc_step_gc_adaptive\<close> has run, the marker
  of every running lane \<open>j\<close> holds the field at its new position: the three cached field
  components, their derivatives and the cached rho are the values of
  \<^verbatim>\<open>B_field_eval_B_dB\<close>, \<^verbatim>\<open>B_field_eval_psi\<close> and \<^verbatim>\<open>B_field_eval_rho\<close> at the \<open>(r, phi, z)\<close>
  the lane has after the step.
\<close>

theorem field_cache_follows_position:
  "(mccc_step_gc_fixed X pd h rnd s = Some s' \<and> j < NSIMD X \<and> gc_running (bf_p s ! j) \<longrightarrow>
      j < length (bf_p s') \<and> field_cache_fresh X (bf_p s' ! j))
 \<and> (mccc_step_gc_adaptive X pd tol hin rand5 t = Some t' \<and> j < NSIMD X \<and> gc_running (ba_p t ! j) \<longrightarrow>
      j < length (ba_p t') \<and> field_cache_fresh X (ba_p t' ! j))"
proof (rule conjI; rule impI; elim conjE)
  assume a: "mccc_step_gc_fixed X pd h rnd s = Some s'" "j < NSIMD X" and r: "gc_running (bf_p s ! j)"
  from a show "j < length (bf_p s') \<and> field_cache_fresh X (bf_p s' ! j)"
  proof (cases rule: step_gc_fixed_lane_of_batch)
    case idle
    then show ?thesis using r by simp
  next
    case (run p' e')
    from run(6) have "j < length (bf_p s')" "bf_p s' ! j = p'"
      by (auto simp: gc_fixed_slots_def lane_rd_def split: if_splits)
    then show ?thesis using gc_fixed_lane_fresh[OF run(5)] by simp
  qed
next
  assume a: "mccc_step_gc_adaptive X pd tol hin rand5 t = Some t'" "j < NSIMD X"
    and r: "gc_running (ba_p t ! j)"
  from a show "j < length (ba_p t') \<and> field_cache_fresh X (ba_p t' ! j)"
  proof (cases rule: step_gc_adaptive_lane_of_batch)
    case idle
    then show ?thesis using r by simp
  next
    case (run l)
    from run(8) have "j < length (ba_p t')" "ba_p t' ! j = al_p l"
      by (auto simp: gc_adaptive_slots_def lane_rd_def split: if_splits)
    moreover from gc_adaptive_lane_commit[OF run(7)] have "field_cache_fresh X (al_p l)"
      using gc_adaptive_commit_fresh by blast
    ultimately show ?thesis by simp
  qed
qed

text \<open>The theorem on the concrete batch: lane 0 runs, and its rho, stale at \<open>1/2\<close> before
  the step, is the rho of its position after it.\<close>

theorem field_cache_follows_position_witness:
  "(case mccc_step_gc_fixed (ex_externs 4 1 1) ex_plasma [1, 1] (ex_rand5 2 3)
           \<lparr>bf_p = [ex_gc True, ex_gc False], bf_err = [0, 0]\<rparr> of
      None \<Rightarrow> False
    | Some s' \<Rightarrow> gc_running (ex_gc True) \<and> field_cache_fresh (ex_externs 4 1 1) (bf_p s' ! 0))
 \<and> (case mccc_step_gc_adaptive (ex_externs 4 1 1) ex_plasma (1 / 100) [1, 1] (ex_rand5 2 3)
           \<lparr>ba_p = [ex_gc True, ex_gc False], ba_hout = [0, 0], ba_w = [ex_wiener, ex_wiener],
            ba_err = [0, 0]\<rparr> of
      None \<Rightarrow> False
    | Some t' \<Rightarrow> field_cache_fresh (ex_externs 4 1 1) (ba_p t' ! 0))"
  using field_cache_follows_position[of "ex_externs 4 1 1" ex_plasma "[1, 1]" "ex_rand5 2 3"
      "\<lparr>bf_p = [ex_gc True, ex_gc False], bf_err = [0, 0]\<rparr>"
      "\<lparr>bf_p = [ex_gc True\<lparr>gc_rho := 1\<rparr>, ex_gc False], bf_err = [0, 0]\<rparr>"
      0 "1 / 100" "[1, 1]" "ex_rand5 2 3"
      "\<lparr>ba_p = [ex_gc True, ex_gc False], ba_hout = [0, 0], ba_w = [ex_wiener, ex_wiener],
        ba_err = [0, 0]\<rparr>"
      "\<lparr>ba_p = [ex_gc True\<lparr>gc_vpar := 1 / 2, gc_rho := 1\<rparr>, ex_gc False], ba_hout = [- (2 / 5), 0],
        ba_w = [\<lparr>w_time = [0, 1], w_wiener = [0, 0, 0, 0, 0, 1, 1, 1, 2, 3]\<rparr>, ex_wiener],
        ba_err = [0, 0]\<rparr>"]
  by (simp add: ex_step_gc_fixed ex_step_gc_adaptive ex_macros ex_gc_running)

section \<open>The claim about the cutoff speed\<close>

text \<open>
  Claim C7. The cutoff passed to the guiding-centre pushes is not always positive, and a
  division by the speed precedes the push. In mccc/mccc.c the fixed step passes
  \<^verbatim>\<open>cutoff = 0\<close>. In simulate/mccc/mccc.c the fixed and the adaptive step pass
  \<^verbatim>\<open>0.1*sqrt(temp[0]/p->mass[i])\<close>; and for a marker \<open>q\<close> at rest (\<^verbatim>\<open>vpar\<close> and \<^verbatim>\<open>mu\<close>
  zero) the pitch \<^verbatim>\<open>xiin = p->vpar[i]/vin\<close> that both steps compute before the push has
  no finite value, \<^verbatim>\<open>vin\<close> being zero.
\<close>

theorem cutoff_floor_missing:
  "(legacy_gc_fixed_push_in X Bf pd p h rnd err = Some a \<longrightarrow> pi_cutoff a = 0)
 \<and> (gc_fixed_push_in X pd p h rnd err = Some b \<longrightarrow>
      cutoff_speed (temp_to_joule X pd (snd (plasma_1d_eval_densandtemp X (gc_rho p) pd))) (gc_mass p)
        = Some (pi_cutoff b))
 \<and> (gc_adaptive_push_in X pd tol p hin w rand5 err = Some (c, w', k) \<longrightarrow>
      cutoff_speed (temp_to_joule X pd (snd (plasma_1d_eval_densandtemp X (gc_rho p) pd))) (gc_mass p)
        = Some (pi_cutoff c))
 \<and> (gc_vpar q = 0 \<and> gc_mu q = 0 \<longrightarrow>
      gc_fixed_push_in X pd q h rnd err = None
    \<and> gc_adaptive_push_in X pd tol q hin w rand5 err = None)"
  by (intro conjI impI; (elim conjE)?;
      (erule legacy_push_in_cutoff | erule gc_fixed_push_in_cutoff
       | erule gc_adaptive_push_in_cutoff | erule (1) gc_fixed_push_in_at_rest
       | erule (1) gc_adaptive_push_in_at_rest))

theorem cutoff_floor_missing_witness:
  "(case legacy_gc_fixed_push_in (ex_externs 1 1 1) (\<lambda>r phi z. (0, 1, 0)) ex_plasma (ex_gc True) 1
           [1, 1, 1, 1, 1] 0 of
      Some a \<Rightarrow> pi_cutoff a = 0 \<and> pi_vin a = 1 | None \<Rightarrow> False)
 \<and> (case gc_fixed_push_in (ex_externs 1 1 1) ex_plasma (ex_gc True) 1 [1, 1, 1, 1, 1] 0 of
      Some b \<Rightarrow> pi_cutoff b = 1 / 10 \<and> pi_vin b = 1 | None \<Rightarrow> False)
 \<and> (case gc_adaptive_push_in (ex_externs 1 1 1) ex_plasma (1 / 100) (ex_gc True) 1 ex_wiener
           [1, 1, 1, 1, 1] 0 of
      Some (c, w', k) \<Rightarrow> pi_cutoff c = 1 / 10 \<and> pi_vin c = 1 | None \<Rightarrow> False)
 \<and> gc_vpar ((ex_gc True)\<lparr>gc_vpar := 0\<rparr>) = 0 \<and> gc_mu ((ex_gc True)\<lparr>gc_vpar := 0\<rparr>) = 0
 \<and> gc_fixed_push_in (ex_externs 1 1 1) ex_plasma ((ex_gc True)\<lparr>gc_vpar := 0\<rparr>) 1 [1, 1, 1, 1, 1] 0 = None
 \<and> gc_adaptive_push_in (ex_externs 1 1 1) ex_plasma (1 / 100) ((ex_gc True)\<lparr>gc_vpar := 0\<rparr>) 1
      ex_wiener [1, 1, 1, 1, 1] 0 = None"
proof -
  let ?a = "\<lparr>pi_K = 0, pi_nu = 2, pi_Dpara = 2, pi_DX = 2, pi_B = (0, 1, 0), pi_dt = 1,
            pi_noise = [1, 1, 1, 1, 1], pi_vin = 1, pi_xiin = 1, pi_Xin = (1, 0, 0),
            pi_cutoff = 0, pi_err = 0\<rparr> :: push_gc_in"
  have e: "legacy_gc_fixed_push_in (ex_externs 1 1 1) (\<lambda>r phi z. (0, 1, 0)) ex_plasma (ex_gc True) 1
           [1, 1, 1, 1, 1] 0 = Some ?a"
    by (rule ex_legacy_push_in)
  have z: "gc_vpar ((ex_gc True)\<lparr>gc_vpar := 0\<rparr>) = 0" "gc_mu ((ex_gc True)\<lparr>gc_vpar := 0\<rparr>) = 0"
    by (simp_all add: ex_gc_def)
  from cutoff_floor_missing[of "ex_externs 1 1 1" "\<lambda>r phi z. (0, 1, 0)" ex_plasma "ex_gc True" 1
      "[1, 1, 1, 1, 1]" 0 ?a _ "1 / 100" 1 ex_wiener "[1, 1, 1, 1, 1]" _ _ _
      "(ex_gc True)\<lparr>gc_vpar := 0\<rparr>"] e z
  show ?thesis by (simp add: ex_fixed_push_in ex_push_in)
qed

section \<open>The claim about the species list of the readers\<close>

text \<open>
  Claim C8. When \<^verbatim>\<open>hdf5_plasma_read_1D\<close> or \<^verbatim>\<open>hdf5_plasma_read_1DS\<close> returns 0 without
  having written outside an array of \<^verbatim>\<open>MAX_SPECIES\<close> cells, the offload struct holds the
  electron in cell 0 (charge \<^verbatim>\<open>-CONST_E\<close>, mass \<^verbatim>\<open>CONST_M_E\<close>), the ions of the file in
  the cells after it, and the species count \<^verbatim>\<open>nion + 1\<close>, which is then at most
  \<^verbatim>\<open>MAX_SPECIES\<close>. The readers do not compare \<^verbatim>\<open>nion\<close> with \<^verbatim>\<open>MAX_SPECIES\<close>.
\<close>

theorem species_list_of_plasma_readers:
  "(hdf5_plasma_read_1D M f s0 = Returned 0 s \<longrightarrow>
      electron_then_ions M f (rs_od s) \<and> od_n_species (rs_od s) \<le> int (MAX_SPECIES M))
 \<and> (hdf5_plasma_read_1DS M f t0 = Returned 0 t \<longrightarrow>
      electron_then_ions M f (rs_od t) \<and> od_n_species (rs_od t) \<le> int (MAX_SPECIES M))"
proof (rule conjI; rule impI)
  assume a: "hdf5_plasma_read_1D M f s0 = Returned 0 s"
  show "electron_then_ions M f (rs_od s) \<and> od_n_species (rs_od s) \<le> int (MAX_SPECIES M)"
  proof (rule reader_species[OF a[unfolded hdf5_plasma_read_1D_def]])
    fix g t c s'
    assume "g \<in> set [read_scalar (f_nion f) (\<lambda>v s. s\<lparr>rs_n_ions := v\<rparr>),
          read_scalar (f_nrho f) (\<lambda>v s. s\<lparr>rs_n_rho := v\<rparr>),
          set_n_species,
          \<lambda>s. Next (s\<lparr>rs_od := (rs_od s)\<lparr>od_n_rho := rs_n_rho s\<rparr>\<rparr>)] \<union>
      set [\<lambda>s. Next (s\<lparr>rs_od := (rs_od s)\<lparr>od_offload_array_length :=
                  3 * rs_n_rho s + od_n_species (rs_od s) * rs_n_rho s\<rparr>\<rparr>),
          \<lambda>s. Next (alloc_array s (od_offload_array_length (rs_od s))),
          \<lambda>s. read_doubles (f_rho f) 0 s,
          \<lambda>s. read_doubles (f_etemperature f) (rs_n_rho s) s,
          \<lambda>s. read_doubles (f_edensity f) (rs_n_rho s * 3) s,
          \<lambda>s. read_doubles (f_iontemperature f) (rs_n_rho s * 2) s,
          \<lambda>s. read_doubles (f_iondensity f) (rs_n_rho s * 4) s,
          \<lambda>s. scale_temperatures M (rs_n_rho s) (rs_n_rho s * 2) s]"
      and "g t = Returned c s'"
    then show "c = 1"
      by (auto simp: set_n_species_def
          dest: read_scalar_code read_doubles_code scale_temperatures_code)
  next
    fix s1
    assume "run_steps [read_scalar (f_nion f) (\<lambda>v s. s\<lparr>rs_n_ions := v\<rparr>),
          read_scalar (f_nrho f) (\<lambda>v s. s\<lparr>rs_n_rho := v\<rparr>),
          set_n_species,
          \<lambda>s. Next (s\<lparr>rs_od := (rs_od s)\<lparr>od_n_rho := rs_n_rho s\<rparr>\<rparr>)] s0 = Next s1"
    then show "\<exists>n. f_nion f = Some n \<and> rs_n_ions s1 = n \<and> od_n_species (rs_od s1) = n + 1"
      by (auto simp: run_steps_Cons_Next run_steps_Nil_Next read_scalar_Next set_n_species_def
          simp del: run_steps.simps)
  next
    fix g t t'
    assume "g \<in> set [\<lambda>s. Next (s\<lparr>rs_od := (rs_od s)\<lparr>od_offload_array_length :=
                  3 * rs_n_rho s + od_n_species (rs_od s) * rs_n_rho s\<rparr>\<rparr>),
          \<lambda>s. Next (alloc_array s (od_offload_array_length (rs_od s))),
          \<lambda>s. read_doubles (f_rho f) 0 s,
          \<lambda>s. read_doubles (f_etemperature f) (rs_n_rho s) s,
          \<lambda>s. read_doubles (f_edensity f) (rs_n_rho s * 3) s,
          \<lambda>s. read_doubles (f_iontemperature f) (rs_n_rho s * 2) s,
          \<lambda>s. read_doubles (f_iondensity f) (rs_n_rho s * 4) s,
          \<lambda>s. scale_temperatures M (rs_n_rho s) (rs_n_rho s * 2) s]"
      and "g t = Next t'"
    then show "od_n_species (rs_od t') = od_n_species (rs_od t) \<and> od_charge (rs_od t') = od_charge (rs_od t)
       \<and> od_mass (rs_od t') = od_mass (rs_od t)"
      by (auto simp: alloc_array_od dest!: read_doubles_od scale_temperatures_od)
  qed
next
  assume a: "hdf5_plasma_read_1DS M f t0 = Returned 0 t"
  show "electron_then_ions M f (rs_od t) \<and> od_n_species (rs_od t) \<le> int (MAX_SPECIES M)"
  proof (rule reader_species[OF a[unfolded hdf5_plasma_read_1DS_def]])
    fix g u c s'
    assume "g \<in> set [read_scalar (f_nion f) (\<lambda>v s. s\<lparr>rs_n_ions := v\<rparr>),
          read_scalar (f_nrho f) (\<lambda>v s. s\<lparr>rs_od := (rs_od s)\<lparr>od_n_rho := v\<rparr>\<rparr>),
          read_scalar (f_rhomin f) (\<lambda>v s. s\<lparr>rs_od := (rs_od s)\<lparr>od_rho_min := v\<rparr>\<rparr>),
          read_scalar (f_rhomax f) (\<lambda>v s. s\<lparr>rs_od := (rs_od s)\<lparr>od_rho_max := v\<rparr>\<rparr>),
          set_n_species,
          \<lambda>s. Next (s\<lparr>rs_n_rho := od_n_rho (rs_od s)\<rparr>)] \<union>
      set [\<lambda>s. Next (s\<lparr>rs_od := (rs_od s)\<lparr>od_offload_array_length :=
                  2 * rs_n_rho s + od_n_species (rs_od s) * rs_n_rho s\<rparr>\<rparr>),
          \<lambda>s. Next (alloc_array s (od_offload_array_length (rs_od s))),
          \<lambda>s. read_doubles (f_etemperature f) 0 s,
          \<lambda>s. read_doubles (f_edensity f) (rs_n_rho s * 2) s,
          \<lambda>s. read_doubles (f_iontemperature f) (rs_n_rho s * 1) s,
          \<lambda>s. read_doubles (f_iondensity f) (rs_n_rho s * 3) s,
          \<lambda>s. scale_temperatures M 0 (rs_n_rho s * 1) s]"
      and "g u = Returned c s'"
    then show "c = 1"
      by (auto simp: set_n_species_def
          dest: read_scalar_code read_doubles_code scale_temperatures_code)
  next
    fix s1
    assume "run_steps [read_scalar (f_nion f) (\<lambda>v s. s\<lparr>rs_n_ions := v\<rparr>),
          read_scalar (f_nrho f) (\<lambda>v s. s\<lparr>rs_od := (rs_od s)\<lparr>od_n_rho := v\<rparr>\<rparr>),
          read_scalar (f_rhomin f) (\<lambda>v s. s\<lparr>rs_od := (rs_od s)\<lparr>od_rho_min := v\<rparr>\<rparr>),
          read_scalar (f_rhomax f) (\<lambda>v s. s\<lparr>rs_od := (rs_od s)\<lparr>od_rho_max := v\<rparr>\<rparr>),
          set_n_species,
          \<lambda>s. Next (s\<lparr>rs_n_rho := od_n_rho (rs_od s)\<rparr>)] t0 = Next s1"
    then show "\<exists>n. f_nion f = Some n \<and> rs_n_ions s1 = n \<and> od_n_species (rs_od s1) = n + 1"
      by (auto simp: run_steps_Cons_Next run_steps_Nil_Next read_scalar_Next set_n_species_def
          simp del: run_steps.simps)
  next
    fix g u u'
    assume "g \<in> set [\<lambda>s. Next (s\<lparr>rs_od := (rs_od s)\<lparr>od_offload_array_length :=
                  2 * rs_n_rho s + od_n_species (rs_od s) * rs_n_rho s\<rparr>\<rparr>),
          \<lambda>s. Next (alloc_array s (od_offload_array_length (rs_od s))),
          \<lambda>s. read_doubles (f_etemperature f) 0 s,
          \<lambda>s. read_doubles (f_edensity f) (rs_n_rho s * 2) s,
          \<lambda>s. read_doubles (f_iontemperature f) (rs_n_rho s * 1) s,
          \<lambda>s. read_doubles (f_iondensity f) (rs_n_rho s * 3) s,
          \<lambda>s. scale_temperatures M 0 (rs_n_rho s * 1) s]"
      and "g u = Next u'"
    then show "od_n_species (rs_od u') = od_n_species (rs_od u) \<and> od_charge (rs_od u') = od_charge (rs_od u)
       \<and> od_mass (rs_od u') = od_mass (rs_od u)"
      by (auto simp: alloc_array_od dest!: read_doubles_od scale_temperatures_od)
  qed
qed

theorem species_list_of_plasma_readers_witness:
  "(case hdf5_plasma_read_1D ex_consts (ex_file 1) ex_reader of
      Returned c s \<Rightarrow> c = 0 \<and> electron_then_ions ex_consts (ex_file 1) (rs_od s)
         \<and> od_n_species (rs_od s) = 2 \<and> od_n_species (rs_od s) \<le> int (MAX_SPECIES ex_consts)
         \<and> od_charge (rs_od s) 0 = - 2 \<and> od_charge (rs_od s) 1 = 2
         \<and> od_mass (rs_od s) 0 = 3 \<and> od_mass (rs_od s) 1 = 10
    | _ \<Rightarrow> False)
 \<and> (case hdf5_plasma_read_1DS ex_consts (ex_file 1) ex_reader_S of
      Returned c s \<Rightarrow> c = 0 \<and> electron_then_ions ex_consts (ex_file 1) (rs_od s)
         \<and> od_n_species (rs_od s) = 2 \<and> od_n_species (rs_od s) \<le> int (MAX_SPECIES ex_consts)
         \<and> od_charge (rs_od s) 0 = - 2 \<and> od_charge (rs_od s) 1 = 2
         \<and> od_mass (rs_od s) 0 = 3 \<and> od_mass (rs_od s) 1 = 10
    | _ \<Rightarrow> False)"
proof -
  from ex_read_1D obtain s where s: "hdf5_plasma_read_1D ex_consts (ex_file 1) ex_reader = Returned 0 s"
    "od_n_species (rs_od s) = 2" "od_charge (rs_od s) 0 = - 2" "od_charge (rs_od s) 1 = 2"
    "od_mass (rs_od s) 0 = 3" "od_mass (rs_od s) 1 = 10" by blast
  from ex_read_1DS obtain t where t: "hdf5_plasma_read_1DS ex_consts (ex_file 1) ex_reader_S = Returned 0 t"
    "od_n_species (rs_od t) = 2" "od_charge (rs_od t) 0 = - 2" "od_charge (rs_od t) 1 = 2"
    "od_mass (rs_od t) 0 = 3" "od_mass (rs_od t) 1 = 10" by blast
  from species_list_of_plasma_readers[of ex_consts "ex_file 1" ex_reader s ex_reader_S t] s t
  show ?thesis by simp
qed

text \<open>
  With \<^verbatim>\<open>MAX_SPECIES\<close> 8 and a file of 8 ions, each reader stores the species count 9 and
  then writes \<^verbatim>\<open>charge[8]\<close>, past the end of the array.
\<close>

theorem species_count_counterexample:
  "(case hdf5_plasma_read_1D ex_consts (ex_file 8) ex_reader of
      OutOfBounds s \<Rightarrow> od_n_species (rs_od s) = 9
         \<and> int (MAX_SPECIES ex_consts) < od_n_species (rs_od s)
    | _ \<Rightarrow> False)
 \<and> (case hdf5_plasma_read_1DS ex_consts (ex_file 8) ex_reader_S of
      OutOfBounds s \<Rightarrow> od_n_species (rs_od s) = 9
         \<and> int (MAX_SPECIES ex_consts) < od_n_species (rs_od s)
    | _ \<Rightarrow> False)"
  by (simp add: reader_defs ex_reader_def ex_reader_S_def upt_0_8)

end
